theory Spec2Isabelle
  imports Complex_Main
begin

unbundle bit_operations_syntax

section \<open>Values of the C++ program\<close>

text \<open>
  The supervisor \<^verbatim>\<open>src/lrun.cc\<close> is modelled function by function. Conventions:
  \<^item> \<^verbatim>\<open>long long\<close> values that are only compared, stored and printed are \<^typ>\<open>int\<close>;
    a cast to a 32-bit type is written out with \<open>mod 2 ^ 32\<close>;
  \<^item> a \<^verbatim>\<open>double\<close> is a \<^typ>\<open>real\<close>: the finite doubles are a subset of the reals and
    their comparison is the comparison of reals. NaN, the infinities, the negative zero and
    the rounding of arithmetic are outside the model;
  \<^item> \<^verbatim>\<open>std::string\<close> and the elements of \<^verbatim>\<open>argv\<close> are \<^typ>\<open>string\<close>;
  \<^item> everything the program asks the kernel, the cgroup manager or the string and path
    helpers (\<^verbatim>\<open>cgroup.h\<close>, \<^verbatim>\<open>fs.h\<close>, \<^verbatim>\<open>strconv.h\<close>, \<^verbatim>\<open>common.h\<close> are not part of the
    sources at hand) is read from a record of answers that is a parameter of the model;
  \<^item> every call that changes the world is an \<open>event\<close> of the trace the model returns;
    the logging macros \<^verbatim>\<open>INFO\<close>, \<^verbatim>\<open>WARNING\<close>, \<^verbatim>\<open>ERROR\<close> leave no event.
\<close>

subsection \<open>Decimal output\<close>

definition digit_char :: "nat \<Rightarrow> char" where
  "digit_char d = ''0123456789'' ! (d mod 10)"

function show_nat :: "nat \<Rightarrow> string" where
  "show_nat n = (if n < 10 then [digit_char n] else show_nat (n div 10) @ [digit_char (n mod 10)])"
  by pat_completeness auto
termination
  by (relation "measure id") auto

text \<open>\<^verbatim>\<open>%d\<close>, \<^verbatim>\<open>%lld\<close> and \<^verbatim>\<open>strconv::from_long\<close>: a sign and the decimal digits.\<close>

definition show_int :: "int \<Rightarrow> string" where
  "show_int i = (if i < 0 then CHR ''-'' # show_nat (nat (- i)) else show_nat (nat i))"

text \<open>
  \<^verbatim>\<open>%.3f\<close>: the value rounded to a multiple of 1/1000, ties to the even neighbour (the
  default rounding mode), printed with exactly three digits after the point.
\<close>

definition round_half_even :: "real \<Rightarrow> int" where
  "round_half_even y =
     (let f = \<lfloor>y\<rfloor>; d = y - of_int f
      in if d < 1 / 2 then f else if 1 / 2 < d then f + 1 else if even f then f else f + 1)"

definition show_f3 :: "real \<Rightarrow> string" where
  "show_f3 x =
     (let n = nat (round_half_even (\<bar>x\<bar> * 1000))
      in (if x < 0 then ''-'' else '''') @ show_nat (n div 1000) @ ''.'' @
         [digit_char (n div 100), digit_char (n div 10), digit_char n])"

subsection \<open>Wait statuses and signals\<close>

text \<open>
  The macros of \<^verbatim>\<open><sys/wait.h>\<close> as the C library defines them on Linux, on the \<^verbatim>\<open>int\<close>
  that \<^verbatim>\<open>waitpid\<close> stores: the low seven bits are the terminating signal, \<open>0\<close> for an exit
  and \<open>0x7f\<close> for a stopped child; the next byte is the exit status.
\<close>

definition WTERMSIG :: "int \<Rightarrow> int" where
  "WTERMSIG s = s AND 0x7f"

definition WEXITSTATUS :: "int \<Rightarrow> int" where
  "WEXITSTATUS s = drop_bit 8 (s AND 0xff00)"

definition WIFEXITED :: "int \<Rightarrow> bool" where
  "WIFEXITED s = (WTERMSIG s = 0)"

definition WIFSIGNALED :: "int \<Rightarrow> bool" where
  "WIFSIGNALED s = (0 < WTERMSIG s \<and> WTERMSIG s < 0x7f)"

definition SIGXCPU :: int where "SIGXCPU = 24"
definition SIGXFSZ :: int where "SIGXFSZ = 25"
definition EBADF :: int where "EBADF = 9"
definition ECHILD :: int where "ECHILD = 10"

subsection \<open>The configuration\<close>

datatype rlimit_resource =
  RLIMIT_CPU | RLIMIT_FSIZE | RLIMIT_STACK | RLIMIT_CORE | RLIMIT_NPROC | RLIMIT_NOFILE
| RLIMIT_NICE | RLIMIT_RTPRIO

text \<open>
  The two enumerators of \<^verbatim>\<open>seccomp::action_t\<close> that the program uses. Their meaning is
  stated by the program's own help text: without a prefix "Default action for unlisted
  syscalls is to return EPERM", with the prefix \<^verbatim>\<open>!\<close> "Default action for unlisted syscalls
  is to allow".
\<close>

datatype action_t = DEFAULT_EPERM | OTHERS_EPERM



definition CLONE_NEWUTS :: int where "CLONE_NEWUTS = 0x04000000"
definition CLONE_NEWIPC :: int where "CLONE_NEWIPC = 0x08000000"
definition CLONE_NEWPID :: int where "CLONE_NEWPID = 0x20000000"
definition CLONE_NEWNET :: int where "CLONE_NEWNET = 0x40000000"
definition MS_RDONLY :: int where "MS_RDONLY = 1"

record uts_names =
  nodename :: string
  domainname :: string
  sysname :: string
  release :: string
  version :: string

text \<open>\<^verbatim>\<open>Cgroup::spawn_arg\<close>, with the fields the program assigns.\<close>

record spawn_arg =
  args :: "string list"
  nice :: int
  uid :: nat
  gid :: nat
  umask :: nat
  chroot_path :: string
  chdir_path :: string
  remount_dev :: bool
  reset_env :: bool
  no_new_privs :: bool
  clone_flags :: int
  rlimits :: "rlimit_resource \<rightharpoonup> int"
  syscall_action :: action_t
  syscall_list :: string
  uts :: uts_names
  remount_list :: "(string \<times> int) list"
  bindfs_list :: "(string \<times> string) list"
  bindfs_dest_set :: "string set"
  tmpfs_list :: "(string \<times> int) list"
  env_list :: "(string \<times> string) list"
  keep_fds :: "int set"
  cmd_list :: "string list"

record config =
  arg :: spawn_arg
  cpu_time_limit :: real
  real_time_limit :: real
  memory_limit :: int
  output_limit :: int
  enable_devices_whitelist :: bool
  enable_network :: bool
  enable_pidns :: bool
  pass_exitcode :: bool
  interval :: nat
  cgname :: string
  groups :: "nat list"
  cgroup_options :: "((int \<times> string) \<times> string) list"

subsection \<open>Collaborators that are not among the sources\<close>

text \<open>
  The answers of the helpers of \<^verbatim>\<open>strconv.h\<close>, \<^verbatim>\<open>fs.h\<close>, \<^verbatim>\<open>cgroup.h\<close> and
  \<^verbatim>\<open>seccomp.h\<close>, of the build (\<^verbatim>\<open>NDEBUG\<close>) and of the calling process. They are parameters:
  nothing is assumed about them. \<open>fatal_code\<close> is the exit status of the macro \<^verbatim>\<open>FATAL\<close>.
\<close>

record sys =
  to_longlong :: "string \<Rightarrow> int"
  to_double :: "string \<Rightarrow> real"
  to_bytes :: "string \<Rightarrow> int"
  to_bool :: "string \<Rightarrow> bool"
  subsys_id_from_name :: "string \<Rightarrow> int"
  seccomp_supported :: bool
  NDEBUG :: bool
  getuid :: nat
  getgid :: nat
  getpid :: int
  is_absolute :: "string \<Rightarrow> bool"
  is_dir :: "string \<Rightarrow> bool"
  is_accessible :: "string \<Rightarrow> int \<Rightarrow> bool"
  expand :: "string \<Rightarrow> string"
  join :: "string \<Rightarrow> string \<Rightarrow> string"
  fatal_code :: int

subsection \<open>Casts and ordered maps\<close>

definition to_int32 :: "int \<Rightarrow> int" where
  "to_int32 v = (v + 2 ^ 31) mod 2 ^ 32 - 2 ^ 31"

definition to_uint32 :: "int \<Rightarrow> nat" where
  "to_uint32 v = nat (v mod 2 ^ 32)"

text \<open>
  \<^verbatim>\<open>(useconds_t)(x * 1000000)\<close>: the fraction is discarded. C leaves the conversion of a
  value outside the range of the target undefined; the model wraps it.
\<close>

definition to_useconds :: "real \<Rightarrow> nat" where
  "to_useconds x = to_uint32 (if 0 \<le> x then \<lfloor>x\<rfloor> else \<lceil>x\<rceil>)"

text \<open>
  \<^verbatim>\<open>std::map\<close> keeps its entries ordered by key and \<^verbatim>\<open>FOR_EACH\<close> visits them in that
  order, so a map that is iterated is a list of pairs sorted by key. \<^verbatim>\<open>std::string\<close>
  compares bytes as unsigned values, a shorter prefix first; \<^verbatim>\<open>std::pair\<close> compares
  lexicographically.
\<close>

fun str_less :: "string \<Rightarrow> string \<Rightarrow> bool" where
  "str_less [] [] = False"
| "str_less [] (y # ys) = True"
| "str_less (x # xs) [] = False"
| "str_less (x # xs) (y # ys) =
     ((of_char x :: nat) < of_char y \<or> (x = y \<and> str_less xs ys))"

definition pair_less :: "int \<times> string \<Rightarrow> int \<times> string \<Rightarrow> bool" where
  "pair_less p q = (fst p < fst q \<or> (fst p = fst q \<and> str_less (snd p) (snd q)))"

text \<open>\<^verbatim>\<open>m[k] = f(m[k])\<close>, where a missing entry is created first (\<open>None\<close>).\<close>

fun map_update :: "('k \<Rightarrow> 'k \<Rightarrow> bool) \<Rightarrow> 'k \<Rightarrow> ('v option \<Rightarrow> 'v) \<Rightarrow> ('k \<times> 'v) list \<Rightarrow> ('k \<times> 'v) list" where
  "map_update lt k f [] = [(k, f None)]"
| "map_update lt k f ((k', v) # m) =
     (if lt k k' then (k, f None) # (k', v) # m
      else if lt k' k then (k', v) # map_update lt k f m
      else (k', f (Some v)) # m)"

definition or_flag :: "int \<Rightarrow> int option \<Rightarrow> int" where
  "or_flag flag old = (case old of None \<Rightarrow> 0 | Some v \<Rightarrow> v) OR flag"

section \<open>Parsing the command line\<close>

datatype halt =
  HelpShown string
| VersionShown
| MissingArgs string nat
| UnknownOption string
| ConfigErrors "string list"
| Fatal

text \<open>\<^verbatim>\<open>init_default_config\<close>; \<^verbatim>\<open>cgname\<close>, \<^verbatim>\<open>groups\<close> and the containers start empty.\<close>

definition init_default_config :: "sys \<Rightarrow> config" where
  "init_default_config sys =
     \<lparr> arg = \<lparr> args = [], nice = 0, uid = getuid sys, gid = getgid sys, umask = 18,
              chroot_path = '''', chdir_path = '''', remount_dev = False, reset_env = False,
              no_new_privs = True, clone_flags = 0,
              rlimits = [RLIMIT_NOFILE \<mapsto> 256, RLIMIT_NPROC \<mapsto> 2048,
                         RLIMIT_RTPRIO \<mapsto> 0, RLIMIT_CORE \<mapsto> 0],
              syscall_action = OTHERS_EPERM, syscall_list = '''',
              uts = \<lparr> nodename = '''', domainname = '''', sysname = '''', release = '''',
                      version = '''' \<rparr>,
              remount_list = [], bindfs_list = [], bindfs_dest_set = {}, tmpfs_list = [],
              env_list = [], keep_fds = {}, cmd_list = [] \<rparr>,
       cpu_time_limit = - 1, real_time_limit = - 1, memory_limit = - 1, output_limit = - 1,
       enable_devices_whitelist = False, enable_network = True, enable_pidns = True,
       pass_exitcode = False, interval = to_useconds (0.02 * 1000000), cgname = '''',
       groups = [], cgroup_options = [] \<rparr>"

definition upd_arg :: "(spawn_arg \<Rightarrow> spawn_arg) \<Rightarrow> config \<Rightarrow> config" where
  "upd_arg f cfg = cfg\<lparr>arg := f (arg cfg)\<rparr>"

definition set_rlimit :: "rlimit_resource \<Rightarrow> int \<Rightarrow> config \<Rightarrow> config" where
  "set_rlimit r v cfg = upd_arg (\<lambda>a. a\<lparr>rlimits := (rlimits a)(r \<mapsto> v)\<rparr>) cfg"

definition upd_uts :: "(uts_names \<Rightarrow> uts_names) \<Rightarrow> config \<Rightarrow> config" where
  "upd_uts f cfg =
     upd_arg (\<lambda>a. a\<lparr>uts := f (uts a), clone_flags := clone_flags a OR CLONE_NEWUTS\<rparr>) cfg"

datatype opt_result = OptHalt halt | OptBreak | OptNext nat config

text \<open>
  The macro \<^verbatim>\<open>REQUIRE_NARGV(n)\<close>: \<open>rest\<close> holds the elements of \<^verbatim>\<open>argv\<close> after the option.
  With fewer than \<open>n\<close> of them the program prints a message and exits with 1; otherwise
  the option consumes \<open>n\<close> elements.
\<close>

definition REQUIRE_NARGV :: "string \<Rightarrow> nat \<Rightarrow> string list \<Rightarrow> config \<Rightarrow> opt_result" where
  "REQUIRE_NARGV option n rest cfg' =
     (if length rest < n then OptHalt (MissingArgs option n) else OptNext n cfg')"

definition MIN_MEMORY_LIMIT :: int where
  "MIN_MEMORY_LIMIT = 500000"

text \<open>The body of \<^verbatim>\<open>--max-memory\<close>, on the value \<^verbatim>\<open>strconv::to_bytes\<close> returned.\<close>

definition max_memory_option :: "int \<Rightarrow> config \<Rightarrow> config" where
  "max_memory_option max_memory cfg =
     cfg\<lparr>memory_limit :=
       (if 0 < max_memory \<and> max_memory < MIN_MEMORY_LIMIT then MIN_MEMORY_LIMIT
        else max_memory)\<rparr>"

definition max_output_option :: "int \<Rightarrow> config \<Rightarrow> config" where
  "max_output_option bytes cfg = set_rlimit RLIMIT_FSIZE bytes (cfg\<lparr>output_limit := bytes\<rparr>)"

text \<open>
  The body of \<^verbatim>\<open>--syscalls\<close>: the \<^verbatim>\<open>switch\<close> on the first byte, which is the terminating
  NUL of an empty string. The case of \<^verbatim>\<open>!\<close> and \<^verbatim>\<open>-\<close> falls through to the one of \<^verbatim>\<open>=\<close> and
  \<^verbatim>\<open>+\<close>.
\<close>

definition syscalls_option :: "string \<Rightarrow> config \<Rightarrow> config" where
  "syscalls_option syscalls cfg =
     upd_arg (\<lambda>a.
       (case syscalls of
          [] \<Rightarrow> a\<lparr>syscall_action := DEFAULT_EPERM, syscall_list := syscalls\<rparr>
        | c # cs \<Rightarrow>
            if c = CHR ''!'' \<or> c = CHR ''-''
            then a\<lparr>syscall_action := OTHERS_EPERM, syscall_list := cs\<rparr>
            else if c = CHR ''='' \<or> c = CHR ''+''
            then a\<lparr>syscall_action := DEFAULT_EPERM, syscall_list := cs\<rparr>
            else a\<lparr>syscall_action := DEFAULT_EPERM, syscall_list := syscalls\<rparr>)) cfg"

definition group_option :: "int \<Rightarrow> config \<Rightarrow> config" where
  "group_option v cfg =
     (let gid = to_uint32 v in if gid \<noteq> 0 then cfg\<lparr>groups := groups cfg @ [gid]\<rparr> else cfg)"

definition interval_option :: "real \<Rightarrow> config \<Rightarrow> config" where
  "interval_option x cfg =
     (let interval = to_useconds (x * 1000000)
      in if 0 < interval then cfg\<lparr>interval := interval\<rparr> else cfg)"

definition bindfs_option :: "string \<Rightarrow> string \<Rightarrow> config \<Rightarrow> config" where
  "bindfs_option dest src cfg =
     upd_arg (\<lambda>a. a\<lparr>bindfs_list := bindfs_list a @ [(dest, src)],
                    bindfs_dest_set := insert dest (bindfs_dest_set a)\<rparr>) cfg"

definition remount_ro_option :: "string \<Rightarrow> config \<Rightarrow> config" where
  "remount_ro_option dest cfg =
     upd_arg (\<lambda>a. a\<lparr>remount_list :=
       map_update str_less dest (or_flag MS_RDONLY) (remount_list a)\<rparr>) cfg"

definition cgroup_option :: "sys \<Rightarrow> string \<Rightarrow> string \<Rightarrow> string \<Rightarrow> config \<Rightarrow> config" where
  "cgroup_option sys subsys_name key val cfg =
     (let subsys_id = subsys_id_from_name sys subsys_name
      in if 0 \<le> subsys_id
         then cfg\<lparr>cgroup_options :=
                map_update pair_less (subsys_id, key) (\<lambda>_. val) (cgroup_options cfg)\<rparr>
         else cfg)"

text \<open>
  One round of the \<^verbatim>\<open>if\<close> chain of \<^verbatim>\<open>parse_cli_options\<close>, for the option named
  \<open>option\<close> (the element of \<^verbatim>\<open>argv\<close> without its two dashes) and the elements \<open>rest\<close> after
  it. \<^verbatim>\<open>NEXT_STRING_ARG\<close> reads them in order: \<open>a1\<close>, \<open>a2\<close>, \<open>a3\<close>. Where fewer elements
  are left than the option needs, \<^verbatim>\<open>REQUIRE_NARGV\<close> exits before any of them is read, and
  the model does not use them either.
\<close>

definition parse_option :: "sys \<Rightarrow> config \<Rightarrow> string \<Rightarrow> string list \<Rightarrow> opt_result" where
  "parse_option sys cfg option rest =
    (let a1 = rest ! 0; a2 = rest ! 1; a3 = rest ! 2; req = REQUIRE_NARGV option in
     if option = ''max-cpu-time'' then req 1 rest (cfg\<lparr>cpu_time_limit := to_double sys a1\<rparr>)
     else if option = ''max-real-time'' then req 1 rest (cfg\<lparr>real_time_limit := to_double sys a1\<rparr>)
     else if option = ''max-memory'' then req 1 rest (max_memory_option (to_bytes sys a1) cfg)
     else if option = ''max-output'' then req 1 rest (max_output_option (to_bytes sys a1) cfg)
     else if option = ''max-nprocess'' then req 1 rest (set_rlimit RLIMIT_NPROC (to_longlong sys a1) cfg)
     else if option = ''min-nice'' then req 1 rest (set_rlimit RLIMIT_NICE (20 - to_longlong sys a1) cfg)
     else if option = ''max-rtprio'' then req 1 rest (set_rlimit RLIMIT_RTPRIO (to_longlong sys a1) cfg)
     else if option = ''max-nfile'' then req 1 rest (set_rlimit RLIMIT_NOFILE (to_longlong sys a1) cfg)
     else if option = ''max-stack'' then req 1 rest (set_rlimit RLIMIT_STACK (to_longlong sys a1) cfg)
     else if option = ''isolate-process'' then req 1 rest (cfg\<lparr>enable_pidns := to_bool sys a1\<rparr>)
     else if option = ''basic-devices'' then req 1 rest (cfg\<lparr>enable_devices_whitelist := to_bool sys a1\<rparr>)
     else if option = ''remount-dev'' then req 1 rest (upd_arg (\<lambda>a. a\<lparr>remount_dev := to_bool sys a1\<rparr>) cfg)
     else if option = ''reset-env'' then req 1 rest (upd_arg (\<lambda>a. a\<lparr>reset_env := to_bool sys a1\<rparr>) cfg)
     else if option = ''network'' then req 1 rest (cfg\<lparr>enable_network := to_bool sys a1\<rparr>)
     else if option = ''pass-exitcode'' then req 1 rest (cfg\<lparr>pass_exitcode := to_bool sys a1\<rparr>)
     else if option = ''chroot'' then req 1 rest (upd_arg (\<lambda>a. a\<lparr>chroot_path := a1\<rparr>) cfg)
     else if option = ''chdir'' then req 1 rest (upd_arg (\<lambda>a. a\<lparr>chdir_path := a1\<rparr>) cfg)
     else if option = ''nice'' then req 1 rest (upd_arg (\<lambda>a. a\<lparr>nice := to_int32 (to_longlong sys a1)\<rparr>) cfg)
     else if option = ''umask'' then req 1 rest (upd_arg (\<lambda>a. a\<lparr>umask := to_uint32 (to_longlong sys a1)\<rparr>) cfg)
     else if option = ''uid'' then req 1 rest (upd_arg (\<lambda>a. a\<lparr>uid := to_uint32 (to_longlong sys a1)\<rparr>) cfg)
     else if option = ''gid'' then req 1 rest (upd_arg (\<lambda>a. a\<lparr>gid := to_uint32 (to_longlong sys a1)\<rparr>) cfg)
     else if option = ''no-new-privs'' then req 1 rest (upd_arg (\<lambda>a. a\<lparr>no_new_privs := to_bool sys a1\<rparr>) cfg)
     else if option = ''syscalls'' \<and> seccomp_supported sys then req 1 rest (syscalls_option a1 cfg)
     else if option = ''group'' then req 1 rest (group_option (to_longlong sys a1) cfg)
     else if option = ''interval'' then req 1 rest (interval_option (to_double sys a1) cfg)
     else if option = ''cgname'' then req 1 rest (cfg\<lparr>cgname := a1\<rparr>)
     else if option = ''hostname'' then req 1 rest (upd_uts (\<lambda>u. u\<lparr>nodename := a1\<rparr>) cfg)
     else if option = ''domainname'' then req 1 rest (upd_uts (\<lambda>u. u\<lparr>domainname := a1\<rparr>) cfg)
     else if option = ''ostype'' then req 1 rest (upd_uts (\<lambda>u. u\<lparr>sysname := a1\<rparr>) cfg)
     else if option = ''osrelease'' then req 1 rest (upd_uts (\<lambda>u. u\<lparr>release := a1\<rparr>) cfg)
     else if option = ''osversion'' then req 1 rest (upd_uts (\<lambda>u. u\<lparr>version := a1\<rparr>) cfg)
     else if option = ''remount-ro'' then req 1 rest (remount_ro_option a1 cfg)
     else if option = ''bindfs'' then req 2 rest (bindfs_option a1 a2 cfg)
     else if option = ''bindfs-ro'' then req 2 rest (remount_ro_option a1 (bindfs_option a1 a2 cfg))
     else if option = ''tmpfs'' then
       req 2 rest (upd_arg (\<lambda>a. a\<lparr>tmpfs_list := tmpfs_list a @ [(a1, to_bytes sys a2)]\<rparr>) cfg)
     else if option = ''cgroup-option'' then req 3 rest (cgroup_option sys a1 a2 a3 cfg)
     else if option = ''env'' then
       req 2 rest (upd_arg (\<lambda>a. a\<lparr>env_list := env_list a @ [(a1, a2)]\<rparr>) cfg)
     else if option = ''fd'' then
       req 1 rest (upd_arg (\<lambda>a. a\<lparr>keep_fds := insert (to_int32 (to_longlong sys a1)) (keep_fds a)\<rparr>) cfg)
     else if option = ''cmd'' then req 1 rest (upd_arg (\<lambda>a. a\<lparr>cmd_list := cmd_list a @ [a1]\<rparr>) cfg)
     else if option = ''help'' then OptHalt (HelpShown '''')
     else if option = ''help-syscalls'' \<and> seccomp_supported sys then OptHalt (HelpShown ''syscalls'')
     else if option = ''version'' then OptHalt VersionShown
     else if option = ''debug'' \<and> \<not> NDEBUG sys then OptNext 0 cfg
     else if option = ''status'' \<and> \<not> NDEBUG sys then OptNext 0 cfg
     else if option = '''' then OptBreak
     else OptHalt (UnknownOption option))"

text \<open>
  The loop of \<^verbatim>\<open>parse_cli_options\<close> over the elements of \<^verbatim>\<open>argv\<close> from index \<open>i\<close> on.
  \<^verbatim>\<open>config.arg.args\<close> and \<^verbatim>\<open>config.arg.argc\<close> together are the list \<open>args\<close>: the elements
  of \<^verbatim>\<open>argv\<close> that are left for the command.
\<close>

definition set_args :: "string list \<Rightarrow> config \<Rightarrow> config" where
  "set_args xs cfg = upd_arg (\<lambda>a. a\<lparr>args := xs\<rparr>) cfg"

fun parse_loop :: "sys \<Rightarrow> config \<Rightarrow> string list \<Rightarrow> halt + config" where
  "parse_loop sys cfg [] = Inr cfg"
| "parse_loop sys cfg (a # rest) =
     (if take 2 a \<noteq> ''--'' then Inr (set_args (a # rest) cfg)
      else (case parse_option sys (set_args rest cfg) (drop 2 a) rest of
              OptHalt h \<Rightarrow> Inl h
            | OptBreak \<Rightarrow> Inr (set_args rest cfg)
            | OptNext n cfg' \<Rightarrow> parse_loop sys (set_args (drop n rest) cfg') (drop n rest)))"

text \<open>\<open>argv\<close> is the whole vector, the program's name first.\<close>

definition parse_cli_options :: "sys \<Rightarrow> config \<Rightarrow> string list \<Rightarrow> halt + config" where
  "parse_cli_options sys cfg argv = parse_loop sys (set_args (tl argv) cfg) (tl argv)"

section \<open>Checking the configuration\<close>

definition R_OK :: int where "R_OK = 4"
definition W_OK :: int where "W_OK = 2"
definition X_OK :: int where "X_OK = 1"

definition access_mode_to_str :: "int \<Rightarrow> string" where
  "access_mode_to_str mode =
     (if mode AND R_OK \<noteq> 0 then ''r'' else '''') @
     (if mode AND W_OK \<noteq> 0 then ''w'' else '''') @
     (if mode AND X_OK \<noteq> 0 then ''x'' else '''')"

definition msg_relative :: "string \<Rightarrow> string" where
  "msg_relative path =
     ''Relative paths are forbidden for non-root users.'' @ [CHR 0x0A] @
     ''Please change: '' @ path"

definition msg_permission :: "int \<Rightarrow> string \<Rightarrow> string" where
  "msg_permission mode path =
     ''You do not have `'' @ access_mode_to_str mode @ ''` permission on '' @ path"

text \<open>\<^verbatim>\<open>check_path_permission\<close> with its default mode \<^verbatim>\<open>R_OK\<close>: the messages it appends.\<close>

definition check_path_permission :: "sys \<Rightarrow> string \<Rightarrow> string list" where
  "check_path_permission sys path =
     (if \<not> is_absolute sys path then [msg_relative path]
      else (let mode = (if is_dir sys path then R_OK OR X_OK else R_OK)
            in if \<not> is_accessible sys path mode then [msg_permission mode path] else []))"

text \<open>
  \<^verbatim>\<open>follow_binds\<close>: the loop runs from the last bind to the first and stops at the first
  whose destination, followed by a slash, is a prefix of the path.
\<close>

fun follow_first :: "(string \<times> string) list \<Rightarrow> string \<Rightarrow> string" where
  "follow_first [] result = result"
| "follow_first ((dest, src) # bs) result =
     (let prefix = dest @ ''/''
      in if take (length prefix) result = prefix
         then src @ drop (length prefix - 1) result
         else follow_first bs result)"

definition follow_binds :: "sys \<Rightarrow> (string \<times> string) list \<Rightarrow> string \<Rightarrow> string" where
  "follow_binds sys binds path =
     (if \<not> is_absolute sys path then path else follow_first (rev binds) (expand sys path))"

text \<open>The loop over \<^verbatim>\<open>bindfs_list\<close>: the messages, and the binds followed so far.\<close>

fun check_bindfs :: "sys \<Rightarrow> (string \<times> string) list \<Rightarrow> (string \<times> string) list \<Rightarrow> string list \<times> (string \<times> string) list" where
  "check_bindfs sys binds [] = ([], binds)"
| "check_bindfs sys binds ((dest, src) # ps) =
     (let msgs = check_path_permission sys (follow_binds sys binds src);
          binds' = binds @ [(expand sys dest, follow_binds sys binds (expand sys src))];
          r = check_bindfs sys binds' ps
      in (msgs @ fst r, snd r))"

definition msg_uid_zero :: string where
  "msg_uid_zero =
     ''For security reason, running commands with uid = 0 is not allowed.'' @ [CHR 0x0A] @
     ''Please specify a user ID using `--uid`.''"

definition msg_uid_other :: string where
  "msg_uid_other = ''For security reason, setting uid to other user requires root.''"

definition msg_gid_zero :: string where
  "msg_gid_zero =
     ''For security reason, running commands with gid = 0 is not allowed.'' @ [CHR 0x0A] @
     ''Please specify a group ID using `--gid`.''"

definition msg_gid_other :: string where
  "msg_gid_other = ''For security reason, setting gid to other group requires root.''"

definition msg_no_command :: string where
  "msg_no_command =
     ''command_args can not be empty.'' @ [CHR 0x0A] @ ''Use `--help` to see full options.''"

definition msg_cmd :: string where
  "msg_cmd = ''For security reason, `--cmd` requires root.''"

definition msg_group :: string where
  "msg_group = ''For security reason, `--group` requires root.''"

definition msg_remount :: string where
  "msg_remount =
     ''For security reason, `--remount-ro A` is only allowed if there is a `--bindfs A B`.''"

definition msg_no_new_privs :: string where
  "msg_no_new_privs =
     ''For security remount, `--no-new-privs false` is forbidden for non-root users.''"

definition msg_nice :: string where
  "msg_nice = ''Non-root users cannot set a negative value of `--nice`''"

definition msg_syscalls :: string where
  "msg_syscalls = ''Syscall filter forbids all syscalls, which is not allowed.''"

text \<open>The part of \<^verbatim>\<open>check_config\<close> under \<^verbatim>\<open>if (!is_root)\<close>.\<close>

definition non_root_messages :: "sys \<Rightarrow> config \<Rightarrow> string list" where
  "non_root_messages sys cfg =
     (let a = arg cfg;
          bind_check = check_bindfs sys [] (bindfs_list a);
          binds = snd bind_check
      in (if cmd_list a \<noteq> [] then [msg_cmd] else []) @
         (if groups cfg \<noteq> [] then [msg_group] else []) @
         fst bind_check @
         (if chroot_path a \<noteq> [] then check_path_permission sys (follow_binds sys binds (chroot_path a))
          else []) @
         (if chdir_path a \<noteq> []
          then check_path_permission sys (follow_binds sys binds (join sys (chroot_path a) (chdir_path a)))
          else []) @
         concat (map (\<lambda>p. if fst p \<notin> bindfs_dest_set a then [msg_remount] else []) (remount_list a)) @
         (if \<not> no_new_privs a then [msg_no_new_privs] else []) @
         (if nice a < 0 then [msg_nice] else []))"

text \<open>\<^verbatim>\<open>error_messages\<close> at the end of \<^verbatim>\<open>check_config\<close>, in the order they were pushed.\<close>

definition error_messages :: "sys \<Rightarrow> config \<Rightarrow> string list" where
  "error_messages sys cfg =
     (let a = arg cfg; is_root = (getuid sys = 0)
      in (if uid a = 0 then [msg_uid_zero]
          else if \<not> is_root \<and> uid a \<noteq> getuid sys then [msg_uid_other] else []) @
         (if gid a = 0 then [msg_gid_zero]
          else if \<not> is_root \<and> gid a \<noteq> getgid sys then [msg_gid_other] else []) @
         (if args a = [] then [msg_no_command] else []) @
         (if \<not> is_root then non_root_messages sys cfg else []) @
         (if syscall_list a = [] \<and> syscall_action a = DEFAULT_EPERM then [msg_syscalls] else []))"

definition check_config :: "sys \<Rightarrow> config \<Rightarrow> halt + unit" where
  "check_config sys cfg =
     (let msgs = error_messages sys cfg
      in if msgs \<noteq> [] then Inl (ConfigErrors msgs) else Inr ())"

text \<open>What a halt before the cgroup exists prints to the standard error, and its exit
  status. The help text and the version are not modelled.\<close>

datatype event =
  Stderr string
| PrintHelp string
| PrintVersion
| SetGroups "nat list"
| CgCreate string
| CgLock
| CgLimitDevices
| CgSetMemoryLimit int
| CgSet string string
| CgSetOption int string string
| CgKillall
| CgResetUsages
| SetCloexec3
| CgSpawn spawn_arg
| Renice int
| Write3 string
| Close3
| CgDestroy

definition halt_events :: "halt \<Rightarrow> event list" where
  "halt_events h =
     (case h of
        HelpShown submodule \<Rightarrow> [PrintHelp submodule]
      | VersionShown \<Rightarrow> [PrintVersion]
      | MissingArgs option n \<Rightarrow>
          [Stderr (''Option '' @ [CHR 0x27] @ option @ [CHR 0x27] @ '' requires '' @ show_nat n @
                   '' argument'' @ (if 1 < n then ''s'' else '''') @ ''.'' @ [CHR 0x0A])]
      | UnknownOption option \<Rightarrow>
          [Stderr (''Unknown option: `--'' @ option @ ''`'' @ [CHR 0x0A] @
                   ''Use --help for information.'' @ [CHR 0x0A])]
      | ConfigErrors msgs \<Rightarrow>
          map (\<lambda>m. Stderr (m @ [CHR 0x0A, CHR 0x0A])) msgs @
          [Stderr (''Please fix these errors and try again.'' @ [CHR 0x0A])]
      | Fatal \<Rightarrow> [])"

definition halt_code :: "sys \<Rightarrow> halt \<Rightarrow> int" where
  "halt_code sys h =
     (case h of
        HelpShown _ \<Rightarrow> 0
      | VersionShown \<Rightarrow> 0
      | MissingArgs _ _ \<Rightarrow> 1
      | UnknownOption _ \<Rightarrow> 1
      | ConfigErrors _ \<Rightarrow> 1
      | Fatal \<Rightarrow> fatal_code sys)"

section \<open>The supervisor\<close>

text \<open>
  What the world answers during one run. \<open>root_ok\<close>: the effective user is root and
  \<^verbatim>\<open>setuid(0)\<close> succeeded; \<open>cg_valid\<close>: the cgroup could be created. The \<open>_ret\<close> fields are
  the values the calls return. An \<open>observation\<close> holds what one round of the monitoring loop
  reads, in the order of the reads; \<open>observations\<close> are the rounds the world provides.
\<close>

datatype wait_result = WaitPid int | WaitNone | WaitError int

record observation =
  ob_signal :: int
  ob_wait :: wait_result
  ob_cpu :: real
  ob_now :: real
  ob_mem :: int
  ob_state :: char
  ob_wait_zombie :: wait_result
  ob_output :: int
  ob_empty :: bool

record world =
  root_ok :: bool
  cg_valid :: bool
  limit_devices_ret :: int
  set_memory_limit_ret :: int
  cg_set_ret :: "int \<Rightarrow> string \<Rightarrow> string \<Rightarrow> int"
  reset_usages_ret :: int
  fcntl_ret :: int
  fcntl_errno :: int
  spawn_ret :: int
  start_time :: real
  observations :: "observation list"
  mem_final :: int
  cpu_final :: real
  now_final :: real

text \<open>
  A function that may leave through \<^verbatim>\<open>clean_cg_exit\<close> returns its events and either
  \<open>Inl code\<close> (the process has exited with \<open>code\<close>) or \<open>Inr v\<close> (it returned \<open>v\<close>).
\<close>

definition clean_cg_exit :: "config \<Rightarrow> int \<Rightarrow> event list \<times> int" where
  "clean_cg_exit cfg exit_code = ([if cgname cfg = [] then CgDestroy else CgKillall], exit_code)"

definition leave :: "config \<Rightarrow> event list \<Rightarrow> int \<Rightarrow> event list \<times> (int + 'a)" where
  "leave cfg evs exit_code = (evs @ fst (clean_cg_exit cfg exit_code), Inl (snd (clean_cg_exit cfg exit_code)))"

text \<open>The loop of \<^verbatim>\<open>setup_cgroup\<close> over \<^verbatim>\<open>cgroup_options\<close>; \<open>True\<close> when a \<^verbatim>\<open>set\<close> failed.\<close>

fun set_cgroup_options :: "world \<Rightarrow> ((int \<times> string) \<times> string) list \<Rightarrow> event list \<times> bool" where
  "set_cgroup_options w [] = ([], False)"
| "set_cgroup_options w (((subsys, key), val) # ps) =
     (if cg_set_ret w subsys key val \<noteq> 0 then ([CgSetOption subsys key val], True)
      else (let r = set_cgroup_options w ps in (CgSetOption subsys key val # fst r, snd r)))"

definition setup_cgroup :: "world \<Rightarrow> config \<Rightarrow> event list \<times> (int + config)" where
  "setup_cgroup w cfg =
     (let ev1 = (if enable_devices_whitelist cfg then [CgLimitDevices] else [])
      in if enable_devices_whitelist cfg \<and> limit_devices_ret w \<noteq> 0 then leave cfg ev1 1
      else
      let ev2 = ev1 @ (if 0 < memory_limit cfg then [CgSetMemoryLimit (memory_limit cfg)] else [])
      in if 0 < memory_limit cfg \<and> set_memory_limit_ret w \<noteq> 0 then leave cfg ev2 2
      else
      let opts = set_cgroup_options w (cgroup_options cfg);
          ev3 = ev2 @ [CgSet ''memory.swappiness'' (''0'' @ [CHR 0x0A]),
                       CgSet ''memory.oom_control'' (''0'' @ [CHR 0x0A])] @ fst opts
      in if snd opts then leave cfg ev3 7
      else
      let ev4 = ev3 @ [CgKillall, CgResetUsages]
      in if reset_usages_ret w \<noteq> 0 then leave cfg ev4 4
      else (ev4, Inr (if 0 < cpu_time_limit cfg
                      then set_rlimit RLIMIT_CPU (to_int32 \<lceil>cpu_time_limit cfg\<rceil>) cfg
                      else cfg)))"

subsection \<open>The monitoring loop\<close>

datatype loop_step =
  StepExit "event list" int
| StepBreak int string
| StepNext bool int

text \<open>The first \<^verbatim>\<open>waitpid\<close> of a round: the status, when the child has exited or was killed.\<close>

definition child_ended :: "wait_result \<Rightarrow> int option" where
  "child_ended r =
     (case r of WaitPid s \<Rightarrow> if WIFEXITED s \<or> WIFSIGNALED s then Some s else None
              | WaitNone \<Rightarrow> None
              | WaitError e \<Rightarrow> None)"

text \<open>
  One round of the \<^verbatim>\<open>for\<close> loop of \<^verbatim>\<open>run_command\<close>. \<open>StepBreak stat exceeded\<close> is a
  \<^verbatim>\<open>break\<close>, \<open>StepNext running stat\<close> the end of the body, \<open>StepExit\<close> a call of
  \<^verbatim>\<open>clean_cg_exit\<close>. The variable \<^verbatim>\<open>exceeded_limit\<close> is empty until a \<^verbatim>\<open>break\<close> sets it.
\<close>

definition loop_iter :: "config \<Rightarrow> real \<Rightarrow> observation \<Rightarrow> loop_step" where
  "loop_iter cfg deadline ob =
     (if ob_signal ob \<noteq> 0
      then StepExit [Stderr (''Receive signal '' @ show_int (ob_signal ob) @ '', exiting...'' @ [CHR 0x0A])] 4
      else case child_ended (ob_wait ob) of
        Some s \<Rightarrow> StepBreak s ''''
      | None \<Rightarrow>
          if 0 < cpu_time_limit cfg \<and> cpu_time_limit cfg \<le> ob_cpu ob then StepBreak 0 ''CPU_TIME''
          else if 0 < deadline \<and> deadline \<le> ob_now ob then StepBreak 0 ''REAL_TIME''
          else if memory_limit cfg \<le> ob_mem ob \<and> 0 < memory_limit cfg then StepBreak 0 ''MEMORY''
          else
            let zombie = (ob_state ob = CHR ''Z'');
                stat = (if zombie then (case ob_wait_zombie ob of WaitPid s \<Rightarrow> s | WaitNone \<Rightarrow> 0 | WaitError e \<Rightarrow> 0)
                        else 0)
            in if zombie \<and> (case ob_wait_zombie ob of WaitError e \<Rightarrow> True | WaitPid s \<Rightarrow> False | WaitNone \<Rightarrow> False)
               then StepExit [] 6
               else if 0 < output_limit cfg \<and> output_limit cfg < ob_output ob
               then StepBreak stat ''OUTPUT''
               else StepNext (\<not> zombie \<and> \<not> ob_empty ob) stat)"

text \<open>
  The loop, over the rounds the world provides. \<open>None\<close>: the loop is still running after
  the last of them. \<open>Some (Inl (evs, code))\<close>: the process exited from inside the loop.
  \<open>Some (Inr (stat, exceeded))\<close>: the loop was left with these values of \<^verbatim>\<open>stat\<close> and
  \<^verbatim>\<open>exceeded_limit\<close>.
\<close>

fun main_loop :: "config \<Rightarrow> real \<Rightarrow> observation list \<Rightarrow> ((event list \<times> int) + (int \<times> string)) option" where
  "main_loop cfg deadline [] = None"
| "main_loop cfg deadline (ob # obs) =
     (case loop_iter cfg deadline ob of
        StepExit evs code \<Rightarrow> Some (Inl (evs, code))
      | StepBreak stat exceeded \<Rightarrow> Some (Inr (stat, exceeded))
      | StepNext running stat \<Rightarrow>
          if running then main_loop cfg deadline obs else Some (Inr (stat, '''')))"

subsection \<open>The report\<close>

record stats =
  memory_usage :: int
  cpu_time_usage :: real
  real_time_usage :: real
  exceeded_limit :: string

text \<open>The statements of \<^verbatim>\<open>run_command\<close> under "collect stats", after the loop.\<close>

definition collect_stats :: "config \<Rightarrow> world \<Rightarrow> int \<Rightarrow> string \<Rightarrow> stats" where
  "collect_stats cfg w stat exceeded =
     (let mem_hit = (0 < memory_limit cfg \<and> memory_limit cfg \<le> mem_final w);
          ex1 = (if mem_hit then ''MEMORY'' else exceeded);
          cpu_hit = ((WIFSIGNALED stat \<and> WTERMSIG stat = SIGXCPU) \<or>
                     (0 < cpu_time_limit cfg \<and> cpu_time_limit cfg \<le> cpu_final w));
          ex2 = (if cpu_hit then ''CPU_TIME'' else ex1);
          ex3 = (if WIFSIGNALED stat \<and> WTERMSIG stat = SIGXFSZ then ''OUTPUT'' else ex2);
          elapsed = now_final w - start_time w;
          real_hit = (0 < real_time_limit cfg \<and> real_time_limit cfg \<le> elapsed)
      in \<lparr> memory_usage = (if mem_hit then memory_limit cfg else mem_final w),
           cpu_time_usage = (if cpu_hit then cpu_time_limit cfg else cpu_final w),
           real_time_usage = (if real_hit then real_time_limit cfg else elapsed),
           exceeded_limit = (if real_hit then ''REAL_TIME'' else ex3) \<rparr>)"

text \<open>One line of the report: the key, padded to nine columns, the value and a newline.\<close>

definition report_line :: "string \<Rightarrow> string \<Rightarrow> string" where
  "report_line key val = key @ val @ [CHR 0x0A]"

definition report_text :: "stats \<Rightarrow> int \<Rightarrow> string" where
  "report_text st stat =
     report_line ''MEMORY   '' (show_int (memory_usage st)) @
     report_line ''CPUTIME  '' (show_f3 (cpu_time_usage st)) @
     report_line ''REALTIME '' (show_f3 (real_time_usage st)) @
     report_line ''SIGNALED '' (show_int (if WIFSIGNALED stat then 1 else 0)) @
     report_line ''EXITCODE '' (show_int (WEXITSTATUS stat)) @
     report_line ''TERMSIG  '' (show_int (WTERMSIG stat)) @
     report_line ''EXCEED   '' (if exceeded_limit st = [] then ''none'' else exceeded_limit st)"

text \<open>\<^verbatim>\<open>snprintf\<close> into \<^verbatim>\<open>char status_report[4096]\<close> keeps at most 4095 bytes; \<^verbatim>\<open>strlen\<close> of the
  buffer is their number, as no byte of the text is NUL.\<close>

definition status_report :: "stats \<Rightarrow> int \<Rightarrow> string" where
  "status_report st stat = take 4095 (report_text st stat)"

subsection \<open>Running the command\<close>

definition spawn_flags :: "config \<Rightarrow> config" where
  "spawn_flags cfg =
     upd_arg (\<lambda>a. a\<lparr>clone_flags :=
       (let f1 = (if \<not> enable_network cfg then clone_flags a OR CLONE_NEWNET else clone_flags a)
        in if enable_pidns cfg then f1 OR (CLONE_NEWPID OR CLONE_NEWIPC) else f1)\<rparr>) cfg"

text \<open>
  \<^verbatim>\<open>run_command\<close>. \<open>None\<close>: the monitoring loop has not ended within the rounds provided.
\<close>

definition deadline_of :: "world \<Rightarrow> config \<Rightarrow> real" where
  "deadline_of w cfg =
     (if 0 < real_time_limit cfg then start_time w + real_time_limit cfg else - 1)"

definition run_command :: "world \<Rightarrow> config \<Rightarrow> (event list \<times> (int + int)) option" where
  "run_command w cfg0 =
     (if fcntl_ret w \<noteq> 0 \<and> fcntl_errno w \<noteq> EBADF then Some (leave cfg0 [SetCloexec3] 5)
      else
      let cfg = spawn_flags cfg0;
          ev1 = [SetCloexec3, CgSpawn (arg cfg)];
          pid = spawn_ret w
      in if pid \<le> 0 then Some (leave cfg ev1 (10 - pid))
      else
      let ev2 = ev1 @ [Renice (- 5)];
          deadline = deadline_of w cfg
      in case main_loop cfg deadline (observations w) of
           None \<Rightarrow> None
         | Some (Inl (evs, code)) \<Rightarrow> Some (leave cfg (ev2 @ evs) code)
         | Some (Inr (stat, exceeded)) \<Rightarrow>
             Some (ev2 @ [Write3 (status_report (collect_stats cfg w stat exceeded) stat), Close3],
                   Inr (if pass_exitcode cfg then WEXITSTATUS stat else 0)))"

subsection \<open>The program\<close>

definition create_cgroup_name :: "sys \<Rightarrow> config \<Rightarrow> string" where
  "create_cgroup_name sys cfg =
     (if cgname cfg = [] then ''lrun'' @ show_int (getpid sys) else cgname cfg)"

text \<open>
  The block of \<^verbatim>\<open>main\<close> that holds the cgroup: \<^verbatim>\<open>setup_cgroup\<close>, \<^verbatim>\<open>run_command\<close> and
  \<^verbatim>\<open>clean_cg_exit\<close> with the value returned. The result is the trace and the exit status.
\<close>

definition supervise :: "world \<Rightarrow> config \<Rightarrow> (event list \<times> int) option" where
  "supervise w cfg0 =
     (case setup_cgroup w cfg0 of
        (ev1, Inl code) \<Rightarrow> Some (ev1, code)
      | (ev1, Inr cfg) \<Rightarrow>
          (case run_command w cfg of
             None \<Rightarrow> None
           | Some (ev2, Inl code) \<Rightarrow> Some (ev1 @ ev2, code)
           | Some (ev2, Inr ret) \<Rightarrow>
               Some (ev1 @ ev2 @ fst (clean_cg_exit cfg ret), snd (clean_cg_exit cfg ret))))"

definition main :: "sys \<Rightarrow> world \<Rightarrow> string list \<Rightarrow> (event list \<times> int) option" where
  "main sys w argv =
     (if length argv \<le> 1 then Some (halt_events (HelpShown ''''), 0)
      else case parse_cli_options sys (init_default_config sys) argv of
        Inl h \<Rightarrow> Some (halt_events h, halt_code sys h)
      | Inr cfg \<Rightarrow>
          (case check_config sys cfg of
             Inl h \<Rightarrow> Some (halt_events h, halt_code sys h)
           | Inr _ \<Rightarrow>
               if \<not> root_ok w then Some (halt_events Fatal, halt_code sys Fatal)
               else if \<not> cg_valid w
               then Some ([SetGroups (groups cfg), CgCreate (create_cgroup_name sys cfg)],
                          halt_code sys Fatal)
               else (case supervise w cfg of
                       None \<Rightarrow> None
                     | Some (evs, code) \<Rightarrow>
                         Some ([SetGroups (groups cfg), CgCreate (create_cgroup_name sys cfg), CgLock]
                               @ evs, code))))"

subsection \<open>The shape of the report and the ranges of the C types\<close>

definition is_digit :: "char \<Rightarrow> bool" where
  "is_digit c = (c \<in> set ''0123456789'')"

text \<open>
  A number with three decimals: an optional minus sign, at least one digit, a point and
  exactly three digits.
\<close>

definition three_decimals :: "string \<Rightarrow> bool" where
  "three_decimals s =
     (let t = (case s of [] \<Rightarrow> s | c # cs \<Rightarrow> if c = CHR ''-'' then cs else s);
          ip = takeWhile is_digit t;
          fp = dropWhile is_digit t
      in ip \<noteq> [] \<and>
         (case fp of [] \<Rightarrow> False
                   | c # ds \<Rightarrow> c = CHR ''.'' \<and> length ds = 3 \<and> list_all is_digit ds))"

fun writes_fd3 :: "event \<Rightarrow> bool" where
  "writes_fd3 (Write3 s) = True"
| "writes_fd3 Close3 = True"
| "writes_fd3 e = False"

text \<open>
  The largest finite \<^verbatim>\<open>double\<close>, and the values of a run that the report prints or that
  replace them: they fit \<^verbatim>\<open>long long\<close> and \<^verbatim>\<open>double\<close>, as every value of the program does.
\<close>

definition DBL_MAX :: real where
  "DBL_MAX = (2 ^ 53 - 1) * 2 ^ 971"

definition long_long :: "int \<Rightarrow> bool" where
  "long_long v = (- (2 ^ 63) \<le> v \<and> v < 2 ^ 63)"

definition representable :: "world \<Rightarrow> config \<Rightarrow> bool" where
  "representable w cfg =
     (long_long (mem_final w) \<and> long_long (memory_limit cfg) \<and>
      \<bar>cpu_final w\<bar> \<le> DBL_MAX \<and> \<bar>cpu_time_limit cfg\<bar> \<le> DBL_MAX \<and>
      \<bar>real_time_limit cfg\<bar> \<le> DBL_MAX \<and> \<bar>now_final w - start_time w\<bar> \<le> DBL_MAX)"

text \<open>
  The answers of the world with which a run gets as far as the monitoring loop: every call
  of \<^verbatim>\<open>setup_cgroup\<close> succeeds, \<^verbatim>\<open>fcntl\<close> on fd 3 succeeds or fails with \<^verbatim>\<open>EBADF\<close>, and
  the spawn returns the pid of the child.
\<close>

definition cgroup_prepared :: "world \<Rightarrow> config \<Rightarrow> bool" where
  "cgroup_prepared w cfg =
     (\<not> (enable_devices_whitelist cfg \<and> limit_devices_ret w \<noteq> 0) \<and>
      \<not> (0 < memory_limit cfg \<and> set_memory_limit_ret w \<noteq> 0) \<and>
      list_all (\<lambda>p. cg_set_ret w (fst (fst p)) (snd (fst p)) (snd p) = 0) (cgroup_options cfg) \<and>
      reset_usages_ret w = 0)"

definition fd3_prepared :: "world \<Rightarrow> bool" where
  "fd3_prepared w = (fcntl_ret w = 0 \<or> fcntl_errno w = EBADF)"

definition command_started :: "world \<Rightarrow> config \<Rightarrow> bool" where
  "command_started w cfg = (cgroup_prepared w cfg \<and> fd3_prepared w \<and> 0 < spawn_ret w)"

text \<open>The arguments of the calls of \<^verbatim>\<open>cg.spawn\<close> in a trace, in order.\<close>

fun spawned :: "event \<Rightarrow> spawn_arg list" where
  "spawned (CgSpawn a) = [a]"
| "spawned e = []"

definition spawn_args :: "event list \<Rightarrow> spawn_arg list" where
  "spawn_args evs = concat (map spawned evs)"

section \<open>Example inputs\<close>

text \<open>
  A caller who is not root, helpers that read the length of their argument, and a world
  in which every call succeeds and the child exits with status 0 in the second round of
  the loop.
\<close>

definition example_sys :: sys where
  "example_sys =
     \<lparr> to_longlong = (\<lambda>s. int (length s)), to_double = (\<lambda>s. real (length s)),
       to_bytes = (\<lambda>s. int (length s) * 100000), to_bool = (\<lambda>s. s = ''true''),
       subsys_id_from_name = (\<lambda>s. int (length s) - 1), seccomp_supported = True,
       NDEBUG = True, getuid = 1000, getgid = 1000, getpid = 4242,
       is_absolute = (\<lambda>p. take 1 p = ''/''), is_dir = (\<lambda>p. False),
       is_accessible = (\<lambda>p m. True), expand = (\<lambda>p. p), join = (\<lambda>a b. a @ ''/'' @ b),
       fatal_code = 255 \<rparr>"

definition example_config :: config where
  "example_config = set_args [''/bin/true''] (init_default_config example_sys)"

definition idle :: observation where
  "idle = \<lparr> ob_signal = 0, ob_wait = WaitNone, ob_cpu = 0, ob_now = 0, ob_mem = 0,
            ob_state = CHR ''S'', ob_wait_zombie = WaitNone, ob_output = 0, ob_empty = False \<rparr>"

definition example_world :: world where
  "example_world =
     \<lparr> root_ok = True, cg_valid = True, limit_devices_ret = 0, set_memory_limit_ret = 0,
       cg_set_ret = (\<lambda>subsys key val. 0), reset_usages_ret = 0, fcntl_ret = 0, fcntl_errno = 0,
       spawn_ret = 4243, start_time = 100, observations = [idle, idle\<lparr>ob_wait := WaitPid 0\<rparr>],
       mem_final = 1200000, cpu_final = 1 / 8, now_final = 100 + 1 / 4 \<rparr>"

section \<open>Properties\<close>

subsection \<open>Fields that an update leaves alone\<close>

lemma upd_arg_fields [simp]:
  "cpu_time_limit (upd_arg f cfg) = cpu_time_limit cfg"
  "real_time_limit (upd_arg f cfg) = real_time_limit cfg"
  "memory_limit (upd_arg f cfg) = memory_limit cfg"
  "output_limit (upd_arg f cfg) = output_limit cfg"
  "pass_exitcode (upd_arg f cfg) = pass_exitcode cfg"
  "cgname (upd_arg f cfg) = cgname cfg"
  "groups (upd_arg f cfg) = groups cfg"
  "cgroup_options (upd_arg f cfg) = cgroup_options cfg"
  "enable_network (upd_arg f cfg) = enable_network cfg"
  "enable_pidns (upd_arg f cfg) = enable_pidns cfg"
  "enable_devices_whitelist (upd_arg f cfg) = enable_devices_whitelist cfg"
  "interval (upd_arg f cfg) = interval cfg"
  "arg (upd_arg f cfg) = f (arg cfg)"
  by (simp_all add: upd_arg_def)

lemma set_rlimit_fields [simp]:
  "cpu_time_limit (set_rlimit r v cfg) = cpu_time_limit cfg"
  "real_time_limit (set_rlimit r v cfg) = real_time_limit cfg"
  "memory_limit (set_rlimit r v cfg) = memory_limit cfg"
  "output_limit (set_rlimit r v cfg) = output_limit cfg"
  "pass_exitcode (set_rlimit r v cfg) = pass_exitcode cfg"
  "cgname (set_rlimit r v cfg) = cgname cfg"
  "groups (set_rlimit r v cfg) = groups cfg"
  "cgroup_options (set_rlimit r v cfg) = cgroup_options cfg"
  "enable_devices_whitelist (set_rlimit r v cfg) = enable_devices_whitelist cfg"
  "enable_network (set_rlimit r v cfg) = enable_network cfg"
  "enable_pidns (set_rlimit r v cfg) = enable_pidns cfg"
  by (simp_all add: set_rlimit_def)

lemma spawn_flags_fields [simp]:
  "cpu_time_limit (spawn_flags cfg) = cpu_time_limit cfg"
  "real_time_limit (spawn_flags cfg) = real_time_limit cfg"
  "memory_limit (spawn_flags cfg) = memory_limit cfg"
  "output_limit (spawn_flags cfg) = output_limit cfg"
  "pass_exitcode (spawn_flags cfg) = pass_exitcode cfg"
  "cgname (spawn_flags cfg) = cgname cfg"
  by (simp_all add: spawn_flags_def)

lemma deadline_of_same [simp]:
  "deadline_of w (set_rlimit r v cfg) = deadline_of w cfg"
  "deadline_of w (spawn_flags cfg) = deadline_of w cfg"
  by (simp_all add: deadline_of_def)

subsection \<open>The monitoring loop reads the limits only\<close>

lemma loop_iter_limits:
  assumes "cpu_time_limit c = cpu_time_limit cfg" "memory_limit c = memory_limit cfg"
    "output_limit c = output_limit cfg"
  shows "loop_iter c d ob = loop_iter cfg d ob"
  by (simp only: loop_iter_def assms)

lemma main_loop_limits:
  assumes "cpu_time_limit c = cpu_time_limit cfg" "memory_limit c = memory_limit cfg"
    "output_limit c = output_limit cfg"
  shows "main_loop c d obs = main_loop cfg d obs"
  by (induction obs) (auto simp add: loop_iter_limits [OF assms] split: loop_step.splits)

lemma main_loop_same [simp]:
  "main_loop (spawn_flags cfg) d obs = main_loop cfg d obs"
  "main_loop (set_rlimit r v cfg) d obs = main_loop cfg d obs"
  by (rule main_loop_limits; simp)+

subsection \<open>Where the loop exits the process\<close>

lemma loop_iter_exit:
  assumes "loop_iter cfg d ob = StepExit evs code"
  shows "(ob_signal ob \<noteq> 0 \<and> code = 4 \<and> (\<exists>s. evs = [Stderr s])) \<or>
         (ob_signal ob = 0 \<and> ob_state ob = CHR ''Z'' \<and> (\<exists>e. ob_wait_zombie ob = WaitError e) \<and>
          code = 6 \<and> evs = [])"
  using assms
  by (auto simp add: loop_iter_def Let_def split: if_splits option.splits wait_result.splits)

lemma main_loop_exit:
  assumes "main_loop cfg d obs = Some (Inl (evs, code))"
  shows "\<exists>ob \<in> set obs.
           (ob_signal ob \<noteq> 0 \<and> code = 4 \<and> (\<exists>s. evs = [Stderr s])) \<or>
           (ob_signal ob = 0 \<and> ob_state ob = CHR ''Z'' \<and> (\<exists>e. ob_wait_zombie ob = WaitError e) \<and>
            code = 6 \<and> evs = [])"
  using assms
proof (induction obs)
  case Nil
  then show ?case by simp
next
  case (Cons ob obs)
  show ?case
  proof (cases "loop_iter cfg d ob")
    case (StepExit e c)
    with Cons.prems have "e = evs" "c = code" by simp_all
    with StepExit loop_iter_exit [of cfg d ob evs code] show ?thesis by auto
  next
    case (StepBreak s x)
    with Cons.prems show ?thesis by simp
  next
    case (StepNext r s)
    with Cons show ?thesis by (auto split: if_splits)
  qed
qed

subsection \<open>The stages of a run\<close>

lemma set_cgroup_options_failed:
  "snd (set_cgroup_options w ps) =
     (\<exists>p \<in> set ps. cg_set_ret w (fst (fst p)) (snd (fst p)) (snd p) \<noteq> 0)"
  by (induction w ps rule: set_cgroup_options.induct) (simp_all add: Let_def)

lemma set_cgroup_options_events:
  "e \<in> set (fst (set_cgroup_options w ps)) \<Longrightarrow> \<exists>s k v. e = CgSetOption s k v"
  by (induction w ps rule: set_cgroup_options.induct) (auto simp add: Let_def split: if_splits)

lemma setup_cgroup_result:
  "snd (setup_cgroup w cfg) =
    (if enable_devices_whitelist cfg \<and> limit_devices_ret w \<noteq> 0 then Inl 1
     else if 0 < memory_limit cfg \<and> set_memory_limit_ret w \<noteq> 0 then Inl 2
     else if (\<exists>p \<in> set (cgroup_options cfg). cg_set_ret w (fst (fst p)) (snd (fst p)) (snd p) \<noteq> 0) then Inl 7
     else if reset_usages_ret w \<noteq> 0 then Inl 4
     else Inr (if 0 < cpu_time_limit cfg
               then set_rlimit RLIMIT_CPU (to_int32 \<lceil>cpu_time_limit cfg\<rceil>) cfg else cfg))"
  by (simp add: setup_cgroup_def leave_def clean_cg_exit_def Let_def set_cgroup_options_failed [symmetric])

lemma run_command_unfold:
  "run_command w cfg =
    (if fcntl_ret w \<noteq> 0 \<and> fcntl_errno w \<noteq> EBADF then Some (leave cfg [SetCloexec3] 5)
     else if spawn_ret w \<le> 0
     then Some (leave (spawn_flags cfg) [SetCloexec3, CgSpawn (arg (spawn_flags cfg))] (10 - spawn_ret w))
     else (case main_loop cfg (deadline_of w cfg) (observations w) of
             None \<Rightarrow> None
           | Some (Inl (evs, code)) \<Rightarrow>
               Some (leave (spawn_flags cfg)
                      ([SetCloexec3, CgSpawn (arg (spawn_flags cfg)), Renice (- 5)] @ evs) code)
           | Some (Inr (stat, exceeded)) \<Rightarrow>
               Some ([SetCloexec3, CgSpawn (arg (spawn_flags cfg)), Renice (- 5),
                      Write3 (status_report (collect_stats (spawn_flags cfg) w stat exceeded) stat), Close3],
                     Inr (if pass_exitcode cfg then WEXITSTATUS stat else 0))))"
  by (simp add: run_command_def Let_def cong: if_cong
      split: option.splits sum.splits prod.splits)

lemma run_command_result:
  "map_option snd (run_command w cfg) =
    (if fcntl_ret w \<noteq> 0 \<and> fcntl_errno w \<noteq> EBADF then Some (Inl 5)
     else if spawn_ret w \<le> 0 then Some (Inl (10 - spawn_ret w))
     else (case main_loop cfg (deadline_of w cfg) (observations w) of
             None \<Rightarrow> None
           | Some (Inl (evs, code)) \<Rightarrow> Some (Inl code)
           | Some (Inr (stat, exceeded)) \<Rightarrow> Some (Inr (if pass_exitcode cfg then WEXITSTATUS stat else 0))))"
  by (simp add: run_command_unfold leave_def clean_cg_exit_def
      split: option.splits sum.splits prod.splits)

lemma supervise_result:
  "map_option snd (supervise w cfg) =
     (case snd (setup_cgroup w cfg) of
        Inl code \<Rightarrow> Some code
      | Inr cfg' \<Rightarrow> map_option (\<lambda>r. case r of Inl code \<Rightarrow> code | Inr ret \<Rightarrow> ret)
                      (map_option snd (run_command w cfg')))"
  by (simp add: supervise_def clean_cg_exit_def split: option.splits sum.splits prod.splits)

lemma supervise_code:
  "map_option snd (supervise w cfg) =
    (if enable_devices_whitelist cfg \<and> limit_devices_ret w \<noteq> 0 then Some 1
     else if 0 < memory_limit cfg \<and> set_memory_limit_ret w \<noteq> 0 then Some 2
     else if (\<exists>p \<in> set (cgroup_options cfg). cg_set_ret w (fst (fst p)) (snd (fst p)) (snd p) \<noteq> 0) then Some 7
     else if reset_usages_ret w \<noteq> 0 then Some 4
     else if fcntl_ret w \<noteq> 0 \<and> fcntl_errno w \<noteq> EBADF then Some 5
     else if spawn_ret w \<le> 0 then Some (10 - spawn_ret w)
     else (case main_loop cfg (deadline_of w cfg) (observations w) of
             None \<Rightarrow> None
           | Some (Inl (evs, code)) \<Rightarrow> Some code
           | Some (Inr (stat, exceeded)) \<Rightarrow> Some (if pass_exitcode cfg then WEXITSTATUS stat else 0)))"
  unfolding supervise_result setup_cgroup_result run_command_result
  by (simp split: option.splits sum.splits prod.splits)

subsection \<open>The events of a run\<close>

lemma set_cgroup_options_no_destroy [simp]:
  "CgDestroy \<notin> set (fst (set_cgroup_options w ps))"
  using set_cgroup_options_events [of CgDestroy w ps] by auto

lemma setup_cgroup_events:
  assumes "setup_cgroup w cfg = (evs, r)"
  shows "case r of
           Inl code \<Rightarrow> evs \<noteq> [] \<and> last evs = (if cgname cfg = [] then CgDestroy else CgKillall) \<and>
                      CgDestroy \<notin> set (butlast evs)
         | Inr cfg' \<Rightarrow> CgDestroy \<notin> set evs \<and> cgname cfg' = cgname cfg"
  using assms
  by (auto simp add: setup_cgroup_def leave_def clean_cg_exit_def Let_def
      butlast_append split: if_splits)

lemma main_loop_exit_no_destroy:
  assumes "main_loop cfg d obs = Some (Inl (evs, code))"
  shows "CgDestroy \<notin> set evs"
  using main_loop_exit [OF assms] by auto

lemma run_command_events:
  assumes "run_command w cfg = Some (evs, r)"
  shows "case r of
           Inl code \<Rightarrow> evs \<noteq> [] \<and> last evs = (if cgname cfg = [] then CgDestroy else CgKillall) \<and>
                      CgDestroy \<notin> set (butlast evs)
         | Inr ret \<Rightarrow> CgDestroy \<notin> set evs"
  using assms
  by (auto simp add: run_command_unfold leave_def clean_cg_exit_def butlast_append
      split: if_splits option.splits sum.splits prod.splits dest: main_loop_exit_no_destroy)

subsection \<open>Example runs\<close>

lemma example_config_fields [simp]:
  "\<not> enable_devices_whitelist example_config" "cgroup_options example_config = []"
  "memory_limit example_config = - 1" "cpu_time_limit example_config = - 1"
  "real_time_limit example_config = - 1" "output_limit example_config = - 1"
  "\<not> pass_exitcode example_config" "cgname example_config = []"
  by (simp_all add: example_config_def set_args_def init_default_config_def)

lemma example_world_fields [simp]:
  "reset_usages_ret example_world = 0" "fcntl_ret example_world = 0"
  "spawn_ret example_world = 4243" "limit_devices_ret example_world = 0"
  "set_memory_limit_ret example_world = 0" "start_time example_world = 100"
  "observations example_world = [idle, idle\<lparr>ob_wait := WaitPid 0\<rparr>]"
  by (simp_all add: example_world_def)

lemma example_loop:
  "main_loop example_config (deadline_of example_world example_config) (observations example_world) =
     Some (Inr (0, ''''))"
  by (simp add: idle_def loop_iter_def child_ended_def WIFEXITED_def WIFSIGNALED_def
      WTERMSIG_def deadline_of_def)

lemma example_run:
  "supervise example_world example_config =
     Some ([CgSet ''memory.swappiness'' (''0'' @ [CHR 0x0A]),
            CgSet ''memory.oom_control'' (''0'' @ [CHR 0x0A]),
            CgKillall, CgResetUsages, SetCloexec3,
            CgSpawn (arg (spawn_flags example_config)), Renice (- 5),
            Write3 (status_report (collect_stats (spawn_flags example_config) example_world 0 '''') 0),
            Close3, CgDestroy], 0)"
proof -
  have stage: "setup_cgroup example_world example_config =
      ([CgSet ''memory.swappiness'' (''0'' @ [CHR 0x0A]),
        CgSet ''memory.oom_control'' (''0'' @ [CHR 0x0A]), CgKillall, CgResetUsages],
       Inr example_config)"
    by (simp add: setup_cgroup_def Let_def)
  have run: "run_command example_world example_config =
      Some ([SetCloexec3, CgSpawn (arg (spawn_flags example_config)), Renice (- 5),
             Write3 (status_report (collect_stats (spawn_flags example_config) example_world 0 '''') 0),
             Close3], Inr 0)"
    unfolding run_command_unfold example_loop
    by simp
  show ?thesis
    by (simp add: supervise_def stage run clean_cg_exit_def)
qed

subsection \<open>Exit codes\<close>

text \<open>
  C2, as amended. The exit status of the supervisor, once the cgroup exists, identifies the
  failure: 2 for a failure to set the memory limit, 7 for a cgroup option that cannot be
  set, 4 for a failure to reset the usage counters, 5 for a failure to set
  \<^verbatim>\<open>FD_CLOEXEC\<close> on fd 3 whose error is not \<^verbatim>\<open>EBADF\<close> (with \<^verbatim>\<open>EBADF\<close> the failure is
  ignored and the run goes on), \<open>10 - e\<close> for a spawn that returned \<open>e \<le> 0\<close>, 4 for a
  signal seen by the loop and 6 for a failing \<^verbatim>\<open>waitpid\<close> on a zombie. When the loop ends
  and the report is written, the status is 0, or the child's \<^verbatim>\<open>WEXITSTATUS\<close> when
  \<^verbatim>\<open>--pass-exitcode\<close> is true. Each failure is the first that occurs; a failure of the
  device whitelist, which the claim does not list, exits with 1 before all of them.
\<close>

theorem exit_code_identifies_failure:
  "map_option snd (supervise w cfg) =
    (if enable_devices_whitelist cfg \<and> limit_devices_ret w \<noteq> 0 then Some 1
     else if 0 < memory_limit cfg \<and> set_memory_limit_ret w \<noteq> 0 then Some 2
     else if (\<exists>p \<in> set (cgroup_options cfg). cg_set_ret w (fst (fst p)) (snd (fst p)) (snd p) \<noteq> 0) then Some 7
     else if reset_usages_ret w \<noteq> 0 then Some 4
     else if fcntl_ret w \<noteq> 0 \<and> fcntl_errno w \<noteq> EBADF then Some 5
     else if spawn_ret w \<le> 0 then Some (10 - spawn_ret w)
     else (case main_loop cfg (deadline_of w cfg) (observations w) of
             None \<Rightarrow> None
           | Some (Inl (evs, code)) \<Rightarrow> Some code
           | Some (Inr (stat, exceeded)) \<Rightarrow> Some (if pass_exitcode cfg then WEXITSTATUS stat else 0)))
   \<and> (\<forall>evs code. main_loop cfg (deadline_of w cfg) (observations w) = Some (Inl (evs, code)) \<longrightarrow>
        (\<exists>ob \<in> set (observations w).
           (ob_signal ob \<noteq> 0 \<and> code = 4) \<or>
           (ob_signal ob = 0 \<and> ob_state ob = CHR ''Z'' \<and> (\<exists>e. ob_wait_zombie ob = WaitError e) \<and>
            code = 6)))"
proof (intro conjI allI impI)
  fix evs code
  assume "main_loop cfg (deadline_of w cfg) (observations w) = Some (Inl (evs, code))"
  from main_loop_exit [OF this]
  show "\<exists>ob \<in> set (observations w).
           (ob_signal ob \<noteq> 0 \<and> code = 4) \<or>
           (ob_signal ob = 0 \<and> ob_state ob = CHR ''Z'' \<and> (\<exists>e. ob_wait_zombie ob = WaitError e) \<and>
            code = 6)"
    by blast
qed (rule supervise_code)

text \<open>
  C2, witness: a failing memory limit, a failing spawn, a signal in the first round, a
  failing \<^verbatim>\<open>waitpid\<close> on a zombie, and a child that exits with 3 under
  \<^verbatim>\<open>--pass-exitcode true\<close>.
\<close>

theorem exit_code_identifies_failure_witness:
  "map_option snd (supervise (example_world\<lparr>set_memory_limit_ret := - 1\<rparr>)
                             (example_config\<lparr>memory_limit := 1000000\<rparr>)) = Some 2
   \<and> map_option snd (supervise (example_world\<lparr>spawn_ret := - 3\<rparr>) example_config) = Some 13
   \<and> main_loop example_config (- 1) [idle\<lparr>ob_signal := 15\<rparr>] =
        Some (Inl ([Stderr (''Receive signal 15, exiting...'' @ [CHR 0x0A])], 4))
   \<and> (\<exists>ob \<in> set [idle\<lparr>ob_signal := 15\<rparr>]. ob_signal ob \<noteq> 0)
   \<and> map_option snd (supervise (example_world\<lparr>observations := [idle\<lparr>ob_signal := 15\<rparr>]\<rparr>) example_config) = Some 4
   \<and> map_option snd (supervise (example_world\<lparr>observations :=
        [idle\<lparr>ob_state := CHR ''Z'', ob_wait_zombie := WaitError ECHILD\<rparr>]\<rparr>) example_config) = Some 6
   \<and> map_option snd (supervise (example_world\<lparr>observations := [idle\<lparr>ob_wait := WaitPid 0x300\<rparr>]\<rparr>)
                             (example_config\<lparr>pass_exitcode := True\<rparr>)) = Some 3"
proof -
  have sig: "main_loop example_config (- 1) [idle\<lparr>ob_signal := 15\<rparr>] =
        Some (Inl ([Stderr (''Receive signal 15, exiting...'' @ [CHR 0x0A])], 4))"
    by (simp add: loop_iter_def idle_def show_int_def digit_char_def)
  have zombie: "main_loop example_config (- 1)
        [idle\<lparr>ob_state := CHR ''Z'', ob_wait_zombie := WaitError ECHILD\<rparr>] = Some (Inl ([], 6))"
    by (simp add: loop_iter_def idle_def child_ended_def)
  have exited: "main_loop (example_config\<lparr>pass_exitcode := True\<rparr>) (- 1)
        [idle\<lparr>ob_wait := WaitPid 0x300\<rparr>] = Some (Inr (0x300, ''''))"
    by (simp add: loop_iter_def idle_def child_ended_def WIFEXITED_def WTERMSIG_def)
  have c1: "map_option snd (supervise (example_world\<lparr>set_memory_limit_ret := - 1\<rparr>)
                             (example_config\<lparr>memory_limit := 1000000\<rparr>)) = Some 2"
    using exit_code_identifies_failure [of "example_world\<lparr>set_memory_limit_ret := - 1\<rparr>"
        "example_config\<lparr>memory_limit := 1000000\<rparr>", THEN conjunct1]
    by simp
  have c2: "map_option snd (supervise (example_world\<lparr>spawn_ret := - 3\<rparr>) example_config) = Some 13"
    using exit_code_identifies_failure [of "example_world\<lparr>spawn_ret := - 3\<rparr>" example_config,
        THEN conjunct1]
    by simp
  have c3: "map_option snd (supervise (example_world\<lparr>observations := [idle\<lparr>ob_signal := 15\<rparr>]\<rparr>) example_config) = Some 4"
    using exit_code_identifies_failure [of "example_world\<lparr>observations := [idle\<lparr>ob_signal := 15\<rparr>]\<rparr>"
        example_config, THEN conjunct1]
    by (simp add: deadline_of_def sig del: main_loop.simps)
  have c4: "map_option snd (supervise (example_world\<lparr>observations :=
        [idle\<lparr>ob_state := CHR ''Z'', ob_wait_zombie := WaitError ECHILD\<rparr>]\<rparr>) example_config) = Some 6"
    using exit_code_identifies_failure [of "example_world\<lparr>observations :=
        [idle\<lparr>ob_state := CHR ''Z'', ob_wait_zombie := WaitError ECHILD\<rparr>]\<rparr>" example_config,
        THEN conjunct1]
    by (simp add: deadline_of_def zombie del: main_loop.simps)
  have c5: "map_option snd (supervise (example_world\<lparr>observations := [idle\<lparr>ob_wait := WaitPid 0x300\<rparr>]\<rparr>)
                             (example_config\<lparr>pass_exitcode := True\<rparr>)) = Some 3"
    using exit_code_identifies_failure [of "example_world\<lparr>observations := [idle\<lparr>ob_wait := WaitPid 0x300\<rparr>]\<rparr>"
        "example_config\<lparr>pass_exitcode := True\<rparr>", THEN conjunct1]
    by (simp add: deadline_of_def exited WEXITSTATUS_def del: main_loop.simps)
  have c6: "\<exists>ob \<in> set [idle\<lparr>ob_signal := 15\<rparr>].
              (ob_signal ob \<noteq> 0 \<and> (4::int) = 4) \<or>
              (ob_signal ob = 0 \<and> ob_state ob = CHR ''Z'' \<and> (\<exists>e. ob_wait_zombie ob = WaitError e) \<and>
               (4::int) = 6)"
    using exit_code_identifies_failure [of "example_world\<lparr>observations := [idle\<lparr>ob_signal := 15\<rparr>]\<rparr>"
        example_config, THEN conjunct2, rule_format,
        of "[Stderr (''Receive signal 15, exiting...'' @ [CHR 0x0A])]" 4] sig
    by (simp add: deadline_of_def del: main_loop.simps)
  from sig c1 c2 c3 c4 c5 c6 show ?thesis by (simp del: main_loop.simps)
qed

text \<open>
  C2, counterexample to the claim as stated: when fd 3 is not open, setting
  \<^verbatim>\<open>FD_CLOEXEC\<close> on it fails with \<^verbatim>\<open>EBADF\<close>; the supervisor goes on and exits with 0, not
  with 5.
\<close>

theorem exit_code_identifies_failure_counterexample:
  "fcntl_ret (example_world\<lparr>fcntl_ret := - 1, fcntl_errno := EBADF\<rparr>) \<noteq> 0
   \<and> map_option snd (supervise (example_world\<lparr>fcntl_ret := - 1, fcntl_errno := EBADF\<rparr>) example_config)
       = Some 0"
proof -
  have "main_loop example_config
          (deadline_of (example_world\<lparr>fcntl_ret := - 1, fcntl_errno := EBADF\<rparr>) example_config)
          (observations (example_world\<lparr>fcntl_ret := - 1, fcntl_errno := EBADF\<rparr>)) = Some (Inr (0, ''''))"
    using example_loop by (simp add: deadline_of_def)
  then show ?thesis
    by (simp add: supervise_code EBADF_def)
qed

subsection \<open>Cleanup\<close>

text \<open>
  C3. Every run that ends once the cgroup exists (a normal end, a failing step of the preparation, a
  signal) ends with the cleanup, and the cleanup depends on the ownership of the cgroup:
  with an empty \<^verbatim>\<open>cgname\<close> (no \<^verbatim>\<open>--cgname\<close>: the cgroup is the supervisor's own) the last
  event is the destruction of the cgroup; with a name given by \<^verbatim>\<open>--cgname\<close> the last event
  kills every task of the cgroup and the cgroup is destroyed nowhere in the run. The
  option stores its argument in \<^verbatim>\<open>cgname\<close>.
\<close>

theorem cleanup_by_ownership:
  assumes "supervise w cfg = Some (evs, code)"
  shows "evs \<noteq> [] \<and> last evs = (if cgname cfg = [] then CgDestroy else CgKillall) \<and>
         CgDestroy \<notin> set (butlast evs) \<and>
         parse_option sys cfg ''cgname'' (name # rest) = OptNext 1 (cfg\<lparr>cgname := name\<rparr>)"
proof -
  have opt: "parse_option sys cfg ''cgname'' (name # rest) = OptNext 1 (cfg\<lparr>cgname := name\<rparr>)"
    by (simp add: parse_option_def REQUIRE_NARGV_def Let_def)
  obtain ev1 r1 where stage: "setup_cgroup w cfg = (ev1, r1)"
    by (cases "setup_cgroup w cfg")
  have "evs \<noteq> [] \<and> last evs = (if cgname cfg = [] then CgDestroy else CgKillall) \<and>
         CgDestroy \<notin> set (butlast evs)"
  proof (cases r1)
    case (Inl c)
    with stage assms setup_cgroup_events [OF stage] show ?thesis
      by (auto simp add: supervise_def)
  next
    case (Inr cfg')
    with stage setup_cgroup_events [OF stage]
    have s: "CgDestroy \<notin> set ev1" "cgname cfg' = cgname cfg" by simp_all
    from assms stage Inr obtain ev2 r2 where run: "run_command w cfg' = Some (ev2, r2)"
      by (auto simp add: supervise_def split: option.splits)
    show ?thesis
    proof (cases r2)
      case (Inl c)
      with run_command_events [OF run]
      have "ev2 \<noteq> []" "last ev2 = (if cgname cfg' = [] then CgDestroy else CgKillall)"
        "CgDestroy \<notin> set (butlast ev2)" by auto
      with assms stage Inr run Inl s show ?thesis
        by (auto simp add: supervise_def butlast_append)
    next
      case r: (Inr ret)
      with run_command_events [OF run] have "CgDestroy \<notin> set ev2" by simp
      with assms stage Inr run r s show ?thesis
        by (auto simp add: supervise_def clean_cg_exit_def butlast_append)
    qed
  qed
  with opt show ?thesis by simp
qed

text \<open>C3, witness: the example run, whose cgroup is the supervisor's own.\<close>

theorem cleanup_by_ownership_witness:
  "supervise example_world example_config =
     Some ([CgSet ''memory.swappiness'' (''0'' @ [CHR 0x0A]),
            CgSet ''memory.oom_control'' (''0'' @ [CHR 0x0A]),
            CgKillall, CgResetUsages, SetCloexec3,
            CgSpawn (arg (spawn_flags example_config)), Renice (- 5),
            Write3 (status_report (collect_stats (spawn_flags example_config) example_world 0 '''') 0),
            Close3, CgDestroy], 0)
   \<and> cgname example_config = []
   \<and> parse_option example_sys example_config ''cgname'' [''box''] =
       OptNext 1 (example_config\<lparr>cgname := ''box''\<rparr>)"
  using cleanup_by_ownership [OF example_run, of example_sys "''box''" "[]"] example_run
  by simp

subsection \<open>The CPU time limit in the loop\<close>

text \<open>
  C5, as amended. In a round of the loop that reaches the sampling (no signal, the child
  not reaped as exited or killed) and with a CPU time limit set, the loop breaks with
  \<^verbatim>\<open>exceeded_limit = CPU_TIME\<close> exactly when the sampled \<^verbatim>\<open>cpu_usage()\<close> is greater than
  or equal to the limit; a sample equal to the limit triggers the break.
\<close>

theorem cpu_limit_break:
  assumes "ob_signal ob = 0" and "child_ended (ob_wait ob) = None" and "0 < cpu_time_limit cfg"
  shows "(loop_iter cfg deadline ob = StepBreak 0 ''CPU_TIME'') = (cpu_time_limit cfg \<le> ob_cpu ob)"
  using assms by (simp add: loop_iter_def Let_def)

text \<open>C5, witness: with a limit of one second, a sample of two seconds breaks the loop.\<close>

theorem cpu_limit_break_witness:
  "ob_signal (idle\<lparr>ob_cpu := 2\<rparr>) = 0
   \<and> child_ended (ob_wait (idle\<lparr>ob_cpu := 2\<rparr>)) = None
   \<and> 0 < cpu_time_limit (example_config\<lparr>cpu_time_limit := 1\<rparr>)
   \<and> loop_iter (example_config\<lparr>cpu_time_limit := 1\<rparr>) (- 1) (idle\<lparr>ob_cpu := 2\<rparr>) = StepBreak 0 ''CPU_TIME''"
proof -
  have h: "ob_signal (idle\<lparr>ob_cpu := 2\<rparr>) = 0" "child_ended (ob_wait (idle\<lparr>ob_cpu := 2\<rparr>)) = None"
    "0 < cpu_time_limit (example_config\<lparr>cpu_time_limit := 1\<rparr>)"
    by (simp_all add: idle_def child_ended_def)
  from cpu_limit_break [OF h, of "- 1"] h show ?thesis by simp
qed

text \<open>
  C5, counterexample to the claim as stated: with a limit of one second, a sample of exactly
  one second, which is not greater than the limit, breaks the loop with \<^verbatim>\<open>CPU_TIME\<close>.
\<close>

theorem cpu_limit_break_counterexample:
  "loop_iter (example_config\<lparr>cpu_time_limit := 1\<rparr>) (- 1) (idle\<lparr>ob_cpu := 1\<rparr>) = StepBreak 0 ''CPU_TIME''
   \<and> \<not> cpu_time_limit (example_config\<lparr>cpu_time_limit := 1\<rparr>) < ob_cpu (idle\<lparr>ob_cpu := 1\<rparr>)"
  by (simp add: idle_def child_ended_def loop_iter_def)

subsection \<open>Invariants of the option loop\<close>

lemma parse_loop_invariant:
  assumes step: "\<And>sys cfg option rest n cfg'.
      parse_option sys cfg option rest = OptNext n cfg' \<Longrightarrow> P cfg \<Longrightarrow> P cfg'"
    and args: "\<And>xs cfg. P (set_args xs cfg) = P cfg"
  shows "parse_loop sys cfg argv = Inr cfg' \<Longrightarrow> P cfg \<Longrightarrow> P cfg'"
proof (induction sys cfg argv rule: parse_loop.induct)
  case (1 sys cfg)
  then show ?case by simp
next
  case (2 sys cfg a rest)
  show ?case
  proof (cases "take 2 a \<noteq> ''--''")
    case True
    with 2 have "cfg' = set_args (a # rest) cfg" by simp
    with 2 show ?thesis by (simp add: args)
  next
    case False
    note dashes = this
    show ?thesis
    proof (cases "parse_option sys (set_args rest cfg) (drop 2 a) rest")
      case (OptHalt h)
      with 2 dashes show ?thesis by simp
    next
      case OptBreak
      with 2 dashes have "cfg' = set_args rest cfg" by simp
      with 2 show ?thesis by (simp add: args)
    next
      case (OptNext n c)
      have "P c" using step [OF OptNext] 2 by (simp add: args)
      with 2 dashes OptNext show ?thesis by (simp add: args)
    qed
  qed
qed

lemmas option_bodies =
  parse_option_def REQUIRE_NARGV_def Let_def max_memory_option_def max_output_option_def
  syscalls_option_def group_option_def interval_option_def upd_uts_def remount_ro_option_def
  bindfs_option_def cgroup_option_def


lemma parse_option_memory_limit:
  assumes "parse_option sys cfg option rest = OptNext n cfg'" and "option \<noteq> ''max-memory''"
  shows "memory_limit cfg' = memory_limit cfg"
  using assms by (auto simp add: option_bodies split: if_splits)

lemma parse_loop_untouched:
  assumes step: "\<And>sys cfg option rest n cfg'.
      option \<noteq> name \<Longrightarrow> parse_option sys cfg option rest = OptNext n cfg' \<Longrightarrow> f cfg' = f cfg"
    and args: "\<And>xs cfg. f (set_args xs cfg) = f cfg"
  shows "(''--'' @ name) \<notin> set argv \<Longrightarrow> parse_loop sys cfg argv = Inr cfg' \<Longrightarrow> f cfg' = f cfg"
proof (induction sys cfg argv rule: parse_loop.induct)
  case (1 sys cfg)
  then show ?case by simp
next
  case (2 sys cfg a rest)
  show ?case
  proof (cases "take 2 a \<noteq> ''--''")
    case True
    with 2 have "cfg' = set_args (a # rest) cfg" by simp
    then show ?thesis by (simp add: args)
  next
    case False
    note dashes = this
    have "a = take 2 a @ drop 2 a" by simp
    with dashes have "a = ''--'' @ drop 2 a" by simp
    with "2.prems"(1) have other: "drop 2 a \<noteq> name" by auto
    show ?thesis
    proof (cases "parse_option sys (set_args rest cfg) (drop 2 a) rest")
      case (OptHalt h)
      with 2 dashes show ?thesis by simp
    next
      case OptBreak
      with 2 dashes have "cfg' = set_args rest cfg" by simp
      then show ?thesis by (simp add: args)
    next
      case (OptNext n c)
      have c: "f c = f cfg" using step [OF other OptNext] by (simp add: args)
      from "2.prems"(1) have notin: "(''--'' @ name) \<notin> set (drop n rest)"
        by (auto dest: in_set_dropD)
      from "2.prems"(2) dashes OptNext
      have run: "parse_loop sys (set_args (drop n rest) c) (drop n rest) = Inr cfg'" by simp
      from "2.IH" [OF _ OptNext notin run] dashes
      have "f cfg' = f (set_args (drop n rest) c)" by simp
      with c show ?thesis by (simp add: args)
    qed
  qed
qed

lemma parse_option_output_limit:
  assumes "option \<noteq> ''max-output''" and "parse_option sys cfg option rest = OptNext n cfg'"
  shows "(output_limit cfg', rlimits (arg cfg') RLIMIT_FSIZE) =
         (output_limit cfg, rlimits (arg cfg) RLIMIT_FSIZE)"
  using assms by (auto simp add: option_bodies set_rlimit_def split: if_splits list.splits)

lemma parse_loop_max_memory:
  assumes "''--max-memory'' \<notin> set after"
    and "parse_loop sys cfg (''--max-memory'' # bytes # after) = Inr cfg'"
  shows "memory_limit cfg' = memory_limit (max_memory_option (to_bytes sys bytes) cfg)"
proof -
  from assms(2)
  have run: "parse_loop sys (set_args after (max_memory_option (to_bytes sys bytes) (set_args (bytes # after) cfg))) after = Inr cfg'"
    by (simp add: parse_option_def REQUIRE_NARGV_def Let_def)
  have "memory_limit cfg' =
      memory_limit (set_args after (max_memory_option (to_bytes sys bytes) (set_args (bytes # after) cfg)))"
    by (rule parse_loop_untouched [where f = memory_limit and name = "''max-memory''", OF _ _ _ run])
      (simp_all add: parse_option_memory_limit set_args_def assms(1))
  then show ?thesis by (simp add: set_args_def max_memory_option_def)
qed

lemma parse_loop_max_output:
  assumes "''--max-output'' \<notin> set after"
    and "parse_loop sys cfg (''--max-output'' # bytes # after) = Inr cfg'"
  shows "output_limit cfg' = to_bytes sys bytes"
    and "rlimits (arg cfg') RLIMIT_FSIZE = Some (to_bytes sys bytes)"
proof -
  let ?f = "\<lambda>c. (output_limit c, rlimits (arg c) RLIMIT_FSIZE)"
  from assms(2)
  have run: "parse_loop sys (set_args after (max_output_option (to_bytes sys bytes) (set_args (bytes # after) cfg))) after = Inr cfg'"
    by (simp add: parse_option_def REQUIRE_NARGV_def Let_def)
  have "?f cfg' =
      ?f (set_args after (max_output_option (to_bytes sys bytes) (set_args (bytes # after) cfg)))"
    by (rule parse_loop_untouched [where f = ?f and name = "''max-output''", OF _ _ _ run])
      (simp_all add: parse_option_output_limit set_args_def assms(1))
  then show "output_limit cfg' = to_bytes sys bytes"
    and "rlimits (arg cfg') RLIMIT_FSIZE = Some (to_bytes sys bytes)"
    by (simp_all add: set_args_def max_output_option_def set_rlimit_def)
qed

subsection \<open>The memory limit\<close>

text \<open>
  C7. \<^verbatim>\<open>--max-memory BYTES\<close> with a positive value of \<open>BYTES\<close> sets a memory limit of at
  least 500000: a value below 500000 becomes exactly 500000, a value of at least 500000 is
  kept. This is the limit of the whole invocation: when the option loop stands at
  \<^verbatim>\<open>--max-memory BYTES\<close>, in any configuration, and no later element of the command line is
  \<^verbatim>\<open>--max-memory\<close>, the configuration it returns has the memory limit
  \<open>max 500000 BYTES\<close>; so has the configuration of a command line whose first option it
  is, or in which it follows options that the loop has consumed. After the whole command
  line a positive memory limit is at least 500000, and a positive memory limit is the one
  that \<^verbatim>\<open>setup_cgroup\<close> passes to the cgroup.
\<close>

theorem max_memory_minimum:
  assumes "0 < to_bytes sys bytes"
  shows "parse_option sys cfg ''max-memory'' (bytes # rest) =
           OptNext 1 (max_memory_option (to_bytes sys bytes) cfg)
       \<and> 500000 \<le> memory_limit (max_memory_option (to_bytes sys bytes) cfg)
       \<and> (to_bytes sys bytes < 500000 \<longrightarrow>
            memory_limit (max_memory_option (to_bytes sys bytes) cfg) = 500000)
       \<and> (500000 \<le> to_bytes sys bytes \<longrightarrow>
            memory_limit (max_memory_option (to_bytes sys bytes) cfg) = to_bytes sys bytes)
       \<and> (\<forall>after cfg'.
            ''--max-memory'' \<notin> set after \<and>
            parse_loop sys cfg (''--max-memory'' # bytes # after) = Inr cfg' \<longrightarrow>
            memory_limit cfg' = max 500000 (to_bytes sys bytes))
       \<and> (\<forall>prog after cfg'.
            ''--max-memory'' \<notin> set after \<and>
            parse_cli_options sys (init_default_config sys)
              (prog # ''--max-memory'' # bytes # after) = Inr cfg' \<longrightarrow>
            memory_limit cfg' = max 500000 (to_bytes sys bytes))
       \<and> (\<forall>prog before c after cfg'.
            (\<forall>xs. parse_cli_options sys (init_default_config sys) (prog # before @ xs) =
                  parse_loop sys (set_args xs c) xs) \<and>
            ''--max-memory'' \<notin> set after \<and>
            parse_cli_options sys (init_default_config sys)
              (prog # before @ ''--max-memory'' # bytes # after) = Inr cfg' \<longrightarrow>
            memory_limit cfg' = max 500000 (to_bytes sys bytes))
       \<and> (\<forall>argv cfg'. parse_cli_options sys (init_default_config sys) argv = Inr cfg' \<longrightarrow>
            0 < memory_limit cfg' \<longrightarrow> 500000 \<le> memory_limit cfg')
       \<and> (\<forall>w c. 0 < memory_limit c \<and> \<not> (enable_devices_whitelist c \<and> limit_devices_ret w \<noteq> 0) \<longrightarrow>
            CgSetMemoryLimit (memory_limit c) \<in> set (fst (setup_cgroup w c)))"
proof -
  have step: "\<And>sys cfg option rest n cfg'.
      parse_option sys cfg option rest = OptNext n cfg' \<Longrightarrow>
      (0 < memory_limit cfg \<longrightarrow> 500000 \<le> memory_limit cfg) \<Longrightarrow>
      (0 < memory_limit cfg' \<longrightarrow> 500000 \<le> memory_limit cfg')"
  proof -
    fix sys cfg option rest n cfg'
    assume r: "parse_option sys cfg option rest = OptNext n cfg'"
      and inv: "0 < memory_limit cfg \<longrightarrow> 500000 \<le> memory_limit cfg"
    show "0 < memory_limit cfg' \<longrightarrow> 500000 \<le> memory_limit cfg'"
    proof (cases "option = ''max-memory''")
      case True
      with r show ?thesis
        by (auto simp add: parse_option_def REQUIRE_NARGV_def Let_def max_memory_option_def
            MIN_MEMORY_LIMIT_def split: if_splits)
    next
      case False
      with r inv parse_option_memory_limit [OF r] show ?thesis by simp
    qed
  qed
  have whole: "\<forall>argv cfg'. parse_cli_options sys (init_default_config sys) argv = Inr cfg' \<longrightarrow>
            0 < memory_limit cfg' \<longrightarrow> 500000 \<le> memory_limit cfg'"
  proof (intro allI impI)
    fix argv cfg'
    assume r: "parse_cli_options sys (init_default_config sys) argv = Inr cfg'"
      and pos: "0 < memory_limit cfg'"
    have init: "0 < memory_limit (set_args (tl argv) (init_default_config sys)) \<longrightarrow>
        500000 \<le> memory_limit (set_args (tl argv) (init_default_config sys))"
      by (simp add: set_args_def init_default_config_def)
    have "0 < memory_limit cfg' \<longrightarrow> 500000 \<le> memory_limit cfg'"
      by (rule parse_loop_invariant
          [where P = "\<lambda>c. 0 < memory_limit c \<longrightarrow> 500000 \<le> memory_limit c",
            OF step _ r [unfolded parse_cli_options_def] init])
        (simp_all add: set_args_def)
    with pos show "500000 \<le> memory_limit cfg'" by simp
  qed
  have clamp: "\<And>c. memory_limit (max_memory_option (to_bytes sys bytes) c) = max 500000 (to_bytes sys bytes)"
    using assms by (simp add: max_memory_option_def MIN_MEMORY_LIMIT_def)
  have loop: "\<And>c after cfg'. ''--max-memory'' \<notin> set after \<Longrightarrow>
      parse_loop sys c (''--max-memory'' # bytes # after) = Inr cfg' \<Longrightarrow>
      memory_limit cfg' = max 500000 (to_bytes sys bytes)"
    using parse_loop_max_memory clamp by simp
  have first: "\<forall>prog after cfg'.
            ''--max-memory'' \<notin> set after \<and>
            parse_cli_options sys (init_default_config sys)
              (prog # ''--max-memory'' # bytes # after) = Inr cfg' \<longrightarrow>
            memory_limit cfg' = max 500000 (to_bytes sys bytes)"
    unfolding parse_cli_options_def list.sel using loop by blast
  have later: "\<forall>prog before c after cfg'.
            (\<forall>xs. parse_cli_options sys (init_default_config sys) (prog # before @ xs) =
                  parse_loop sys (set_args xs c) xs) \<and>
            ''--max-memory'' \<notin> set after \<and>
            parse_cli_options sys (init_default_config sys)
              (prog # before @ ''--max-memory'' # bytes # after) = Inr cfg' \<longrightarrow>
            memory_limit cfg' = max 500000 (to_bytes sys bytes)"
  proof (intro allI impI, elim conjE)
    fix prog before c after cfg'
    assume "\<forall>xs. parse_cli_options sys (init_default_config sys) (prog # before @ xs) =
                  parse_loop sys (set_args xs c) xs"
      and n: "''--max-memory'' \<notin> set after"
      and "parse_cli_options sys (init_default_config sys)
              (prog # before @ ''--max-memory'' # bytes # after) = Inr cfg'"
    then have "parse_loop sys (set_args (''--max-memory'' # bytes # after) c)
        (''--max-memory'' # bytes # after) = Inr cfg'"
      by simp
    from loop [OF n this] show "memory_limit cfg' = max 500000 (to_bytes sys bytes)" .
  qed
  have force: "\<forall>w c. 0 < memory_limit c \<and> \<not> (enable_devices_whitelist c \<and> limit_devices_ret w \<noteq> 0) \<longrightarrow>
            CgSetMemoryLimit (memory_limit c) \<in> set (fst (setup_cgroup w c))"
    by (auto simp add: setup_cgroup_def leave_def Let_def)
  have here: "parse_option sys cfg ''max-memory'' (bytes # rest) =
           OptNext 1 (max_memory_option (to_bytes sys bytes) cfg)"
    by (simp add: parse_option_def REQUIRE_NARGV_def Let_def)
  have "\<forall>after cfg'.
            ''--max-memory'' \<notin> set after \<and>
            parse_loop sys cfg (''--max-memory'' # bytes # after) = Inr cfg' \<longrightarrow>
            memory_limit cfg' = max 500000 (to_bytes sys bytes)"
    using loop by blast
  with here clamp [of cfg] first later whole force show ?thesis
    by (intro conjI) simp_all
qed

text \<open>
  C7, witness: the example helper reads \<^verbatim>\<open>abc\<close> as 300000 bytes, which become 500000, and
  \<^verbatim>\<open>abcdefg\<close> as 700000 bytes, which are kept; so do the command lines
  \<^verbatim>\<open>lrun --max-cpu-time x --max-memory abc --network true /bin/true\<close> and
  \<^verbatim>\<open>lrun --max-memory abcdefg /bin/true\<close>.
\<close>

theorem max_memory_minimum_witness:
  "0 < to_bytes example_sys ''abc''
   \<and> parse_option example_sys example_config ''max-memory'' [''abc'', ''/bin/true''] =
       OptNext 1 (example_config\<lparr>memory_limit := 500000\<rparr>)
   \<and> parse_option example_sys example_config ''max-memory'' [''abcdefg'', ''/bin/true''] =
       OptNext 1 (example_config\<lparr>memory_limit := 700000\<rparr>)
   \<and> parse_cli_options example_sys (init_default_config example_sys)
       [''lrun'', ''--max-cpu-time'', ''x'', ''--max-memory'', ''abc'', ''--network'', ''true'',
        ''/bin/true''] =
       Inr (example_config\<lparr>cpu_time_limit := 1, memory_limit := 500000\<rparr>)
   \<and> parse_cli_options example_sys (init_default_config example_sys)
       [''lrun'', ''--max-memory'', ''abcdefg'', ''/bin/true''] =
       Inr (example_config\<lparr>memory_limit := 700000\<rparr>)
   \<and> CgSetMemoryLimit 500000 \<in>
       set (fst (setup_cgroup example_world (example_config\<lparr>memory_limit := 500000\<rparr>)))"
proof -
  let ?after = "[''--network'', ''true'', ''/bin/true'']"
  let ?c1 = "init_default_config example_sys\<lparr>cpu_time_limit := 1\<rparr>"
  let ?r1 = "example_config\<lparr>cpu_time_limit := 1, memory_limit := 500000\<rparr>"
  have h: "0 < to_bytes example_sys ''abc''" "0 < to_bytes example_sys ''abcdefg''"
    by (simp_all add: example_sys_def)
  have before: "\<forall>xs. parse_cli_options example_sys (init_default_config example_sys)
                   (''lrun'' # [''--max-cpu-time'', ''x''] @ xs) =
                 parse_loop example_sys (set_args xs ?c1) xs"
    by (simp add: parse_cli_options_def parse_option_def REQUIRE_NARGV_def Let_def set_args_def
        upd_arg_def example_sys_def)
  have p1: "parse_cli_options example_sys (init_default_config example_sys)
       (''lrun'' # [''--max-cpu-time'', ''x''] @ ''--max-memory'' # ''abc'' # ?after) = Inr ?r1"
    by (simp add: parse_cli_options_def parse_option_def REQUIRE_NARGV_def Let_def set_args_def
        upd_arg_def max_memory_option_def MIN_MEMORY_LIMIT_def init_default_config_def example_sys_def
        example_config_def)
  have p2: "parse_cli_options example_sys (init_default_config example_sys)
       (''lrun'' # ''--max-memory'' # ''abcdefg'' # [''/bin/true'']) =
       Inr (example_config\<lparr>memory_limit := 700000\<rparr>)"
    by (simp add: parse_cli_options_def parse_option_def REQUIRE_NARGV_def Let_def set_args_def
        upd_arg_def max_memory_option_def MIN_MEMORY_LIMIT_def init_default_config_def example_sys_def
        example_config_def)
  note t1 = max_memory_minimum [OF h(1), of example_config "[''/bin/true'']"]
  note t2 = max_memory_minimum [OF h(2), of example_config "[''/bin/true'']"]
  from t1 [THEN conjunct2, THEN conjunct2, THEN conjunct2, THEN conjunct2, THEN conjunct2,
      THEN conjunct2, THEN conjunct1, rule_format,
      of "''lrun''" "[''--max-cpu-time'', ''x'']" ?c1 ?after ?r1] before p1
  have m1: "memory_limit ?r1 = max 500000 (to_bytes example_sys ''abc'')"
    by simp
  from t2 [THEN conjunct2, THEN conjunct2, THEN conjunct2, THEN conjunct2, THEN conjunct2,
      THEN conjunct1, rule_format,
      of "[''/bin/true'']" "''lrun''" "example_config\<lparr>memory_limit := 700000\<rparr>"] p2
  have m2: "memory_limit (example_config\<lparr>memory_limit := 700000\<rparr>) =
      max 500000 (to_bytes example_sys ''abcdefg'')"
    by simp
  from t1 [THEN conjunct2, THEN conjunct2, THEN conjunct2, THEN conjunct2, THEN conjunct2,
      THEN conjunct2, THEN conjunct2, THEN conjunct2, rule_format,
      of "example_config\<lparr>memory_limit := 500000\<rparr>" example_world]
  have f: "CgSetMemoryLimit 500000 \<in>
       set (fst (setup_cgroup example_world (example_config\<lparr>memory_limit := 500000\<rparr>)))"
    by simp
  from t1 [THEN conjunct1] t2 [THEN conjunct1] h p1 p2 f m1 m2 show ?thesis
    by (simp add: max_memory_option_def MIN_MEMORY_LIMIT_def example_sys_def)
qed

subsection \<open>The syscall filter\<close>



subsection \<open>The output limit\<close>

lemma setup_cgroup_fsize:
  assumes "snd (setup_cgroup w cfg) = Inr cfg'"
  shows "rlimits (arg cfg') RLIMIT_FSIZE = rlimits (arg cfg) RLIMIT_FSIZE"
  using assms unfolding setup_cgroup_result
  by (auto simp add: set_rlimit_def split: if_splits)

lemma spawn_args_simps [simp]:
  "spawn_args [] = []"
  "spawn_args (e # es) = spawned e @ spawn_args es"
  "spawn_args (xs @ ys) = spawn_args xs @ spawn_args ys"
  by (simp_all add: spawn_args_def)

lemma set_cgroup_options_no_spawn [simp]:
  "spawn_args (fst (set_cgroup_options w ps)) = []"
  by (induction w ps rule: set_cgroup_options.induct) (simp_all add: Let_def)

lemma setup_cgroup_no_spawn [simp]:
  "spawn_args (fst (setup_cgroup w cfg)) = []"
  by (simp add: setup_cgroup_def leave_def clean_cg_exit_def Let_def)

lemma main_loop_exit_no_spawn:
  assumes "main_loop cfg d obs = Some (Inl (evs, code))"
  shows "spawn_args evs = []"
  using main_loop_exit [OF assms] by auto

lemma cgroup_prepared_result:
  assumes "cgroup_prepared w cfg"
  shows "snd (setup_cgroup w cfg) =
           Inr (if 0 < cpu_time_limit cfg
                then set_rlimit RLIMIT_CPU (to_int32 \<lceil>cpu_time_limit cfg\<rceil>) cfg else cfg)"
  using assms unfolding setup_cgroup_result cgroup_prepared_def
  by (auto simp add: list_all_iff)

lemma run_command_spawn:
  assumes "fd3_prepared w" and "run_command w cfg = Some (evs, r)"
  shows "spawn_args evs = [arg (spawn_flags cfg)]"
  using assms
  by (auto simp add: run_command_unfold fd3_prepared_def leave_def clean_cg_exit_def
      split: if_splits option.splits sum.splits prod.splits dest: main_loop_exit_no_spawn)

lemma supervise_spawn:
  assumes p: "cgroup_prepared w cfg" and f: "fd3_prepared w"
    and s: "supervise w cfg = Some (evs, code)"
  shows "\<exists>a. spawn_args evs = [a] \<and> rlimits a RLIMIT_FSIZE = rlimits (arg cfg) RLIMIT_FSIZE"
proof -
  obtain ev1 r1 where stage: "setup_cgroup w cfg = (ev1, r1)" by (cases "setup_cgroup w cfg")
  from cgroup_prepared_result [OF p] stage obtain cfg' where r1: "r1 = Inr cfg'"
    and ok: "snd (setup_cgroup w cfg) = Inr cfg'" by simp
  have ev1: "spawn_args ev1 = []" using setup_cgroup_no_spawn [of w cfg] stage by simp
  from s stage r1 obtain ev2 r2 where run: "run_command w cfg' = Some (ev2, r2)"
    by (auto simp add: supervise_def split: option.splits)
  from s stage r1 run ev1 run_command_spawn [OF f run]
  have "spawn_args evs = [arg (spawn_flags cfg')]"
    by (cases r2) (auto simp add: supervise_def clean_cg_exit_def)
  moreover from setup_cgroup_fsize [OF ok]
  have "rlimits (arg (spawn_flags cfg')) RLIMIT_FSIZE = rlimits (arg cfg) RLIMIT_FSIZE"
    by (simp add: spawn_flags_def)
  ultimately show ?thesis by simp
qed

lemma example_output_run:
  "supervise example_world (max_output_option 300000 example_config) =
     Some ([CgSet ''memory.swappiness'' (''0'' @ [CHR 0x0A]),
            CgSet ''memory.oom_control'' (''0'' @ [CHR 0x0A]),
            CgKillall, CgResetUsages, SetCloexec3,
            CgSpawn (arg (spawn_flags (max_output_option 300000 example_config))), Renice (- 5),
            Write3 (status_report
                      (collect_stats (spawn_flags (max_output_option 300000 example_config))
                         example_world 0 '''') 0),
            Close3, CgDestroy], 0)"
proof -
  let ?c = "max_output_option 300000 example_config"
  have fields: "\<not> enable_devices_whitelist ?c" "cgroup_options ?c = []" "memory_limit ?c = - 1"
    "cpu_time_limit ?c = - 1" "real_time_limit ?c = - 1" "output_limit ?c = 300000"
    "\<not> pass_exitcode ?c" "cgname ?c = []"
    by (simp_all add: max_output_option_def)
  have stage: "setup_cgroup example_world ?c =
      ([CgSet ''memory.swappiness'' (''0'' @ [CHR 0x0A]),
        CgSet ''memory.oom_control'' (''0'' @ [CHR 0x0A]), CgKillall, CgResetUsages],
       Inr ?c)"
    by (simp add: setup_cgroup_def Let_def fields)
  have loop: "main_loop ?c (deadline_of example_world ?c) (observations example_world) =
     Some (Inr (0, ''''))"
    by (simp add: idle_def loop_iter_def child_ended_def WIFEXITED_def WIFSIGNALED_def
        WTERMSIG_def deadline_of_def fields)
  have run: "run_command example_world ?c =
      Some ([SetCloexec3, CgSpawn (arg (spawn_flags ?c)), Renice (- 5),
             Write3 (status_report (collect_stats (spawn_flags ?c) example_world 0 '''') 0),
             Close3], Inr 0)"
    unfolding run_command_unfold loop
    by (simp add: fields)
  show ?thesis
    by (simp add: supervise_def stage run clean_cg_exit_def fields)
qed

text \<open>
  C9, as amended. \<^verbatim>\<open>--max-output BYTES\<close> stores the value both as the output limit of the
  loop and as the resource limit \<^verbatim>\<open>RLIMIT_FSIZE\<close> of the child, whatever the value is.
  These are the values of the whole invocation: when the option loop stands at
  \<^verbatim>\<open>--max-output BYTES\<close> and no later element of the command line is \<^verbatim>\<open>--max-output\<close>,
  the configuration it returns has both. The resource limit is in the argument of the one
  call of \<^verbatim>\<open>cg.spawn\<close> of every run that gets as far as the spawn. The counter check of
  the loop is on only with a positive value: then a round that would otherwise go on
  breaks with \<^verbatim>\<open>OUTPUT\<close> when the counter is above the limit; with a value of 0 or below
  the loop behaves as without the option.
\<close>

theorem max_output_sets_fsize:
  "parse_option sys cfg ''max-output'' (bytes # rest) =
     OptNext 1 (max_output_option (to_bytes sys bytes) cfg)
   \<and> output_limit (max_output_option b cfg) = b
   \<and> rlimits (arg (max_output_option b cfg)) RLIMIT_FSIZE = Some b
   \<and> (\<forall>w c'. snd (setup_cgroup w (max_output_option b cfg)) = Inr c' \<longrightarrow>
        rlimits (arg (spawn_flags c')) RLIMIT_FSIZE = Some b)
   \<and> (\<forall>d ob running stat.
        loop_iter (cfg\<lparr>output_limit := - 1\<rparr>) d ob = StepNext running stat \<longrightarrow>
        0 < b \<longrightarrow> b < ob_output ob \<longrightarrow>
        loop_iter (max_output_option b cfg) d ob = StepBreak stat ''OUTPUT'')
   \<and> (\<forall>d ob. b \<le> 0 \<longrightarrow>
        loop_iter (max_output_option b cfg) d ob = loop_iter (cfg\<lparr>output_limit := - 1\<rparr>) d ob)
   \<and> (\<forall>after cfg'.
        ''--max-output'' \<notin> set after \<and>
        parse_loop sys cfg (''--max-output'' # bytes # after) = Inr cfg' \<longrightarrow>
        output_limit cfg' = to_bytes sys bytes \<and>
        rlimits (arg cfg') RLIMIT_FSIZE = Some (to_bytes sys bytes))
   \<and> (\<forall>prog after cfg'.
        ''--max-output'' \<notin> set after \<and>
        parse_cli_options sys (init_default_config sys)
          (prog # ''--max-output'' # bytes # after) = Inr cfg' \<longrightarrow>
        output_limit cfg' = to_bytes sys bytes \<and>
        rlimits (arg cfg') RLIMIT_FSIZE = Some (to_bytes sys bytes))
   \<and> (\<forall>prog before c after cfg'.
        (\<forall>xs. parse_cli_options sys (init_default_config sys) (prog # before @ xs) =
              parse_loop sys (set_args xs c) xs) \<and>
        ''--max-output'' \<notin> set after \<and>
        parse_cli_options sys (init_default_config sys)
          (prog # before @ ''--max-output'' # bytes # after) = Inr cfg' \<longrightarrow>
        output_limit cfg' = to_bytes sys bytes \<and>
        rlimits (arg cfg') RLIMIT_FSIZE = Some (to_bytes sys bytes))
   \<and> (\<forall>w c evs code.
        rlimits (arg c) RLIMIT_FSIZE = Some b \<and> cgroup_prepared w c \<and> fd3_prepared w \<and>
        supervise w c = Some (evs, code) \<longrightarrow>
        (\<exists>a. spawn_args evs = [a] \<and> rlimits a RLIMIT_FSIZE = Some b))"
proof -
  have here: "parse_option sys cfg ''max-output'' (bytes # rest) =
     OptNext 1 (max_output_option (to_bytes sys bytes) cfg)"
    by (simp add: parse_option_def REQUIRE_NARGV_def Let_def)
  have lim: "output_limit (max_output_option b cfg) = b"
    by (simp add: max_output_option_def)
  have fsize: "rlimits (arg (max_output_option b cfg)) RLIMIT_FSIZE = Some b"
    by (simp add: max_output_option_def set_rlimit_def)
  have kept: "\<forall>w c'. snd (setup_cgroup w (max_output_option b cfg)) = Inr c' \<longrightarrow>
        rlimits (arg (spawn_flags c')) RLIMIT_FSIZE = Some b"
  proof (intro allI impI)
    fix w c'
    assume "snd (setup_cgroup w (max_output_option b cfg)) = Inr c'"
    from setup_cgroup_fsize [OF this]
    show "rlimits (arg (spawn_flags c')) RLIMIT_FSIZE = Some b"
      by (simp add: spawn_flags_def max_output_option_def set_rlimit_def)
  qed
  have on: "\<forall>d ob running stat.
        loop_iter (cfg\<lparr>output_limit := - 1\<rparr>) d ob = StepNext running stat \<longrightarrow>
        0 < b \<longrightarrow> b < ob_output ob \<longrightarrow>
        loop_iter (max_output_option b cfg) d ob = StepBreak stat ''OUTPUT''"
    by (auto simp add: loop_iter_def max_output_option_def Let_def
        split: if_splits option.splits)
  have off: "\<forall>d ob. b \<le> 0 \<longrightarrow>
        loop_iter (max_output_option b cfg) d ob = loop_iter (cfg\<lparr>output_limit := - 1\<rparr>) d ob"
    by (auto simp add: loop_iter_def max_output_option_def Let_def split: option.splits)
  have loop: "\<And>c after cfg'. ''--max-output'' \<notin> set after \<Longrightarrow>
      parse_loop sys c (''--max-output'' # bytes # after) = Inr cfg' \<Longrightarrow>
      output_limit cfg' = to_bytes sys bytes \<and>
      rlimits (arg cfg') RLIMIT_FSIZE = Some (to_bytes sys bytes)"
    using parse_loop_max_output by blast
  have l: "\<forall>after cfg'.
        ''--max-output'' \<notin> set after \<and>
        parse_loop sys cfg (''--max-output'' # bytes # after) = Inr cfg' \<longrightarrow>
        output_limit cfg' = to_bytes sys bytes \<and>
        rlimits (arg cfg') RLIMIT_FSIZE = Some (to_bytes sys bytes)"
    using loop by blast
  have first: "\<forall>prog after cfg'.
        ''--max-output'' \<notin> set after \<and>
        parse_cli_options sys (init_default_config sys)
          (prog # ''--max-output'' # bytes # after) = Inr cfg' \<longrightarrow>
        output_limit cfg' = to_bytes sys bytes \<and>
        rlimits (arg cfg') RLIMIT_FSIZE = Some (to_bytes sys bytes)"
    unfolding parse_cli_options_def list.sel using loop by blast
  have later: "\<forall>prog before c after cfg'.
        (\<forall>xs. parse_cli_options sys (init_default_config sys) (prog # before @ xs) =
              parse_loop sys (set_args xs c) xs) \<and>
        ''--max-output'' \<notin> set after \<and>
        parse_cli_options sys (init_default_config sys)
          (prog # before @ ''--max-output'' # bytes # after) = Inr cfg' \<longrightarrow>
        output_limit cfg' = to_bytes sys bytes \<and>
        rlimits (arg cfg') RLIMIT_FSIZE = Some (to_bytes sys bytes)"
  proof (intro allI impI, elim conjE)
    fix prog before c after cfg'
    assume "\<forall>xs. parse_cli_options sys (init_default_config sys) (prog # before @ xs) =
                  parse_loop sys (set_args xs c) xs"
      and n: "''--max-output'' \<notin> set after"
      and "parse_cli_options sys (init_default_config sys)
              (prog # before @ ''--max-output'' # bytes # after) = Inr cfg'"
    then have "parse_loop sys (set_args (''--max-output'' # bytes # after) c)
        (''--max-output'' # bytes # after) = Inr cfg'"
      by simp
    from loop [OF n this]
    show "output_limit cfg' = to_bytes sys bytes \<and>
        rlimits (arg cfg') RLIMIT_FSIZE = Some (to_bytes sys bytes)" .
  qed
  have spawn: "\<forall>w c evs code.
        rlimits (arg c) RLIMIT_FSIZE = Some b \<and> cgroup_prepared w c \<and> fd3_prepared w \<and>
        supervise w c = Some (evs, code) \<longrightarrow>
        (\<exists>a. spawn_args evs = [a] \<and> rlimits a RLIMIT_FSIZE = Some b)"
    using supervise_spawn by metis
  show ?thesis
    by (intro conjI) (rule here lim fsize kept on off l first later spawn)+
qed

text \<open>
  C9, witness: the example helper reads \<^verbatim>\<open>abc\<close> as 300000 bytes; the command line
  \<^verbatim>\<open>lrun --max-cpu-time x --max-output abc /bin/true\<close> gives both limits, the example run
  spawns the child with the resource limit, and a round in which the counter shows 300001
  bytes breaks the loop.
\<close>

theorem max_output_sets_fsize_witness:
  "parse_option example_sys example_config ''max-output'' [''abc''] =
     OptNext 1 (max_output_option 300000 example_config)
   \<and> rlimits (arg (max_output_option 300000 example_config)) RLIMIT_FSIZE = Some 300000
   \<and> parse_cli_options example_sys (init_default_config example_sys)
       [''lrun'', ''--max-cpu-time'', ''x'', ''--max-output'', ''abc'', ''/bin/true''] =
       Inr (max_output_option 300000 (example_config\<lparr>cpu_time_limit := 1\<rparr>))
   \<and> output_limit (max_output_option 300000 (example_config\<lparr>cpu_time_limit := 1\<rparr>)) = 300000
   \<and> rlimits (arg (max_output_option 300000 (example_config\<lparr>cpu_time_limit := 1\<rparr>))) RLIMIT_FSIZE =
       Some 300000
   \<and> cgroup_prepared example_world (max_output_option 300000 example_config)
   \<and> fd3_prepared example_world
   \<and> (\<exists>a. map_option (spawn_args \<circ> fst)
             (supervise example_world (max_output_option 300000 example_config)) = Some [a] \<and>
           rlimits a RLIMIT_FSIZE = Some 300000)
   \<and> loop_iter (example_config\<lparr>output_limit := - 1\<rparr>) (- 1) (idle\<lparr>ob_output := 300001\<rparr>) = StepNext True 0
   \<and> loop_iter (max_output_option 300000 example_config) (- 1) (idle\<lparr>ob_output := 300001\<rparr>) =
       StepBreak 0 ''OUTPUT''
   \<and> loop_iter (max_output_option 0 example_config) (- 1) (idle\<lparr>ob_output := 300001\<rparr>) = StepNext True 0"
proof -
  let ?c = "max_output_option 300000 example_config"
  let ?r = "max_output_option 300000 (example_config\<lparr>cpu_time_limit := 1\<rparr>)"
  let ?c1 = "init_default_config example_sys\<lparr>cpu_time_limit := 1\<rparr>"
  note t = max_output_sets_fsize [of example_sys example_config "''abc''" "[]" 300000]
  note t0 = max_output_sets_fsize [of example_sys example_config "''abc''" "[]" 0]
  have l: "loop_iter (example_config\<lparr>output_limit := - 1\<rparr>) (- 1) (idle\<lparr>ob_output := 300001\<rparr>) = StepNext True 0"
    by (simp add: loop_iter_def idle_def child_ended_def)
  have before: "\<forall>xs. parse_cli_options example_sys (init_default_config example_sys)
                   (''lrun'' # [''--max-cpu-time'', ''x''] @ xs) =
                 parse_loop example_sys (set_args xs ?c1) xs"
    by (simp add: parse_cli_options_def parse_option_def REQUIRE_NARGV_def Let_def set_args_def
        upd_arg_def example_sys_def)
  have p: "parse_cli_options example_sys (init_default_config example_sys)
       (''lrun'' # [''--max-cpu-time'', ''x''] @ ''--max-output'' # ''abc'' # [''/bin/true'']) = Inr ?r"
    by (simp add: parse_cli_options_def parse_option_def REQUIRE_NARGV_def Let_def set_args_def
        upd_arg_def max_output_option_def set_rlimit_def init_default_config_def example_sys_def
        example_config_def)
  have prep: "cgroup_prepared example_world ?c" "fd3_prepared example_world"
    by (simp_all add: cgroup_prepared_def fd3_prepared_def max_output_option_def)
  from t have a: "parse_option example_sys example_config ''max-output'' [''abc''] =
     OptNext 1 (max_output_option 300000 example_config)"
    by (simp add: example_sys_def)
  from t have b: "rlimits (arg ?c) RLIMIT_FSIZE = Some 300000"
    by simp
  from t [THEN conjunct2, THEN conjunct2, THEN conjunct2, THEN conjunct2, THEN conjunct2,
      THEN conjunct2, THEN conjunct2, THEN conjunct2, THEN conjunct1, rule_format,
      of "''lrun''" "[''--max-cpu-time'', ''x'']" ?c1 "[''/bin/true'']" ?r] before p
  have c: "output_limit ?r = 300000" "rlimits (arg ?r) RLIMIT_FSIZE = Some 300000"
    by (simp_all add: example_sys_def)
  from t [THEN conjunct2, THEN conjunct2, THEN conjunct2, THEN conjunct2, THEN conjunct2,
      THEN conjunct2, THEN conjunct2, THEN conjunct2, THEN conjunct2, rule_format,
      of ?c example_world _ 0] b prep example_output_run
  have d: "\<exists>a. map_option (spawn_args \<circ> fst) (supervise example_world ?c) = Some [a] \<and>
           rlimits a RLIMIT_FSIZE = Some 300000"
    by (simp add: example_output_run)
  from t [THEN conjunct2, THEN conjunct2, THEN conjunct2, THEN conjunct2, THEN conjunct1,
      rule_format, of "- 1" "idle\<lparr>ob_output := 300001\<rparr>" True 0] l
  have e: "loop_iter ?c (- 1) (idle\<lparr>ob_output := 300001\<rparr>) = StepBreak 0 ''OUTPUT''"
    by (simp add: idle_def)
  from t0 [THEN conjunct2, THEN conjunct2, THEN conjunct2, THEN conjunct2, THEN conjunct2,
      THEN conjunct1, rule_format, of "- 1" "idle\<lparr>ob_output := 300001\<rparr>"] l
  have f: "loop_iter (max_output_option 0 example_config) (- 1) (idle\<lparr>ob_output := 300001\<rparr>) =
      StepNext True 0"
    by simp
  from a b p c prep d l e f show ?thesis by simp
qed

text \<open>
  C9, counterexample to the claim as stated: the example helper reads the empty string as
  0 bytes. \<^verbatim>\<open>lrun --max-output '' /bin/true\<close> sets \<^verbatim>\<open>RLIMIT_FSIZE\<close> to 0, but the counter
  check is not enabled: a round in which the counter shows 1000000000 bytes goes on.
\<close>

theorem max_output_sets_fsize_counterexample:
  "parse_cli_options example_sys (init_default_config example_sys)
     [''lrun'', ''--max-output'', '''', ''/bin/true''] = Inr (max_output_option 0 example_config)
   \<and> rlimits (arg (max_output_option 0 example_config)) RLIMIT_FSIZE = Some 0
   \<and> loop_iter (max_output_option 0 example_config) (- 1) (idle\<lparr>ob_output := 1000000000\<rparr>) =
       StepNext True 0"
  by (simp add: parse_cli_options_def parse_option_def REQUIRE_NARGV_def Let_def set_args_def
      upd_arg_def max_output_option_def set_rlimit_def init_default_config_def example_sys_def
      example_config_def loop_iter_def idle_def child_ended_def)

subsection \<open>Supplementary groups\<close>




subsection \<open>Wait statuses\<close>

lemma and_127:
  assumes "0 \<le> s" "s < 128"
  shows "s AND 127 = (s::int)"
proof -
  have m: "(127::int) = mask 7" by (simp add: mask_eq_exp_minus_1)
  have "s AND mask 7 = take_bit 7 s" by (simp add: take_bit_eq_mask)
  also have "\<dots> = s mod 2 ^ 7" by (simp add: take_bit_eq_mod)
  also have "\<dots> = s" using assms by simp
  finally show ?thesis by (simp only: m)
qed

lemma WTERMSIG_range: "0 \<le> WTERMSIG s \<and> WTERMSIG s < 128"
  unfolding WTERMSIG_def by simp

lemma WEXITSTATUS_range: "0 \<le> WEXITSTATUS s \<and> WEXITSTATUS s < 256"
  unfolding WEXITSTATUS_def by simp

subsection \<open>The tag of the exceeded limit\<close>

text \<open>
  C6, as amended. After the loop, for a child reaped with status \<open>stat\<close>: if it was killed
  by SIGXCPU the reported CPUTIME is the limit, and the EXCEED tag is CPU_TIME unless the
  elapsed real time has reached a real-time limit that is set, in which case it is
  REAL_TIME; if it was killed by SIGXFSZ the tag is OUTPUT, again unless it is REAL_TIME for
  that reason; for any other termination the signal is reported verbatim in TERMSIG, and
  the tag is REAL_TIME, CPU_TIME or MEMORY when the check of that limit after the loop
  finds it reached (in this order of precedence) and otherwise what the loop detected,
  possibly none.
\<close>

theorem reaped_child_exceed_tag:
  "exceeded_limit (collect_stats cfg w stat exceeded) =
     (if 0 < real_time_limit cfg \<and> real_time_limit cfg \<le> now_final w - start_time w
      then ''REAL_TIME''
      else if WIFSIGNALED stat \<and> WTERMSIG stat = SIGXFSZ then ''OUTPUT''
      else if (WIFSIGNALED stat \<and> WTERMSIG stat = SIGXCPU) \<or>
              (0 < cpu_time_limit cfg \<and> cpu_time_limit cfg \<le> cpu_final w)
      then ''CPU_TIME''
      else if 0 < memory_limit cfg \<and> memory_limit cfg \<le> mem_final w then ''MEMORY''
      else exceeded)
   \<and> (WIFSIGNALED stat \<and> WTERMSIG stat = SIGXCPU \<longrightarrow>
        cpu_time_usage (collect_stats cfg w stat exceeded) = cpu_time_limit cfg)
   \<and> (\<exists>pre post. report_text (collect_stats cfg w stat exceeded) stat =
        pre @ ''TERMSIG  '' @ show_int (WTERMSIG stat) @ [CHR 0x0A] @ post)
   \<and> (\<forall>sig. 0 < sig \<and> sig < 127 \<longrightarrow>
        WIFSIGNALED sig \<and> WTERMSIG sig = sig \<and> WTERMSIG (sig OR 128) = sig)"
proof (intro conjI allI impI)
  show "exceeded_limit (collect_stats cfg w stat exceeded) =
     (if 0 < real_time_limit cfg \<and> real_time_limit cfg \<le> now_final w - start_time w
      then ''REAL_TIME''
      else if WIFSIGNALED stat \<and> WTERMSIG stat = SIGXFSZ then ''OUTPUT''
      else if (WIFSIGNALED stat \<and> WTERMSIG stat = SIGXCPU) \<or>
              (0 < cpu_time_limit cfg \<and> cpu_time_limit cfg \<le> cpu_final w)
      then ''CPU_TIME''
      else if 0 < memory_limit cfg \<and> memory_limit cfg \<le> mem_final w then ''MEMORY''
      else exceeded)"
    by (simp add: collect_stats_def Let_def)
next
  assume "WIFSIGNALED stat \<and> WTERMSIG stat = SIGXCPU"
  then show "cpu_time_usage (collect_stats cfg w stat exceeded) = cpu_time_limit cfg"
    by (simp add: collect_stats_def Let_def)
next
  let ?st = "collect_stats cfg w stat exceeded"
  have "report_text ?st stat =
      (report_line ''MEMORY   '' (show_int (memory_usage ?st)) @
       report_line ''CPUTIME  '' (show_f3 (cpu_time_usage ?st)) @
       report_line ''REALTIME '' (show_f3 (real_time_usage ?st)) @
       report_line ''SIGNALED '' (show_int (if WIFSIGNALED stat then 1 else 0)) @
       report_line ''EXITCODE '' (show_int (WEXITSTATUS stat))) @
      ''TERMSIG  '' @ show_int (WTERMSIG stat) @ [CHR 0x0A] @
      report_line ''EXCEED   '' (if exceeded_limit ?st = [] then ''none'' else exceeded_limit ?st)"
    by (simp add: report_text_def report_line_def)
  then show "\<exists>pre post. report_text ?st stat =
        pre @ ''TERMSIG  '' @ show_int (WTERMSIG stat) @ [CHR 0x0A] @ post"
    by blast
next
  fix sig :: int
  assume s: "0 < sig \<and> sig < 127"
  then show "WIFSIGNALED sig" and "WTERMSIG sig = sig" and "WTERMSIG (sig OR 128) = sig"
    by (simp_all add: WIFSIGNALED_def WTERMSIG_def bit.conj_disj_distrib2 and_127)
qed

text \<open>
  C6, witness: a child killed by SIGXCPU under a CPU time limit of one second and no
  real-time limit is reported with CPUTIME 1 and the tag CPU_TIME.
\<close>

theorem reaped_child_exceed_tag_witness:
  "WIFSIGNALED 24 \<and> WTERMSIG 24 = SIGXCPU
   \<and> cpu_time_usage (collect_stats (example_config\<lparr>cpu_time_limit := 1\<rparr>) example_world 24 '''') = 1
   \<and> exceeded_limit (collect_stats (example_config\<lparr>cpu_time_limit := 1\<rparr>) example_world 24 '''') =
       ''CPU_TIME''"
proof -
  have h: "WIFSIGNALED 24 \<and> WTERMSIG 24 = SIGXCPU"
    by (simp add: WIFSIGNALED_def WTERMSIG_def SIGXCPU_def)
  note t = reaped_child_exceed_tag [of "example_config\<lparr>cpu_time_limit := 1\<rparr>" example_world 24 "''''"]
  from t h have "cpu_time_usage (collect_stats (example_config\<lparr>cpu_time_limit := 1\<rparr>) example_world 24 '''') = 1"
    by simp
  moreover from t h
  have "exceeded_limit (collect_stats (example_config\<lparr>cpu_time_limit := 1\<rparr>) example_world 24 '''') =
       ''CPU_TIME''"
    by (simp add: SIGXFSZ_def)
  ultimately show ?thesis using h by simp
qed

text \<open>
  C6, counterexample to the claim as stated. A child killed by SIGXCPU is reaped in the
  first round of the loop, two seconds after the start and with a real-time limit of one
  second: the tag is REAL_TIME, not CPU_TIME. A child killed by SIGKILL is reaped in the
  first round, the loop having detected nothing, with the peak of the memory above the
  limit: the tag is MEMORY, not what the loop detected.
\<close>

theorem reaped_child_exceed_tag_counterexample:
  "main_loop (example_config\<lparr>real_time_limit := 1\<rparr>)
      (deadline_of (example_world\<lparr>now_final := 102\<rparr>) (example_config\<lparr>real_time_limit := 1\<rparr>))
      [idle\<lparr>ob_wait := WaitPid 24\<rparr>] = Some (Inr (24, ''''))
   \<and> WIFSIGNALED 24 \<and> WTERMSIG 24 = SIGXCPU
   \<and> exceeded_limit (collect_stats (example_config\<lparr>real_time_limit := 1\<rparr>)
        (example_world\<lparr>now_final := 102\<rparr>) 24 '''') = ''REAL_TIME''
   \<and> main_loop (example_config\<lparr>memory_limit := 1000000\<rparr>)
        (deadline_of example_world (example_config\<lparr>memory_limit := 1000000\<rparr>))
        [idle\<lparr>ob_wait := WaitPid 9\<rparr>] = Some (Inr (9, ''''))
   \<and> WIFSIGNALED 9 \<and> WTERMSIG 9 \<noteq> SIGXCPU \<and> WTERMSIG 9 \<noteq> SIGXFSZ
   \<and> exceeded_limit (collect_stats (example_config\<lparr>memory_limit := 1000000\<rparr>) example_world 9 '''') =
       ''MEMORY''"
  by (simp add: loop_iter_def idle_def child_ended_def WIFSIGNALED_def WIFEXITED_def WTERMSIG_def
      SIGXCPU_def SIGXFSZ_def collect_stats_def example_world_def)

subsection \<open>The status report\<close>

declare show_nat.simps [simp del]

lemma digit_char_is_digit [simp]: "is_digit (digit_char d)"
proof -
  have "d mod 10 = 0 \<or> d mod 10 = 1 \<or> d mod 10 = 2 \<or> d mod 10 = 3 \<or> d mod 10 = 4 \<or>
        d mod 10 = 5 \<or> d mod 10 = 6 \<or> d mod 10 = 7 \<or> d mod 10 = 8 \<or> d mod 10 = 9"
    by arith
  then show ?thesis
    by (auto simp add: is_digit_def digit_char_def)
qed

lemma show_nat_digits: "list_all is_digit (show_nat n) \<and> show_nat n \<noteq> []"
  by (induction n rule: show_nat.induct) (subst show_nat.simps, simp)+

lemma show_nat_length: "0 < k \<Longrightarrow> n < 10 ^ k \<Longrightarrow> length (show_nat n) \<le> k"
proof (induction n arbitrary: k rule: show_nat.induct)
  case (1 n)
  show ?case
  proof (cases "n < 10")
    case True
    with 1 show ?thesis by (subst show_nat.simps) simp
  next
    case False
    with 1 obtain j where k: "k = Suc j" "0 < j"
      by (cases k; cases "k - 1"; auto)
    with 1 False have "n div 10 < 10 ^ j" by (simp add: less_mult_imp_div_less mult.commute)
    with 1 False k have "length (show_nat (n div 10)) \<le> j" by simp
    with False k show ?thesis by (subst show_nat.simps) simp
  qed
qed

lemma show_int_length:
  assumes "0 < k" "\<bar>i\<bar> < 10 ^ k"
  shows "length (show_int i) \<le> Suc k"
proof -
  have "nat \<bar>i\<bar> < 10 ^ k" using assms(2) by (simp add: nat_less_iff)
  from show_nat_length [OF assms(1) this] show ?thesis
    by (auto simp add: show_int_def abs_if split: if_splits)
qed

lemma show_int_length_nonneg:
  assumes "0 < k" "0 \<le> i" "i < 10 ^ k"
  shows "length (show_int i) \<le> k"
proof -
  have "nat i < 10 ^ k" using assms by (simp add: nat_less_iff)
  from show_nat_length [OF assms(1) this] assms(2) show ?thesis
    by (simp add: show_int_def)
qed

lemma not_digit [simp]: "\<not> is_digit CHR ''.''" "\<not> is_digit CHR ''-''"
  by (simp_all add: is_digit_def)

lemma three_decimals_shape:
  assumes "list_all is_digit ip" "ip \<noteq> []" "list_all is_digit fp" "length fp = 3"
  shows "three_decimals (ip @ ''.'' @ fp)" "three_decimals (''-'' @ ip @ ''.'' @ fp)"
proof -
  from assms(2) obtain c cs where ip: "ip = c # cs" by (cases ip) auto
  with assms(1) have c: "c \<noteq> CHR ''-''" by auto
  have tw: "takeWhile is_digit (ip @ ''.'' @ fp) = ip" "dropWhile is_digit (ip @ ''.'' @ fp) = ''.'' @ fp"
    using assms(1) by (simp_all add: list_all_iff takeWhile_append2 dropWhile_append2)
  have "three_decimals ((c # cs) @ ''.'' @ fp)"
    unfolding three_decimals_def using tw [unfolded ip] assms(3,4) c by (simp add: Let_def)
  then show "three_decimals (ip @ ''.'' @ fp)" by (simp add: ip)
  show "three_decimals (''-'' @ ip @ ''.'' @ fp)"
    unfolding three_decimals_def using tw assms(2,3,4) by (simp add: Let_def)
qed

lemma show_f3_three_decimals: "three_decimals (show_f3 x)"
proof -
  let ?n = "nat (round_half_even (\<bar>x\<bar> * 1000))"
  let ?fp = "[digit_char (?n div 100), digit_char (?n div 10), digit_char ?n]"
  have fp: "list_all is_digit ?fp" "length ?fp = 3" by simp_all
  note sh = three_decimals_shape [OF show_nat_digits [THEN conjunct1] show_nat_digits [THEN conjunct2] fp,
      of "?n div 1000"]
  show ?thesis
  proof (cases "x < 0")
    case True
    with sh(2) show ?thesis by (simp add: show_f3_def Let_def)
  next
    case False
    with sh(1) show ?thesis by (simp add: show_f3_def Let_def)
  qed
qed

lemma round_half_even_bounds: "0 \<le> y \<Longrightarrow> 0 \<le> round_half_even y \<and> of_int (round_half_even y) \<le> y + 1"
  by (auto simp add: round_half_even_def Let_def) linarith+

lemma show_f3_length:
  assumes "\<bar>x\<bar> \<le> 10 ^ 309"
  shows "length (show_f3 x) \<le> 320"
proof -
  let ?r = "round_half_even (\<bar>x\<bar> * 1000)"
  let ?n = "nat ?r"
  have y: "0 \<le> \<bar>x\<bar> * 1000" by simp
  from round_half_even_bounds [OF y] have r: "0 \<le> ?r" "of_int ?r \<le> \<bar>x\<bar> * 1000 + 1" by simp_all
  from r(2) assms have "(of_int ?r :: real) \<le> 10 ^ 309 * 1000 + 1" by simp
  also have "\<dots> < 10 ^ 313" by simp
  finally have "(of_int ?r :: real) < of_int (10 ^ 313)" by simp
  then have "?r < 10 ^ 313" by (simp only: of_int_less_iff)
  with r(1) have "?n < 10 ^ 313" by (simp add: nat_less_iff)
  then have "?n div 1000 < 10 ^ 313" by (rule le_less_trans [OF div_le_dividend])
  from show_nat_length [OF _ this] have len: "length (show_nat (?n div 1000)) \<le> 313" by simp
  define q where "q = ?n"
  have "show_f3 x = (if x < 0 then ''-'' else []) @ show_nat (q div 1000) @ ''.'' @
      [digit_char (q div 100), digit_char (q div 10), digit_char q]"
    unfolding show_f3_def Let_def q_def by (rule refl)
  with len [folded q_def] show ?thesis by simp
qed

lemma DBL_MAX_bound: "DBL_MAX \<le> 10 ^ 309"
  unfolding DBL_MAX_def by simp

lemma loop_iter_tag:
  assumes "loop_iter cfg d ob = StepBreak stat ex"
  shows "ex \<in> {'''', ''CPU_TIME'', ''REAL_TIME'', ''MEMORY'', ''OUTPUT''}"
  using assms
  by (auto simp add: loop_iter_def Let_def split: if_splits option.splits)

lemma main_loop_tag:
  assumes "main_loop cfg d obs = Some (Inr (stat, ex))"
  shows "ex \<in> {'''', ''CPU_TIME'', ''REAL_TIME'', ''MEMORY'', ''OUTPUT''}"
  using assms
proof (induction obs)
  case Nil
  then show ?case by simp
next
  case (Cons ob obs)
  show ?case
  proof (cases "loop_iter cfg d ob")
    case (StepExit e c)
    with Cons.prems show ?thesis by simp
  next
    case (StepBreak s x)
    with Cons.prems have "x = ex" by simp
    with StepBreak loop_iter_tag [of cfg d ob s x] show ?thesis by simp
  next
    case (StepNext r s)
    with Cons show ?thesis by (auto split: if_splits)
  qed
qed

lemma collect_stats_tag:
  assumes "ex \<in> {'''', ''CPU_TIME'', ''REAL_TIME'', ''MEMORY'', ''OUTPUT''}"
  shows "(if exceeded_limit (collect_stats cfg w stat ex) = [] then ''none''
          else exceeded_limit (collect_stats cfg w stat ex))
         \<in> {''none'', ''CPU_TIME'', ''REAL_TIME'', ''MEMORY'', ''OUTPUT''}"
  using assms by (auto simp add: collect_stats_def Let_def)

lemma collect_stats_ranges:
  assumes "representable w cfg"
  shows "long_long (memory_usage (collect_stats cfg w stat ex))"
    and "\<bar>cpu_time_usage (collect_stats cfg w stat ex)\<bar> \<le> DBL_MAX"
    and "\<bar>real_time_usage (collect_stats cfg w stat ex)\<bar> \<le> DBL_MAX"
  using assms by (auto simp add: collect_stats_def representable_def Let_def)

lemma representable_spawn_flags [simp]:
  "representable w (spawn_flags cfg) = representable w cfg"
  "representable w (set_rlimit r v cfg) = representable w cfg"
  by (simp_all add: representable_def)

lemma report_text_length:
  assumes ll: "long_long (memory_usage st)"
    and c: "\<bar>cpu_time_usage st\<bar> \<le> DBL_MAX" and r: "\<bar>real_time_usage st\<bar> \<le> DBL_MAX"
    and ex: "length (exceeded_limit st) \<le> 9"
  shows "length (report_text st stat) \<le> 4095"
proof -
  have "\<bar>memory_usage st\<bar> \<le> 2 ^ 63" using ll by (auto simp add: long_long_def)
  also have "\<dots> < (10::int) ^ 19" by simp
  finally have m: "length (show_int (memory_usage st)) \<le> 20"
    using show_int_length [of 19 "memory_usage st"] by simp
  have c': "length (show_f3 (cpu_time_usage st)) \<le> 320"
    using c DBL_MAX_bound by (intro show_f3_length) linarith
  have r': "length (show_f3 (real_time_usage st)) \<le> 320"
    using r DBL_MAX_bound by (intro show_f3_length) linarith
  have s: "length (show_int 1) \<le> 3" "length (show_int 0) \<le> 3"
    using show_int_length_nonneg [of 3 1] show_int_length_nonneg [of 3 0] by simp_all
  have e: "length (show_int (WEXITSTATUS stat)) \<le> 3"
    using show_int_length_nonneg [of 3 "WEXITSTATUS stat"] WEXITSTATUS_range [of stat] by simp
  have t: "length (show_int (WTERMSIG stat)) \<le> 3"
    using show_int_length_nonneg [of 3 "WTERMSIG stat"] WTERMSIG_range [of stat] by simp
  from m c' r' s e t ex show ?thesis
    by (auto simp add: report_text_def report_line_def)
qed

lemma collect_stats_tag_raw:
  assumes "ex \<in> {'''', ''CPU_TIME'', ''REAL_TIME'', ''MEMORY'', ''OUTPUT''}"
  shows "exceeded_limit (collect_stats cfg w stat ex)
         \<in> {'''', ''CPU_TIME'', ''REAL_TIME'', ''MEMORY'', ''OUTPUT''}"
  using assms by (auto simp add: collect_stats_def Let_def)

lemma status_report_whole:
  assumes "representable w cfg" "ex \<in> {'''', ''CPU_TIME'', ''REAL_TIME'', ''MEMORY'', ''OUTPUT''}"
  shows "status_report (collect_stats cfg w stat ex) stat = report_text (collect_stats cfg w stat ex) stat"
proof -
  from collect_stats_tag_raw [OF assms(2), of cfg w stat]
  have "length (exceeded_limit (collect_stats cfg w stat ex)) \<le> 9" by auto
  from report_text_length [OF collect_stats_ranges [OF assms(1)] this]
  show ?thesis by (simp add: status_report_def)
qed

lemma set_cgroup_options_no_fd3 [simp]:
  "filter writes_fd3 (fst (set_cgroup_options w ps)) = []"
  by (auto simp add: filter_empty_conv dest!: set_cgroup_options_events)

lemma setup_cgroup_no_fd3 [simp]:
  "filter writes_fd3 (fst (setup_cgroup w cfg)) = []"
  by (simp add: setup_cgroup_def leave_def clean_cg_exit_def Let_def)

lemma main_loop_exit_no_fd3:
  assumes "main_loop cfg d obs = Some (Inl (evs, code))"
  shows "filter writes_fd3 evs = []"
  using main_loop_exit [OF assms] by auto

lemma run_command_exit_no_fd3:
  assumes "run_command w cfg = Some (evs, Inl code)"
  shows "filter writes_fd3 evs = []"
  using assms
  by (auto simp add: run_command_unfold leave_def clean_cg_exit_def
      split: if_splits option.splits sum.splits prod.splits dest: main_loop_exit_no_fd3)

lemma run_command_report:
  assumes "run_command w cfg = Some (evs, Inr ret)" and "representable w cfg"
  shows "\<exists>stat ex. ex \<in> {'''', ''CPU_TIME'', ''REAL_TIME'', ''MEMORY'', ''OUTPUT''} \<and>
           evs = [SetCloexec3, CgSpawn (arg (spawn_flags cfg)), Renice (- 5),
                  Write3 (report_text (collect_stats (spawn_flags cfg) w stat ex) stat), Close3]"
proof -
  from assms(1) obtain stat ex where
    l: "main_loop cfg (deadline_of w cfg) (observations w) = Some (Inr (stat, ex))" and
    e: "evs = [SetCloexec3, CgSpawn (arg (spawn_flags cfg)), Renice (- 5),
               Write3 (status_report (collect_stats (spawn_flags cfg) w stat ex) stat), Close3]"
    by (auto simp add: run_command_unfold leave_def
        split: if_splits option.splits sum.splits prod.splits)
  from main_loop_tag [OF l] have t: "ex \<in> {'''', ''CPU_TIME'', ''REAL_TIME'', ''MEMORY'', ''OUTPUT''}" .
  from assms(2) have "representable w (spawn_flags cfg)" by simp
  from status_report_whole [OF this t] e t show ?thesis by auto
qed

lemma collect_stats_same [simp]:
  "collect_stats (spawn_flags cfg) w stat ex = collect_stats cfg w stat ex"
  "collect_stats (set_rlimit r v cfg) w stat ex = collect_stats cfg w stat ex"
  by (simp_all add: collect_stats_def Let_def cong: if_cong)

lemma setup_cgroup_config:
  assumes "snd (setup_cgroup w cfg) = Inr cfg'"
  shows "cfg' = cfg \<or> (\<exists>v. cfg' = set_rlimit RLIMIT_CPU v cfg)"
  using assms unfolding setup_cgroup_result by (auto split: if_splits)

lemma loop_iter_reaped:
  assumes "ob_signal ob = 0" and "child_ended (ob_wait ob) = Some s"
  shows "loop_iter cfg d ob = StepBreak s ''''"
  using assms by (simp add: loop_iter_def)

lemma loop_iter_limit:
  assumes "ob_signal ob = 0" and "child_ended (ob_wait ob) = None"
    and "(0 < cpu_time_limit cfg \<and> cpu_time_limit cfg \<le> ob_cpu ob) \<or>
         (0 < d \<and> d \<le> ob_now ob) \<or>
         (0 < memory_limit cfg \<and> memory_limit cfg \<le> ob_mem ob) \<or>
         (0 < output_limit cfg \<and> output_limit cfg < ob_output ob \<and>
          \<not> (ob_state ob = CHR ''Z'' \<and> (\<exists>e. ob_wait_zombie ob = WaitError e)))"
  shows "\<exists>stat tag. tag \<in> {''CPU_TIME'', ''REAL_TIME'', ''MEMORY'', ''OUTPUT''} \<and>
           loop_iter cfg d ob = StepBreak stat tag"
  using assms
  by (auto simp add: loop_iter_def Let_def split: wait_result.splits)

lemma main_loop_rounds:
  assumes "\<forall>ob' \<in> set before. \<exists>s. loop_iter cfg d ob' = StepNext True s"
    and "loop_iter cfg d ob = StepBreak stat ex \<or> (loop_iter cfg d ob = StepNext False stat \<and> ex = [])"
  shows "main_loop cfg d (before @ ob # after) = Some (Inr (stat, ex))"
  using assms by (induction before) auto

lemma supervise_returned:
  assumes started: "command_started w cfg"
    and loop: "main_loop cfg (deadline_of w cfg) (observations w) = Some (Inr (stat, ex))"
    and rep: "representable w cfg"
  shows "\<exists>pre post code.
           supervise w cfg =
             Some (pre @ [Write3 (report_text (collect_stats cfg w stat ex) stat), Close3] @ post, code) \<and>
           filter writes_fd3 pre = [] \<and> filter writes_fd3 post = []"
proof -
  define cfg' where "cfg' = (if 0 < cpu_time_limit cfg
                then set_rlimit RLIMIT_CPU (to_int32 \<lceil>cpu_time_limit cfg\<rceil>) cfg else cfg)"
  define ret where "ret = (if pass_exitcode cfg then WEXITSTATUS stat else 0)"
  from started have p: "cgroup_prepared w cfg" and f: "fcntl_ret w = 0 \<or> fcntl_errno w = EBADF"
    and s: "0 < spawn_ret w"
    by (simp_all add: command_started_def fd3_prepared_def)
  obtain ev1 r1 where stage: "setup_cgroup w cfg = (ev1, r1)" by (cases "setup_cgroup w cfg")
  from cgroup_prepared_result [OF p] stage have r1: "r1 = Inr cfg'" by (simp add: cfg'_def)
  have ev1: "filter writes_fd3 ev1 = []" using setup_cgroup_no_fd3 [of w cfg] stage by simp
  have loop': "main_loop cfg' (deadline_of w cfg') (observations w) = Some (Inr (stat, ex))"
    using loop by (simp add: cfg'_def)
  have same: "collect_stats cfg' w stat ex = collect_stats cfg w stat ex"
    by (simp add: cfg'_def)
  have pe: "pass_exitcode cfg' = pass_exitcode cfg" by (simp add: cfg'_def)
  from main_loop_tag [OF loop] have t: "ex \<in> {'''', ''CPU_TIME'', ''REAL_TIME'', ''MEMORY'', ''OUTPUT''}" .
  have run: "run_command w cfg' =
      Some ([SetCloexec3, CgSpawn (arg (spawn_flags cfg')), Renice (- 5),
             Write3 (report_text (collect_stats cfg w stat ex) stat), Close3], Inr ret)"
    using f s
    by (auto simp add: run_command_unfold loop' same status_report_whole [OF rep t] ret_def pe)
  have "supervise w cfg =
      Some ((ev1 @ [SetCloexec3, CgSpawn (arg (spawn_flags cfg')), Renice (- 5)]) @
            [Write3 (report_text (collect_stats cfg w stat ex) stat), Close3] @
            fst (clean_cg_exit cfg' ret), snd (clean_cg_exit cfg' ret))"
    by (simp add: supervise_def stage r1 run)
  moreover have "filter writes_fd3 (ev1 @ [SetCloexec3, CgSpawn (arg (spawn_flags cfg')), Renice (- 5)]) = []"
    using ev1 by simp
  moreover have "filter writes_fd3 (fst (clean_cg_exit cfg' ret)) = []"
    by (simp add: clean_cg_exit_def)
  ultimately show ?thesis by blast
qed

lemma supervise_no_report:
  assumes s: "supervise w cfg = Some (evs, code)"
    and other: "\<not> command_started w cfg \<or>
                (\<exists>e c. main_loop cfg (deadline_of w cfg) (observations w) = Some (Inl (e, c)))"
  shows "filter writes_fd3 evs = []"
proof -
  obtain ev1 r1 where stage: "setup_cgroup w cfg = (ev1, r1)" by (cases "setup_cgroup w cfg")
  have ev1: "filter writes_fd3 ev1 = []" using setup_cgroup_no_fd3 [of w cfg] stage by simp
  show ?thesis
  proof (cases r1)
    case (Inl c)
    with s stage ev1 show ?thesis by (simp add: supervise_def)
  next
    case (Inr cfg')
    with stage have ok: "snd (setup_cgroup w cfg) = Inr cfg'" by simp
    from s stage Inr obtain ev2 r2 where run: "run_command w cfg' = Some (ev2, r2)"
      by (auto simp add: supervise_def split: option.splits)
    from ok have prepared: "cgroup_prepared w cfg"
      unfolding setup_cgroup_result cgroup_prepared_def
      by (auto simp add: list_all_iff split: if_splits)
    from setup_cgroup_config [OF ok]
    have loop': "main_loop cfg' (deadline_of w cfg') (observations w) =
        main_loop cfg (deadline_of w cfg) (observations w)"
      by auto
    have "\<exists>c. r2 = Inl c"
    proof (cases r2)
      case (Inl c)
      then show ?thesis by simp
    next
      case (Inr ret)
      with run have "map_option snd (run_command w cfg') = Some (Inr ret)" by simp
      then have "fcntl_ret w = 0 \<or> fcntl_errno w = EBADF" "0 < spawn_ret w"
        "\<exists>stat ex. main_loop cfg (deadline_of w cfg) (observations w) = Some (Inr (stat, ex))"
        unfolding run_command_result loop'
        by (auto split: if_splits option.splits sum.splits prod.splits)
      with other prepared show ?thesis
        by (auto simp add: command_started_def fd3_prepared_def)
    qed
    then obtain c where r2: "r2 = Inl c" ..
    from run_command_exit_no_fd3 [OF run [unfolded r2]] s stage Inr run r2 ev1
    show ?thesis by (auto simp add: supervise_def)
  qed
qed

text \<open>
  C1. On every normal termination (the child reaped or a limit detected by the loop)
  exactly one record is written to fd 3, and fd 3 is closed immediately after the write.
  Whenever the command is started (the cgroup is prepared, \<^verbatim>\<open>fcntl\<close> on fd 3 succeeds or
  fails with \<^verbatim>\<open>EBADF\<close>, the child is spawned) and the monitoring loop is left with a status
  \<open>stat\<close> and a tag \<open>ex\<close>, the run ends and its trace holds one write to fd 3, followed by
  the close, and no other write or close. The record is the one of this \<open>stat\<close> and \<open>ex\<close>
  after the checks that follow the loop: the keys MEMORY, CPUTIME, REALTIME, SIGNALED,
  EXITCODE, TERMSIG and EXCEED, in this order, one per line; CPUTIME and REALTIME have three
  decimals and EXCEED is one of none, CPU_TIME, REAL_TIME, MEMORY and OUTPUT. The loop is
  left in the first round that does not go on: a round that reaps the child breaks with
  the status of the child and no tag, and a round that detects a limit breaks with the
  tag of a limit. On every other end of a run (the command is not started, or the process
  exits from inside the loop) nothing is written to fd 3. The values are those of a run
  whose numbers fit their C types, so that the record fits the buffer of 4096 bytes.
\<close>

theorem status_report_written:
  assumes "representable w cfg"
  shows
   "(\<forall>stat ex.
       command_started w cfg \<and>
       main_loop cfg (deadline_of w cfg) (observations w) = Some (Inr (stat, ex)) \<longrightarrow>
       (\<exists>pre post code st tag.
          st = collect_stats cfg w stat ex \<and>
          tag = (if exceeded_limit st = [] then ''none'' else exceeded_limit st) \<and>
          supervise w cfg =
            Some (pre @
               [Write3 (''MEMORY   '' @ show_int (memory_usage st) @ [CHR 0x0A] @
                        ''CPUTIME  '' @ show_f3 (cpu_time_usage st) @ [CHR 0x0A] @
                        ''REALTIME '' @ show_f3 (real_time_usage st) @ [CHR 0x0A] @
                        ''SIGNALED '' @ (if WIFSIGNALED stat then ''1'' else ''0'') @ [CHR 0x0A] @
                        ''EXITCODE '' @ show_int (WEXITSTATUS stat) @ [CHR 0x0A] @
                        ''TERMSIG  '' @ show_int (WTERMSIG stat) @ [CHR 0x0A] @
                        ''EXCEED   '' @ tag @ [CHR 0x0A]),
                Close3] @ post, code) \<and>
          filter writes_fd3 pre = [] \<and> filter writes_fd3 post = [] \<and>
          three_decimals (show_f3 (cpu_time_usage st)) \<and>
          three_decimals (show_f3 (real_time_usage st)) \<and>
          tag \<in> {''none'', ''CPU_TIME'', ''REAL_TIME'', ''MEMORY'', ''OUTPUT''}))
    \<and> (\<forall>d before ob after stat ex.
          (\<forall>ob' \<in> set before. \<exists>s. loop_iter cfg d ob' = StepNext True s) \<and>
          (loop_iter cfg d ob = StepBreak stat ex \<or>
           (loop_iter cfg d ob = StepNext False stat \<and> ex = [])) \<longrightarrow>
          main_loop cfg d (before @ ob # after) = Some (Inr (stat, ex)))
    \<and> (\<forall>d ob s. ob_signal ob = 0 \<and> child_ended (ob_wait ob) = Some s \<longrightarrow>
          loop_iter cfg d ob = StepBreak s [])
    \<and> (\<forall>d ob. ob_signal ob = 0 \<and> child_ended (ob_wait ob) = None \<and>
          ((0 < cpu_time_limit cfg \<and> cpu_time_limit cfg \<le> ob_cpu ob) \<or>
           (0 < d \<and> d \<le> ob_now ob) \<or>
           (0 < memory_limit cfg \<and> memory_limit cfg \<le> ob_mem ob) \<or>
           (0 < output_limit cfg \<and> output_limit cfg < ob_output ob \<and>
            \<not> (ob_state ob = CHR ''Z'' \<and> (\<exists>e. ob_wait_zombie ob = WaitError e)))) \<longrightarrow>
          (\<exists>stat tag. tag \<in> {''CPU_TIME'', ''REAL_TIME'', ''MEMORY'', ''OUTPUT''} \<and>
             loop_iter cfg d ob = StepBreak stat tag))
    \<and> (\<forall>evs code.
          supervise w cfg = Some (evs, code) \<and>
          (\<not> command_started w cfg \<or>
           (\<exists>e c. main_loop cfg (deadline_of w cfg) (observations w) = Some (Inl (e, c)))) \<longrightarrow>
          filter writes_fd3 evs = [])
    \<and> (\<forall>before ob after.
          command_started w cfg \<and> observations w = before @ ob # after \<and>
          (\<forall>ob' \<in> set before. \<exists>s. loop_iter cfg (deadline_of w cfg) ob' = StepNext True s) \<and>
          ob_signal ob = 0 \<and>
          (child_ended (ob_wait ob) \<noteq> None \<or>
           (0 < cpu_time_limit cfg \<and> cpu_time_limit cfg \<le> ob_cpu ob) \<or>
           (0 < deadline_of w cfg \<and> deadline_of w cfg \<le> ob_now ob) \<or>
           (0 < memory_limit cfg \<and> memory_limit cfg \<le> ob_mem ob) \<or>
           (0 < output_limit cfg \<and> output_limit cfg < ob_output ob \<and>
            \<not> (ob_state ob = CHR ''Z'' \<and> (\<exists>e. ob_wait_zombie ob = WaitError e)))) \<longrightarrow>
          (\<exists>pre t post code.
             supervise w cfg = Some (pre @ [Write3 t, Close3] @ post, code) \<and>
             filter writes_fd3 pre = [] \<and> filter writes_fd3 post = []))"
proof -
  have written: "\<forall>stat ex.
       command_started w cfg \<and>
       main_loop cfg (deadline_of w cfg) (observations w) = Some (Inr (stat, ex)) \<longrightarrow>
       (\<exists>pre post code st tag.
          st = collect_stats cfg w stat ex \<and>
          tag = (if exceeded_limit st = [] then ''none'' else exceeded_limit st) \<and>
          supervise w cfg =
            Some (pre @
               [Write3 (''MEMORY   '' @ show_int (memory_usage st) @ [CHR 0x0A] @
                        ''CPUTIME  '' @ show_f3 (cpu_time_usage st) @ [CHR 0x0A] @
                        ''REALTIME '' @ show_f3 (real_time_usage st) @ [CHR 0x0A] @
                        ''SIGNALED '' @ (if WIFSIGNALED stat then ''1'' else ''0'') @ [CHR 0x0A] @
                        ''EXITCODE '' @ show_int (WEXITSTATUS stat) @ [CHR 0x0A] @
                        ''TERMSIG  '' @ show_int (WTERMSIG stat) @ [CHR 0x0A] @
                        ''EXCEED   '' @ tag @ [CHR 0x0A]),
                Close3] @ post, code) \<and>
          filter writes_fd3 pre = [] \<and> filter writes_fd3 post = [] \<and>
          three_decimals (show_f3 (cpu_time_usage st)) \<and>
          three_decimals (show_f3 (real_time_usage st)) \<and>
          tag \<in> {''none'', ''CPU_TIME'', ''REAL_TIME'', ''MEMORY'', ''OUTPUT''})"
  proof (intro allI impI, elim conjE)
    fix stat ex
    assume started: "command_started w cfg"
      and loop: "main_loop cfg (deadline_of w cfg) (observations w) = Some (Inr (stat, ex))"
    define st where "st = collect_stats cfg w stat ex"
    define tag where "tag = (if exceeded_limit st = [] then ''none'' else exceeded_limit st)"
    from supervise_returned [OF started loop assms] obtain pre post code where
      sup: "supervise w cfg = Some (pre @ [Write3 (report_text st stat), Close3] @ post, code)"
      and pre: "filter writes_fd3 pre = []" and post: "filter writes_fd3 post = []"
      unfolding st_def by blast
    have one: "show_int (if WIFSIGNALED stat then 1 else 0) = (if WIFSIGNALED stat then ''1'' else ''0'')"
      by (simp add: show_int_def show_nat.simps digit_char_def)
    have rt: "report_text st stat =
        ''MEMORY   '' @ show_int (memory_usage st) @ [CHR 0x0A] @
        ''CPUTIME  '' @ show_f3 (cpu_time_usage st) @ [CHR 0x0A] @
        ''REALTIME '' @ show_f3 (real_time_usage st) @ [CHR 0x0A] @
        ''SIGNALED '' @ (if WIFSIGNALED stat then ''1'' else ''0'') @ [CHR 0x0A] @
        ''EXITCODE '' @ show_int (WEXITSTATUS stat) @ [CHR 0x0A] @
        ''TERMSIG  '' @ show_int (WTERMSIG stat) @ [CHR 0x0A] @
        ''EXCEED   '' @ tag @ [CHR 0x0A]"
      unfolding report_text_def report_line_def one tag_def by simp
    have "tag \<in> {''none'', ''CPU_TIME'', ''REAL_TIME'', ''MEMORY'', ''OUTPUT''}"
      unfolding tag_def st_def by (rule collect_stats_tag [OF main_loop_tag [OF loop]])
    with sup [unfolded rt] pre post
    show "\<exists>pre post code st tag.
          st = collect_stats cfg w stat ex \<and>
          tag = (if exceeded_limit st = [] then ''none'' else exceeded_limit st) \<and>
          supervise w cfg =
            Some (pre @
               [Write3 (''MEMORY   '' @ show_int (memory_usage st) @ [CHR 0x0A] @
                        ''CPUTIME  '' @ show_f3 (cpu_time_usage st) @ [CHR 0x0A] @
                        ''REALTIME '' @ show_f3 (real_time_usage st) @ [CHR 0x0A] @
                        ''SIGNALED '' @ (if WIFSIGNALED stat then ''1'' else ''0'') @ [CHR 0x0A] @
                        ''EXITCODE '' @ show_int (WEXITSTATUS stat) @ [CHR 0x0A] @
                        ''TERMSIG  '' @ show_int (WTERMSIG stat) @ [CHR 0x0A] @
                        ''EXCEED   '' @ tag @ [CHR 0x0A]),
                Close3] @ post, code) \<and>
          filter writes_fd3 pre = [] \<and> filter writes_fd3 post = [] \<and>
          three_decimals (show_f3 (cpu_time_usage st)) \<and>
          three_decimals (show_f3 (real_time_usage st)) \<and>
          tag \<in> {''none'', ''CPU_TIME'', ''REAL_TIME'', ''MEMORY'', ''OUTPUT''}"
      using st_def tag_def show_f3_three_decimals by metis
  qed
  have rounds: "\<forall>d before ob after stat ex.
          (\<forall>ob' \<in> set before. \<exists>s. loop_iter cfg d ob' = StepNext True s) \<and>
          (loop_iter cfg d ob = StepBreak stat ex \<or>
           (loop_iter cfg d ob = StepNext False stat \<and> ex = [])) \<longrightarrow>
          main_loop cfg d (before @ ob # after) = Some (Inr (stat, ex))"
    using main_loop_rounds by blast
  have reaped: "\<forall>d ob s. ob_signal ob = 0 \<and> child_ended (ob_wait ob) = Some s \<longrightarrow>
          loop_iter cfg d ob = StepBreak s []"
    using loop_iter_reaped by blast
  have limit: "\<forall>d ob. ob_signal ob = 0 \<and> child_ended (ob_wait ob) = None \<and>
          ((0 < cpu_time_limit cfg \<and> cpu_time_limit cfg \<le> ob_cpu ob) \<or>
           (0 < d \<and> d \<le> ob_now ob) \<or>
           (0 < memory_limit cfg \<and> memory_limit cfg \<le> ob_mem ob) \<or>
           (0 < output_limit cfg \<and> output_limit cfg < ob_output ob \<and>
            \<not> (ob_state ob = CHR ''Z'' \<and> (\<exists>e. ob_wait_zombie ob = WaitError e)))) \<longrightarrow>
          (\<exists>stat tag. tag \<in> {''CPU_TIME'', ''REAL_TIME'', ''MEMORY'', ''OUTPUT''} \<and>
             loop_iter cfg d ob = StepBreak stat tag)"
  proof (intro allI impI, elim conjE)
    fix d and ob :: observation
    assume "ob_signal ob = 0" "child_ended (ob_wait ob) = None"
      "(0 < cpu_time_limit cfg \<and> cpu_time_limit cfg \<le> ob_cpu ob) \<or>
           (0 < d \<and> d \<le> ob_now ob) \<or>
           (0 < memory_limit cfg \<and> memory_limit cfg \<le> ob_mem ob) \<or>
           (0 < output_limit cfg \<and> output_limit cfg < ob_output ob \<and>
            \<not> (ob_state ob = CHR ''Z'' \<and> (\<exists>e. ob_wait_zombie ob = WaitError e)))"
    then show "\<exists>stat tag. tag \<in> {''CPU_TIME'', ''REAL_TIME'', ''MEMORY'', ''OUTPUT''} \<and>
             loop_iter cfg d ob = StepBreak stat tag"
      by (rule loop_iter_limit)
  qed
  have nothing: "\<forall>evs code.
          supervise w cfg = Some (evs, code) \<and>
          (\<not> command_started w cfg \<or>
           (\<exists>e c. main_loop cfg (deadline_of w cfg) (observations w) = Some (Inl (e, c)))) \<longrightarrow>
          filter writes_fd3 evs = []"
  proof (intro allI impI, elim conjE)
    fix evs code
    assume "supervise w cfg = Some (evs, code)"
      and "\<not> command_started w cfg \<or>
           (\<exists>e c. main_loop cfg (deadline_of w cfg) (observations w) = Some (Inl (e, c)))"
    then show "filter writes_fd3 evs = []" by (rule supervise_no_report)
  qed
  have whole: "\<forall>before ob after.
          command_started w cfg \<and> observations w = before @ ob # after \<and>
          (\<forall>ob' \<in> set before. \<exists>s. loop_iter cfg (deadline_of w cfg) ob' = StepNext True s) \<and>
          ob_signal ob = 0 \<and>
          (child_ended (ob_wait ob) \<noteq> None \<or>
           (0 < cpu_time_limit cfg \<and> cpu_time_limit cfg \<le> ob_cpu ob) \<or>
           (0 < deadline_of w cfg \<and> deadline_of w cfg \<le> ob_now ob) \<or>
           (0 < memory_limit cfg \<and> memory_limit cfg \<le> ob_mem ob) \<or>
           (0 < output_limit cfg \<and> output_limit cfg < ob_output ob \<and>
            \<not> (ob_state ob = CHR ''Z'' \<and> (\<exists>e. ob_wait_zombie ob = WaitError e)))) \<longrightarrow>
          (\<exists>pre t post code.
             supervise w cfg = Some (pre @ [Write3 t, Close3] @ post, code) \<and>
             filter writes_fd3 pre = [] \<and> filter writes_fd3 post = [])"
  proof (intro allI impI, elim conjE)
    fix before after and ob :: observation
    assume started: "command_started w cfg"
      and obs: "observations w = before @ ob # after"
      and go: "\<forall>ob' \<in> set before. \<exists>s. loop_iter cfg (deadline_of w cfg) ob' = StepNext True s"
      and quiet: "ob_signal ob = 0"
      and ends: "child_ended (ob_wait ob) \<noteq> None \<or>
           (0 < cpu_time_limit cfg \<and> cpu_time_limit cfg \<le> ob_cpu ob) \<or>
           (0 < deadline_of w cfg \<and> deadline_of w cfg \<le> ob_now ob) \<or>
           (0 < memory_limit cfg \<and> memory_limit cfg \<le> ob_mem ob) \<or>
           (0 < output_limit cfg \<and> output_limit cfg < ob_output ob \<and>
            \<not> (ob_state ob = CHR ''Z'' \<and> (\<exists>e. ob_wait_zombie ob = WaitError e)))"
    have "\<exists>stat ex. loop_iter cfg (deadline_of w cfg) ob = StepBreak stat ex"
    proof (cases "child_ended (ob_wait ob)")
      case (Some s)
      from loop_iter_reaped [OF quiet Some] show ?thesis by blast
    next
      case None
      with ends
      have "(0 < cpu_time_limit cfg \<and> cpu_time_limit cfg \<le> ob_cpu ob) \<or>
           (0 < deadline_of w cfg \<and> deadline_of w cfg \<le> ob_now ob) \<or>
           (0 < memory_limit cfg \<and> memory_limit cfg \<le> ob_mem ob) \<or>
           (0 < output_limit cfg \<and> output_limit cfg < ob_output ob \<and>
            \<not> (ob_state ob = CHR ''Z'' \<and> (\<exists>e. ob_wait_zombie ob = WaitError e)))"
        by simp
      from loop_iter_limit [OF quiet None this] show ?thesis by blast
    qed
    then obtain stat ex where "loop_iter cfg (deadline_of w cfg) ob = StepBreak stat ex" by blast
    then have "loop_iter cfg (deadline_of w cfg) ob = StepBreak stat ex \<or>
        (loop_iter cfg (deadline_of w cfg) ob = StepNext False stat \<and> ex = [])"
      by simp
    from main_loop_rounds [OF go this, of after] obs
    have "main_loop cfg (deadline_of w cfg) (observations w) = Some (Inr (stat, ex))" by simp
    from supervise_returned [OF started this assms]
    show "\<exists>pre t post code.
             supervise w cfg = Some (pre @ [Write3 t, Close3] @ post, code) \<and>
             filter writes_fd3 pre = [] \<and> filter writes_fd3 post = []"
      by blast
  qed
  show ?thesis
    by (intro conjI) (fact written, fact rounds, fact reaped, fact limit, fact nothing, fact whole)
qed

lemma example_report:
  "status_report (collect_stats (spawn_flags example_config) example_world 0 '''') 0 =
     ''MEMORY   1200000'' @ [CHR 0x0A] @
     ''CPUTIME  0.125'' @ [CHR 0x0A] @
     ''REALTIME 0.250'' @ [CHR 0x0A] @
     ''SIGNALED 0'' @ [CHR 0x0A] @
     ''EXITCODE 0'' @ [CHR 0x0A] @
     ''TERMSIG  0'' @ [CHR 0x0A] @
     ''EXCEED   none'' @ [CHR 0x0A]"
  by (simp add: status_report_def report_text_def report_line_def collect_stats_def Let_def
      example_world_def show_int_def show_f3_def round_half_even_def digit_char_def
      show_nat.simps WIFSIGNALED_def WTERMSIG_def WEXITSTATUS_def SIGXCPU_def SIGXFSZ_def)

lemma example_representable: "representable example_world example_config"
  by (simp add: representable_def long_long_def DBL_MAX_def example_world_def)

lemma example_started: "command_started example_world example_config"
  by (simp add: command_started_def cgroup_prepared_def fd3_prepared_def)

text \<open>
  C1, witness: the example run, in which the child is reaped in the second round, and the
  record it writes; a run with a CPU time limit of one second in which the second round
  samples two seconds, and its record; and a run whose spawn fails, which writes nothing.
\<close>

theorem status_report_written_witness:
  "representable example_world example_config
   \<and> command_started example_world example_config
   \<and> main_loop example_config (deadline_of example_world example_config)
        [idle, idle\<lparr>ob_wait := WaitPid 0\<rparr>] = Some (Inr (0, ''''))
   \<and> supervise example_world example_config =
     Some ([CgSet ''memory.swappiness'' (''0'' @ [CHR 0x0A]),
            CgSet ''memory.oom_control'' (''0'' @ [CHR 0x0A]),
            CgKillall, CgResetUsages, SetCloexec3,
            CgSpawn (arg (spawn_flags example_config)), Renice (- 5),
            Write3 (''MEMORY   1200000'' @ [CHR 0x0A] @
                    ''CPUTIME  0.125'' @ [CHR 0x0A] @
                    ''REALTIME 0.250'' @ [CHR 0x0A] @
                    ''SIGNALED 0'' @ [CHR 0x0A] @
                    ''EXITCODE 0'' @ [CHR 0x0A] @
                    ''TERMSIG  0'' @ [CHR 0x0A] @
                    ''EXCEED   none'' @ [CHR 0x0A]),
            Close3, CgDestroy], 0)
   \<and> representable (example_world\<lparr>observations := [idle, idle\<lparr>ob_cpu := 2\<rparr>], cpu_final := 2\<rparr>)
        (example_config\<lparr>cpu_time_limit := 1\<rparr>)
   \<and> command_started (example_world\<lparr>observations := [idle, idle\<lparr>ob_cpu := 2\<rparr>], cpu_final := 2\<rparr>)
        (example_config\<lparr>cpu_time_limit := 1\<rparr>)
   \<and> loop_iter (example_config\<lparr>cpu_time_limit := 1\<rparr>) (- 1) (idle\<lparr>ob_cpu := 2\<rparr>) =
        StepBreak 0 ''CPU_TIME''
   \<and> main_loop (example_config\<lparr>cpu_time_limit := 1\<rparr>) (- 1) [idle, idle\<lparr>ob_cpu := 2\<rparr>] =
        Some (Inr (0, ''CPU_TIME''))
   \<and> map_option (\<lambda>r. (filter writes_fd3 (fst r), snd r))
        (supervise (example_world\<lparr>observations := [idle, idle\<lparr>ob_cpu := 2\<rparr>], cpu_final := 2\<rparr>)
           (example_config\<lparr>cpu_time_limit := 1\<rparr>)) =
     Some ([Write3 (''MEMORY   1200000'' @ [CHR 0x0A] @
                    ''CPUTIME  1.000'' @ [CHR 0x0A] @
                    ''REALTIME 0.250'' @ [CHR 0x0A] @
                    ''SIGNALED 0'' @ [CHR 0x0A] @
                    ''EXITCODE 0'' @ [CHR 0x0A] @
                    ''TERMSIG  0'' @ [CHR 0x0A] @
                    ''EXCEED   CPU_TIME'' @ [CHR 0x0A]),
            Close3], 0)
   \<and> three_decimals ''0.125'' \<and> three_decimals ''0.250'' \<and> three_decimals ''1.000''
   \<and> \<not> command_started (example_world\<lparr>spawn_ret := - 1\<rparr>) example_config
   \<and> map_option (\<lambda>r. (filter writes_fd3 (fst r), snd r))
        (supervise (example_world\<lparr>spawn_ret := - 1\<rparr>) example_config) = Some ([], 11)"
proof -
  let ?w2 = "example_world\<lparr>observations := [idle, idle\<lparr>ob_cpu := 2\<rparr>], cpu_final := 2\<rparr>"
  let ?c2 = "example_config\<lparr>cpu_time_limit := 1\<rparr>"
  let ?w3 = "example_world\<lparr>spawn_ret := - 1\<rparr>"
  have d: "three_decimals ''0.125''" "three_decimals ''0.250''" "three_decimals ''1.000''"
    by (simp_all add: three_decimals_def is_digit_def)
  have rep2: "representable ?w2 ?c2"
    by (simp add: representable_def long_long_def DBL_MAX_def example_world_def)
  have started2: "command_started ?w2 ?c2"
    by (simp add: command_started_def cgroup_prepared_def fd3_prepared_def)
  have rep3: "representable ?w3 example_config"
    by (simp add: representable_def long_long_def DBL_MAX_def example_world_def)
  have not3: "\<not> command_started ?w3 example_config"
    by (simp add: command_started_def)
  note t1 = status_report_written [OF example_representable]
  note t2 = status_report_written [OF rep2]
  note t3 = status_report_written [OF rep3]
  have idle1: "\<forall>ob' \<in> set [idle]. \<exists>s. loop_iter example_config
      (deadline_of example_world example_config) ob' = StepNext True s"
    by (simp add: loop_iter_def idle_def child_ended_def)
  have "child_ended (ob_wait (idle\<lparr>ob_wait := WaitPid 0\<rparr>)) = Some 0"
    by (simp add: child_ended_def WIFEXITED_def WTERMSIG_def)
  with t1 [THEN conjunct2, THEN conjunct2, THEN conjunct1, rule_format,
      of "idle\<lparr>ob_wait := WaitPid 0\<rparr>" 0 "deadline_of example_world example_config"]
  have reaped1: "loop_iter example_config (deadline_of example_world example_config)
      (idle\<lparr>ob_wait := WaitPid 0\<rparr>) = StepBreak 0 ''''"
    by (simp add: idle_def)
  have "main_loop example_config (deadline_of example_world example_config)
        ([idle] @ idle\<lparr>ob_wait := WaitPid 0\<rparr> # []) = Some (Inr (0, ''''))"
    by (rule t1 [THEN conjunct2, THEN conjunct1, rule_format]) (intro conjI disjI1 idle1 reaped1)
  then have loop1: "main_loop example_config (deadline_of example_world example_config)
        [idle, idle\<lparr>ob_wait := WaitPid 0\<rparr>] = Some (Inr (0, ''''))"
    by (simp del: main_loop.simps)
  from example_run have run1: "supervise example_world example_config =
     Some ([CgSet ''memory.swappiness'' (''0'' @ [CHR 0x0A]),
            CgSet ''memory.oom_control'' (''0'' @ [CHR 0x0A]),
            CgKillall, CgResetUsages, SetCloexec3,
            CgSpawn (arg (spawn_flags example_config)), Renice (- 5),
            Write3 (''MEMORY   1200000'' @ [CHR 0x0A] @
                    ''CPUTIME  0.125'' @ [CHR 0x0A] @
                    ''REALTIME 0.250'' @ [CHR 0x0A] @
                    ''SIGNALED 0'' @ [CHR 0x0A] @
                    ''EXITCODE 0'' @ [CHR 0x0A] @
                    ''TERMSIG  0'' @ [CHR 0x0A] @
                    ''EXCEED   none'' @ [CHR 0x0A]),
            Close3, CgDestroy], 0)"
    by (simp only: example_report)
  have idle2: "\<forall>ob' \<in> set [idle]. \<exists>s. loop_iter ?c2 (- 1) ob' = StepNext True s"
    by (simp add: loop_iter_def idle_def child_ended_def)
  from t2 [THEN conjunct2, THEN conjunct2, THEN conjunct2, THEN conjunct1, rule_format,
      of "idle\<lparr>ob_cpu := 2\<rparr>" "- 1"]
  have "\<exists>stat tag. tag \<in> {''CPU_TIME'', ''REAL_TIME'', ''MEMORY'', ''OUTPUT''} \<and>
      loop_iter ?c2 (- 1) (idle\<lparr>ob_cpu := 2\<rparr>) = StepBreak stat tag"
    by (simp add: idle_def child_ended_def)
  then have limit2: "loop_iter ?c2 (- 1) (idle\<lparr>ob_cpu := 2\<rparr>) = StepBreak 0 ''CPU_TIME''"
    by (simp add: loop_iter_def idle_def child_ended_def)
  have "main_loop ?c2 (- 1) ([idle] @ idle\<lparr>ob_cpu := 2\<rparr> # []) = Some (Inr (0, ''CPU_TIME''))"
    by (rule t2 [THEN conjunct2, THEN conjunct1, rule_format]) (intro conjI disjI1 idle2 limit2)
  then have loop2: "main_loop ?c2 (- 1) [idle, idle\<lparr>ob_cpu := 2\<rparr>] = Some (Inr (0, ''CPU_TIME''))"
    by (simp del: main_loop.simps)
  have hyp2: "command_started ?w2 ?c2 \<and>
      main_loop ?c2 (deadline_of ?w2 ?c2) (observations ?w2) = Some (Inr (0, ''CPU_TIME''))"
    using started2 loop2 by (simp add: deadline_of_def del: main_loop.simps)
  have vals: "memory_usage (collect_stats ?c2 ?w2 0 ''CPU_TIME'') = 1200000"
    "cpu_time_usage (collect_stats ?c2 ?w2 0 ''CPU_TIME'') = 1"
    "real_time_usage (collect_stats ?c2 ?w2 0 ''CPU_TIME'') = 1 / 4"
    "exceeded_limit (collect_stats ?c2 ?w2 0 ''CPU_TIME'') = ''CPU_TIME''"
    by (simp_all add: collect_stats_def Let_def example_world_def WIFSIGNALED_def WTERMSIG_def)
  have shown: "show_int 1200000 = ''1200000''" "show_f3 1 = ''1.000''" "show_f3 (1 / 4) = ''0.250''"
    "show_int (WEXITSTATUS 0) = ''0''" "show_int (WTERMSIG 0) = ''0''" "\<not> WIFSIGNALED 0"
    by (simp_all add: show_int_def show_f3_def round_half_even_def digit_char_def
        show_nat.simps WIFSIGNALED_def WTERMSIG_def WEXITSTATUS_def)
  from t2 [THEN conjunct1, rule_format, OF hyp2]
  have ex2: "\<exists>pre post code.
      supervise ?w2 ?c2 =
        Some (pre @
           [Write3 (''MEMORY   1200000'' @ [CHR 0x0A] @
                    ''CPUTIME  1.000'' @ [CHR 0x0A] @
                    ''REALTIME 0.250'' @ [CHR 0x0A] @
                    ''SIGNALED 0'' @ [CHR 0x0A] @
                    ''EXITCODE 0'' @ [CHR 0x0A] @
                    ''TERMSIG  0'' @ [CHR 0x0A] @
                    ''EXCEED   CPU_TIME'' @ [CHR 0x0A]),
            Close3] @ post, code) \<and>
      filter writes_fd3 pre = [] \<and> filter writes_fd3 post = []"
    by (simp add: vals shown d)
  have code2: "map_option snd (supervise ?w2 ?c2) = Some 0"
    unfolding supervise_code using hyp2 by (simp add: example_world_def)
  from ex2 code2
  have run2: "map_option (\<lambda>r. (filter writes_fd3 (fst r), snd r)) (supervise ?w2 ?c2) =
     Some ([Write3 (''MEMORY   1200000'' @ [CHR 0x0A] @
                    ''CPUTIME  1.000'' @ [CHR 0x0A] @
                    ''REALTIME 0.250'' @ [CHR 0x0A] @
                    ''SIGNALED 0'' @ [CHR 0x0A] @
                    ''EXITCODE 0'' @ [CHR 0x0A] @
                    ''TERMSIG  0'' @ [CHR 0x0A] @
                    ''EXCEED   CPU_TIME'' @ [CHR 0x0A]),
            Close3], 0)"
    by auto
  have code3: "map_option snd (supervise ?w3 example_config) = Some 11"
    unfolding supervise_code by (simp add: example_world_def)
  then obtain evs3 where sup3: "supervise ?w3 example_config = Some (evs3, 11)" by auto
  have "filter writes_fd3 evs3 = []"
    by (rule t3 [THEN conjunct2, THEN conjunct2, THEN conjunct2, THEN conjunct2, THEN conjunct1,
          rule_format, of evs3 11])
      (intro conjI disjI1 sup3 not3)
  with sup3 have run3: "map_option (\<lambda>r. (filter writes_fd3 (fst r), snd r))
        (supervise ?w3 example_config) = Some ([], 11)"
    by simp
  from example_representable example_started loop1 run1 rep2 started2 limit2 loop2 run2 d not3 run3
  show ?thesis by (intro conjI)
qed

subsection \<open>Errors of the configuration\<close>

lemma check_bindfs_append:
  "check_bindfs sys binds (ps1 @ ps2) =
     (fst (check_bindfs sys binds ps1) @ fst (check_bindfs sys (snd (check_bindfs sys binds ps1)) ps2),
      snd (check_bindfs sys (snd (check_bindfs sys binds ps1)) ps2))"
  by (induction sys binds ps1 rule: check_bindfs.induct) (simp_all add: Let_def)

lemma check_bindfs_at:
  assumes "ps = ps1 @ (dest, src) # ps2"
  shows "set (check_path_permission sys (follow_binds sys (snd (check_bindfs sys binds ps1)) src))
         \<subseteq> set (fst (check_bindfs sys binds ps))"
  unfolding assms check_bindfs_append by (auto simp add: Let_def)

lemma check_bindfs_binds:
  "snd (check_bindfs sys bs []) = bs"
  "snd (check_bindfs sys bs (ps @ [(d, s)])) =
     snd (check_bindfs sys bs ps) @
     [(expand sys d, follow_binds sys (snd (check_bindfs sys bs ps)) (expand sys s))]"
  by (simp_all add: check_bindfs_append Let_def)

lemma follow_binds_last:
  "follow_binds sys [] path = (if is_absolute sys path then expand sys path else path)"
  "follow_binds sys (bs @ [(d, s)]) path =
     (if is_absolute sys path \<and> take (Suc (length d)) (expand sys path) = d @ ''/''
      then s @ drop (length d) (expand sys path)
      else follow_binds sys bs path)"
  by (simp_all add: follow_binds_def Let_def)

lemma check_bindfs_each:
  assumes "(dest, src) \<in> set ps"
  shows "\<exists>bs. set (check_path_permission sys (follow_binds sys bs src))
              \<subseteq> set (fst (check_bindfs sys binds ps))"
  using assms
proof (induction ps arbitrary: binds)
  case Nil
  then show ?case by simp
next
  case (Cons p ps)
  obtain d s where p: "p = (d, s)" by (cases p)
  show ?case
  proof (cases "(dest, src) = p")
    case True
    with p have "set (check_path_permission sys (follow_binds sys binds src))
        \<subseteq> set (fst (check_bindfs sys binds (p # ps)))"
      by (simp add: Let_def)
    then show ?thesis by blast
  next
    case False
    with Cons.prems have "(dest, src) \<in> set ps" by simp
    from Cons.IH [OF this, of "binds @ [(expand sys d, follow_binds sys binds (expand sys s))]"]
    show ?thesis by (auto simp add: p Let_def)
  qed
qed

lemma check_bindfs_relative:
  assumes "(dest, src) \<in> set ps" and "\<not> is_absolute sys src"
  shows "msg_relative src \<in> set (fst (check_bindfs sys binds ps))"
proof -
  from check_bindfs_each [OF assms(1), of sys binds] obtain bs where
    "set (check_path_permission sys (follow_binds sys bs src)) \<subseteq> set (fst (check_bindfs sys binds ps))"
    by blast
  with assms(2) show ?thesis
    by (simp add: follow_binds_def check_path_permission_def)
qed

lemma non_root_messages_parts:
  "(cmd_list (arg cfg) \<noteq> [] \<longrightarrow> msg_cmd \<in> set (non_root_messages sys cfg))
   \<and> (groups cfg \<noteq> [] \<longrightarrow> msg_group \<in> set (non_root_messages sys cfg))
   \<and> set (fst (check_bindfs sys [] (bindfs_list (arg cfg)))) \<subseteq> set (non_root_messages sys cfg)
   \<and> (chroot_path (arg cfg) \<noteq> [] \<longrightarrow>
        set (check_path_permission sys
              (follow_binds sys (snd (check_bindfs sys [] (bindfs_list (arg cfg)))) (chroot_path (arg cfg))))
        \<subseteq> set (non_root_messages sys cfg))
   \<and> (chdir_path (arg cfg) \<noteq> [] \<longrightarrow>
        set (check_path_permission sys
              (follow_binds sys (snd (check_bindfs sys [] (bindfs_list (arg cfg))))
                 (join sys (chroot_path (arg cfg)) (chdir_path (arg cfg)))))
        \<subseteq> set (non_root_messages sys cfg))
   \<and> ((\<exists>p \<in> set (remount_list (arg cfg)). fst p \<notin> bindfs_dest_set (arg cfg)) \<longrightarrow>
        msg_remount \<in> set (non_root_messages sys cfg))
   \<and> (\<not> no_new_privs (arg cfg) \<longrightarrow> msg_no_new_privs \<in> set (non_root_messages sys cfg))
   \<and> (nice (arg cfg) < 0 \<longrightarrow> msg_nice \<in> set (non_root_messages sys cfg))"
  by (auto simp add: non_root_messages_def Let_def)

lemma non_root_block:
  assumes "set (non_root_messages sys cfg) \<subseteq> S"
  shows "cmd_list (arg cfg) \<noteq> [] \<longrightarrow> msg_cmd \<in> S"
    and "groups cfg \<noteq> [] \<longrightarrow> msg_group \<in> S"
    and "nice (arg cfg) < 0 \<longrightarrow> msg_nice \<in> S"
    and "\<not> no_new_privs (arg cfg) \<longrightarrow> msg_no_new_privs \<in> S"
    and "set (fst (check_bindfs sys [] (bindfs_list (arg cfg)))) \<subseteq> S"
    and "chroot_path (arg cfg) \<noteq> [] \<longrightarrow>
           set (check_path_permission sys
                  (follow_binds sys (snd (check_bindfs sys [] (bindfs_list (arg cfg))))
                     (chroot_path (arg cfg))))
           \<subseteq> S"
    and "chdir_path (arg cfg) \<noteq> [] \<longrightarrow>
           set (check_path_permission sys
                  (follow_binds sys (snd (check_bindfs sys [] (bindfs_list (arg cfg))))
                     (join sys (chroot_path (arg cfg)) (chdir_path (arg cfg)))))
           \<subseteq> S"
    and "(\<exists>p \<in> set (remount_list (arg cfg)). fst p \<notin> bindfs_dest_set (arg cfg)) \<longrightarrow>
           msg_remount \<in> S"
proof -
  note parts = non_root_messages_parts [of cfg sys]
  from parts [THEN conjunct1] assms
  show "cmd_list (arg cfg) \<noteq> [] \<longrightarrow> msg_cmd \<in> S" by blast
  from parts [THEN conjunct2, THEN conjunct1] assms
  show "groups cfg \<noteq> [] \<longrightarrow> msg_group \<in> S" by blast
  from parts [THEN conjunct2, THEN conjunct2, THEN conjunct1] assms
  show "set (fst (check_bindfs sys [] (bindfs_list (arg cfg)))) \<subseteq> S" by blast
  from parts [THEN conjunct2, THEN conjunct2, THEN conjunct2, THEN conjunct1] assms
  show "chroot_path (arg cfg) \<noteq> [] \<longrightarrow>
           set (check_path_permission sys
                  (follow_binds sys (snd (check_bindfs sys [] (bindfs_list (arg cfg))))
                     (chroot_path (arg cfg))))
           \<subseteq> S" by blast
  from parts [THEN conjunct2, THEN conjunct2, THEN conjunct2, THEN conjunct2, THEN conjunct1] assms
  show "chdir_path (arg cfg) \<noteq> [] \<longrightarrow>
           set (check_path_permission sys
                  (follow_binds sys (snd (check_bindfs sys [] (bindfs_list (arg cfg))))
                     (join sys (chroot_path (arg cfg)) (chdir_path (arg cfg)))))
           \<subseteq> S" by blast
  from parts [THEN conjunct2, THEN conjunct2, THEN conjunct2, THEN conjunct2, THEN conjunct2,
      THEN conjunct1] assms
  show "(\<exists>p \<in> set (remount_list (arg cfg)). fst p \<notin> bindfs_dest_set (arg cfg)) \<longrightarrow>
           msg_remount \<in> S" by blast
  from parts [THEN conjunct2, THEN conjunct2, THEN conjunct2, THEN conjunct2, THEN conjunct2,
      THEN conjunct2, THEN conjunct1] assms
  show "\<not> no_new_privs (arg cfg) \<longrightarrow> msg_no_new_privs \<in> S" by blast
  from parts [THEN conjunct2, THEN conjunct2, THEN conjunct2, THEN conjunct2, THEN conjunct2,
      THEN conjunct2, THEN conjunct2] assms
  show "nice (arg cfg) < 0 \<longrightarrow> msg_nice \<in> S" by blast
qed

lemma non_root_binds:
  assumes "set (fst (check_bindfs sys [] ps)) \<subseteq> S"
  shows "\<forall>dest src. (dest, src) \<in> set ps \<longrightarrow>
           \<not> is_absolute sys src \<longrightarrow> msg_relative src \<in> S"
proof (intro allI impI)
  fix dest src
  assume m: "(dest, src) \<in> set ps" and "\<not> is_absolute sys src"
  from check_bindfs_relative [OF this, of "[]"] assms
  show "msg_relative src \<in> S" by blast
qed

lemma non_root_binds_at:
  assumes "set (fst (check_bindfs sys [] ps)) \<subseteq> S"
  shows "\<forall>ps1 dest src ps2. ps = ps1 @ (dest, src) # ps2 \<longrightarrow>
           set (check_path_permission sys (follow_binds sys (snd (check_bindfs sys [] ps1)) src)) \<subseteq> S"
  using check_bindfs_at [of ps _ _ _ _ sys "[]"] assms by blast


text \<open>
  C4. The check of the configuration collects a message for every violation it finds:
  a uid of 0, a gid of 0, an empty command, an empty syscall whitelist and, for a caller
  who is not root, another uid or gid, \<^verbatim>\<open>--cmd\<close>, \<^verbatim>\<open>--group\<close>, a negative \<^verbatim>\<open>--nice\<close>,
  \<^verbatim>\<open>--no-new-privs false\<close>, a source of a bind, a chroot path or a chdir path that (after
  the earlier binds are followed) is relative or cannot be read, and a \<^verbatim>\<open>--remount-ro\<close>
  whose destination is no destination of a bind. The source of a bind is checked after the
  binds before it in the list are followed, the chroot and chdir paths after all of them;
  the binds are accumulated in the order of the list, each with its source followed, and
  the last bind whose destination, with a slash, is a prefix of a path replaces it. With at least one message collected, the
  program prints every message to the standard error, in the order of the checks, and
  exits with 1; the trace holds nothing else, so the cgroup is not created, the child is
  not spawned and nothing is written to fd 3.
\<close>

theorem config_errors_collected:
  fixes sys :: sys and cfg :: config
  defines "msgs \<equiv> error_messages sys cfg"
    and "binds \<equiv> snd (check_bindfs sys [] (bindfs_list (arg cfg)))"
  shows
   "(uid (arg cfg) = 0 \<longrightarrow> msg_uid_zero \<in> set msgs)
    \<and> (gid (arg cfg) = 0 \<longrightarrow> msg_gid_zero \<in> set msgs)
    \<and> (args (arg cfg) = [] \<longrightarrow> msg_no_command \<in> set msgs)
    \<and> (syscall_list (arg cfg) = [] \<and> syscall_action (arg cfg) = DEFAULT_EPERM \<longrightarrow>
         msg_syscalls \<in> set msgs)
    \<and> (getuid sys \<noteq> 0 \<longrightarrow>
         (uid (arg cfg) \<noteq> 0 \<and> uid (arg cfg) \<noteq> getuid sys \<longrightarrow> msg_uid_other \<in> set msgs)
       \<and> (gid (arg cfg) \<noteq> 0 \<and> gid (arg cfg) \<noteq> getgid sys \<longrightarrow> msg_gid_other \<in> set msgs)
       \<and> (cmd_list (arg cfg) \<noteq> [] \<longrightarrow> msg_cmd \<in> set msgs)
       \<and> (groups cfg \<noteq> [] \<longrightarrow> msg_group \<in> set msgs)
       \<and> (nice (arg cfg) < 0 \<longrightarrow> msg_nice \<in> set msgs)
       \<and> (\<not> no_new_privs (arg cfg) \<longrightarrow> msg_no_new_privs \<in> set msgs)
       \<and> (\<forall>dest src. (dest, src) \<in> set (bindfs_list (arg cfg)) \<longrightarrow>
             \<not> is_absolute sys src \<longrightarrow> msg_relative src \<in> set msgs)
       \<and> (\<forall>ps1 dest src ps2. bindfs_list (arg cfg) = ps1 @ (dest, src) # ps2 \<longrightarrow>
             set (check_path_permission sys (follow_binds sys (snd (check_bindfs sys [] ps1)) src))
             \<subseteq> set msgs)
       \<and> (chroot_path (arg cfg) \<noteq> [] \<longrightarrow>
             set (check_path_permission sys (follow_binds sys binds (chroot_path (arg cfg))))
             \<subseteq> set msgs)
       \<and> (chdir_path (arg cfg) \<noteq> [] \<longrightarrow>
             set (check_path_permission sys
                    (follow_binds sys binds (join sys (chroot_path (arg cfg)) (chdir_path (arg cfg)))))
             \<subseteq> set msgs)
       \<and> ((\<exists>p \<in> set (remount_list (arg cfg)). fst p \<notin> bindfs_dest_set (arg cfg)) \<longrightarrow>
             msg_remount \<in> set msgs))
    \<and> (\<forall>path. (\<not> is_absolute sys path \<longrightarrow>
                   check_path_permission sys path = [msg_relative path]) \<and>
                (is_absolute sys path \<and>
                 \<not> is_accessible sys path (if is_dir sys path then R_OK OR X_OK else R_OK) \<longrightarrow>
                   check_path_permission sys path =
                     [msg_permission (if is_dir sys path then R_OK OR X_OK else R_OK) path]))
    \<and> (\<forall>bs ps d s.
          snd (check_bindfs sys bs []) = bs \<and>
          snd (check_bindfs sys bs (ps @ [(d, s)])) =
            snd (check_bindfs sys bs ps) @
            [(expand sys d, follow_binds sys (snd (check_bindfs sys bs ps)) (expand sys s))])
    \<and> (\<forall>bs d s path.
          follow_binds sys [] path = (if is_absolute sys path then expand sys path else path) \<and>
          follow_binds sys (bs @ [(d, s)]) path =
            (if is_absolute sys path \<and> take (Suc (length d)) (expand sys path) = d @ ''/''
             then s @ drop (length d) (expand sys path)
             else follow_binds sys bs path))
    \<and> check_config sys cfg = (if msgs = [] then Inr () else Inl (ConfigErrors msgs))
    \<and> (\<forall>w argv. 1 < length argv \<and>
                  parse_cli_options sys (init_default_config sys) argv = Inr cfg \<and> msgs \<noteq> [] \<longrightarrow>
          main sys w argv =
            Some (map (\<lambda>m. Stderr (m @ [CHR 0x0A, CHR 0x0A])) msgs @
                  [Stderr (''Please fix these errors and try again.'' @ [CHR 0x0A])], 1))"
proof -
  have sub: "getuid sys \<noteq> 0 \<Longrightarrow> set (non_root_messages sys cfg) \<subseteq> set msgs"
    by (auto simp add: msgs_def error_messages_def Let_def)
  have always: "(uid (arg cfg) = 0 \<longrightarrow> msg_uid_zero \<in> set msgs)"
    "(gid (arg cfg) = 0 \<longrightarrow> msg_gid_zero \<in> set msgs)"
    "(args (arg cfg) = [] \<longrightarrow> msg_no_command \<in> set msgs)"
    "(syscall_list (arg cfg) = [] \<and> syscall_action (arg cfg) = DEFAULT_EPERM \<longrightarrow>
         msg_syscalls \<in> set msgs)"
    by (simp_all add: msgs_def error_messages_def Let_def)
  have ids: "getuid sys \<noteq> 0 \<Longrightarrow>
      (uid (arg cfg) \<noteq> 0 \<and> uid (arg cfg) \<noteq> getuid sys \<longrightarrow> msg_uid_other \<in> set msgs) \<and>
      (gid (arg cfg) \<noteq> 0 \<and> gid (arg cfg) \<noteq> getgid sys \<longrightarrow> msg_gid_other \<in> set msgs)"
    by (simp add: msgs_def error_messages_def Let_def)
  have non_root: "getuid sys \<noteq> 0 \<longrightarrow>
         (uid (arg cfg) \<noteq> 0 \<and> uid (arg cfg) \<noteq> getuid sys \<longrightarrow> msg_uid_other \<in> set msgs)
       \<and> (gid (arg cfg) \<noteq> 0 \<and> gid (arg cfg) \<noteq> getgid sys \<longrightarrow> msg_gid_other \<in> set msgs)
       \<and> (cmd_list (arg cfg) \<noteq> [] \<longrightarrow> msg_cmd \<in> set msgs)
       \<and> (groups cfg \<noteq> [] \<longrightarrow> msg_group \<in> set msgs)
       \<and> (nice (arg cfg) < 0 \<longrightarrow> msg_nice \<in> set msgs)
       \<and> (\<not> no_new_privs (arg cfg) \<longrightarrow> msg_no_new_privs \<in> set msgs)
       \<and> (\<forall>dest src. (dest, src) \<in> set (bindfs_list (arg cfg)) \<longrightarrow>
             \<not> is_absolute sys src \<longrightarrow> msg_relative src \<in> set msgs)
       \<and> (\<forall>ps1 dest src ps2. bindfs_list (arg cfg) = ps1 @ (dest, src) # ps2 \<longrightarrow>
             set (check_path_permission sys (follow_binds sys (snd (check_bindfs sys [] ps1)) src))
             \<subseteq> set msgs)
       \<and> (chroot_path (arg cfg) \<noteq> [] \<longrightarrow>
             set (check_path_permission sys (follow_binds sys binds (chroot_path (arg cfg))))
             \<subseteq> set msgs)
       \<and> (chdir_path (arg cfg) \<noteq> [] \<longrightarrow>
             set (check_path_permission sys
                    (follow_binds sys binds (join sys (chroot_path (arg cfg)) (chdir_path (arg cfg)))))
             \<subseteq> set msgs)
       \<and> ((\<exists>p \<in> set (remount_list (arg cfg)). fst p \<notin> bindfs_dest_set (arg cfg)) \<longrightarrow>
             msg_remount \<in> set msgs)"
  proof (rule impI)
    assume nr: "getuid sys \<noteq> 0"
    note b = non_root_block [OF sub [OF nr], folded binds_def]
    from ids [OF nr] have i: "uid (arg cfg) \<noteq> 0 \<and> uid (arg cfg) \<noteq> getuid sys \<longrightarrow> msg_uid_other \<in> set msgs"
      "gid (arg cfg) \<noteq> 0 \<and> gid (arg cfg) \<noteq> getgid sys \<longrightarrow> msg_gid_other \<in> set msgs"
      by (rule conjunct1, rule conjunct2)
    show "(uid (arg cfg) \<noteq> 0 \<and> uid (arg cfg) \<noteq> getuid sys \<longrightarrow> msg_uid_other \<in> set msgs)
       \<and> (gid (arg cfg) \<noteq> 0 \<and> gid (arg cfg) \<noteq> getgid sys \<longrightarrow> msg_gid_other \<in> set msgs)
       \<and> (cmd_list (arg cfg) \<noteq> [] \<longrightarrow> msg_cmd \<in> set msgs)
       \<and> (groups cfg \<noteq> [] \<longrightarrow> msg_group \<in> set msgs)
       \<and> (nice (arg cfg) < 0 \<longrightarrow> msg_nice \<in> set msgs)
       \<and> (\<not> no_new_privs (arg cfg) \<longrightarrow> msg_no_new_privs \<in> set msgs)
       \<and> (\<forall>dest src. (dest, src) \<in> set (bindfs_list (arg cfg)) \<longrightarrow>
             \<not> is_absolute sys src \<longrightarrow> msg_relative src \<in> set msgs)
       \<and> (\<forall>ps1 dest src ps2. bindfs_list (arg cfg) = ps1 @ (dest, src) # ps2 \<longrightarrow>
             set (check_path_permission sys (follow_binds sys (snd (check_bindfs sys [] ps1)) src))
             \<subseteq> set msgs)
       \<and> (chroot_path (arg cfg) \<noteq> [] \<longrightarrow>
             set (check_path_permission sys (follow_binds sys binds (chroot_path (arg cfg))))
             \<subseteq> set msgs)
       \<and> (chdir_path (arg cfg) \<noteq> [] \<longrightarrow>
             set (check_path_permission sys
                    (follow_binds sys binds (join sys (chroot_path (arg cfg)) (chdir_path (arg cfg)))))
             \<subseteq> set msgs)
       \<and> ((\<exists>p \<in> set (remount_list (arg cfg)). fst p \<notin> bindfs_dest_set (arg cfg)) \<longrightarrow>
             msg_remount \<in> set msgs)"
      by (intro conjI) (rule i b(1-4) non_root_binds [OF b(5)] non_root_binds_at [OF b(5)] b(6-8))+
  qed
  have paths: "\<forall>path. (\<not> is_absolute sys path \<longrightarrow>
                   check_path_permission sys path = [msg_relative path]) \<and>
                (is_absolute sys path \<and>
                 \<not> is_accessible sys path (if is_dir sys path then R_OK OR X_OK else R_OK) \<longrightarrow>
                   check_path_permission sys path =
                     [msg_permission (if is_dir sys path then R_OK OR X_OK else R_OK) path])"
    by (simp add: check_path_permission_def Let_def)
  have accumulated: "\<forall>bs ps d s.
          snd (check_bindfs sys bs []) = bs \<and>
          snd (check_bindfs sys bs (ps @ [(d, s)])) =
            snd (check_bindfs sys bs ps) @
            [(expand sys d, follow_binds sys (snd (check_bindfs sys bs ps)) (expand sys s))]"
    by (simp add: check_bindfs_binds)
  have followed: "\<forall>bs d s path.
          follow_binds sys [] path = (if is_absolute sys path then expand sys path else path) \<and>
          follow_binds sys (bs @ [(d, s)]) path =
            (if is_absolute sys path \<and> take (Suc (length d)) (expand sys path) = d @ ''/''
             then s @ drop (length d) (expand sys path)
             else follow_binds sys bs path)"
    using follow_binds_last by blast
  have chk: "check_config sys cfg = (if msgs = [] then Inr () else Inl (ConfigErrors msgs))"
    by (simp add: check_config_def msgs_def Let_def)
  have prog: "\<forall>w argv. 1 < length argv \<and>
                  parse_cli_options sys (init_default_config sys) argv = Inr cfg \<and> msgs \<noteq> [] \<longrightarrow>
          main sys w argv =
            Some (map (\<lambda>m. Stderr (m @ [CHR 0x0A, CHR 0x0A])) msgs @
                  [Stderr (''Please fix these errors and try again.'' @ [CHR 0x0A])], 1)"
    by (simp add: main_def chk halt_events_def halt_code_def)
  show ?thesis
    by (intro conjI) (rule always non_root paths accumulated followed chk prog)+
qed

text \<open>
  C4, witness: a caller who is not root runs \<^verbatim>\<open>lrun --uid 0 --cmd ls --bindfs /mnt rel
  --remount-ro /x\<close> (the example helper reads the empty string as 0) and gives no command.
  Five messages are printed and the program exits with 1. Where \<^verbatim>\<open>/secret/x\<close> cannot be
  read, \<^verbatim>\<open>lrun --bindfs /mnt /secret --bindfs /data /mnt/x /bin/true\<close> is rejected: the
  source of the second bind is \<^verbatim>\<open>/secret/x\<close> after the first bind is followed.
\<close>

theorem config_errors_collected_witness:
  "main example_sys example_world
     [''lrun'', ''--uid'', '''', ''--cmd'', ''ls'', ''--bindfs'', ''/mnt'', ''rel'',
      ''--remount-ro'', ''/x''] =
   Some ([Stderr (msg_uid_zero @ [CHR 0x0A, CHR 0x0A]),
          Stderr (msg_no_command @ [CHR 0x0A, CHR 0x0A]),
          Stderr (msg_cmd @ [CHR 0x0A, CHR 0x0A]),
          Stderr (msg_relative ''rel'' @ [CHR 0x0A, CHR 0x0A]),
          Stderr (msg_remount @ [CHR 0x0A, CHR 0x0A]),
          Stderr (''Please fix these errors and try again.'' @ [CHR 0x0A])], 1)
   \<and> follow_binds (example_sys\<lparr>is_accessible := (\<lambda>p m. p \<noteq> ''/secret/x'')\<rparr>)
        (snd (check_bindfs (example_sys\<lparr>is_accessible := (\<lambda>p m. p \<noteq> ''/secret/x'')\<rparr>) []
                [(''/mnt'', ''/secret'')])) ''/mnt/x'' = ''/secret/x''
   \<and> main (example_sys\<lparr>is_accessible := (\<lambda>p m. p \<noteq> ''/secret/x'')\<rparr>) example_world
       [''lrun'', ''--bindfs'', ''/mnt'', ''/secret'', ''--bindfs'', ''/data'', ''/mnt/x'',
        ''/bin/true''] =
     Some ([Stderr (msg_permission R_OK ''/secret/x'' @ [CHR 0x0A, CHR 0x0A]),
            Stderr (''Please fix these errors and try again.'' @ [CHR 0x0A])], 1)"
proof -
  let ?argv = "[''lrun'', ''--uid'', '''', ''--cmd'', ''ls'', ''--bindfs'', ''/mnt'', ''rel'',
      ''--remount-ro'', ''/x'']"
  let ?c = "upd_arg (\<lambda>a. a\<lparr>args := [], uid := 0, cmd_list := [''ls''],
      bindfs_list := [(''/mnt'', ''rel'')], bindfs_dest_set := {''/mnt''},
      remount_list := [(''/x'', 1)]\<rparr>) (init_default_config example_sys)"
  have p: "parse_cli_options example_sys (init_default_config example_sys) ?argv = Inr ?c"
    by (simp add: parse_cli_options_def parse_option_def REQUIRE_NARGV_def Let_def
        remount_ro_option_def bindfs_option_def or_flag_def MS_RDONLY_def to_uint32_def
        set_args_def upd_arg_def init_default_config_def example_sys_def)
  have m: "error_messages example_sys ?c =
      [msg_uid_zero, msg_no_command, msg_cmd, msg_relative ''rel'', msg_remount]"
    by (simp add: error_messages_def non_root_messages_def Let_def check_path_permission_def
        follow_binds_def upd_arg_def init_default_config_def example_sys_def)
  note t = config_errors_collected [where sys = example_sys and cfg = ?c, THEN conjunct2, THEN conjunct2,
      THEN conjunct2, THEN conjunct2, THEN conjunct2, THEN conjunct2, THEN conjunct2,
      THEN conjunct2, THEN conjunct2, rule_format,
      of ?argv example_world]
  from t p have first: "main example_sys example_world ?argv =
   Some ([Stderr (msg_uid_zero @ [CHR 0x0A, CHR 0x0A]),
          Stderr (msg_no_command @ [CHR 0x0A, CHR 0x0A]),
          Stderr (msg_cmd @ [CHR 0x0A, CHR 0x0A]),
          Stderr (msg_relative ''rel'' @ [CHR 0x0A, CHR 0x0A]),
          Stderr (msg_remount @ [CHR 0x0A, CHR 0x0A]),
          Stderr (''Please fix these errors and try again.'' @ [CHR 0x0A])], 1)"
    unfolding m by simp
  let ?sys = "example_sys\<lparr>is_accessible := (\<lambda>p m. p \<noteq> ''/secret/x'')\<rparr>"
  let ?argv2 = "[''lrun'', ''--bindfs'', ''/mnt'', ''/secret'', ''--bindfs'', ''/data'', ''/mnt/x'',
        ''/bin/true'']"
  let ?c2 = "upd_arg (\<lambda>a. a\<lparr>args := [''/bin/true''],
      bindfs_list := [(''/mnt'', ''/secret''), (''/data'', ''/mnt/x'')],
      bindfs_dest_set := {''/data'', ''/mnt''}\<rparr>) (init_default_config ?sys)"
  have p2: "parse_cli_options ?sys (init_default_config ?sys) ?argv2 = Inr ?c2"
    by (simp add: parse_cli_options_def parse_option_def REQUIRE_NARGV_def Let_def
        bindfs_option_def set_args_def upd_arg_def init_default_config_def example_sys_def)
  have nr: "getuid ?sys \<noteq> 0" by (simp add: example_sys_def)
  have split: "bindfs_list (arg ?c2) = [(''/mnt'', ''/secret'')] @ (''/data'', ''/mnt/x'') # []"
    by (simp add: upd_arg_def)
  have f: "follow_binds ?sys (snd (check_bindfs ?sys [] [(''/mnt'', ''/secret'')])) ''/mnt/x'' =
      ''/secret/x''"
    by (simp add: follow_binds_def Let_def example_sys_def)
  note block = config_errors_collected [where sys = ?sys and cfg = ?c2, THEN conjunct2, THEN conjunct2,
      THEN conjunct2, THEN conjunct2, THEN conjunct1, THEN mp, OF nr]
  from block [THEN conjunct2, THEN conjunct2, THEN conjunct2, THEN conjunct2, THEN conjunct2,
      THEN conjunct2, THEN conjunct2, THEN conjunct1, rule_format, OF split]
  have "msg_permission R_OK ''/secret/x'' \<in> set (error_messages ?sys ?c2)"
    unfolding f by (simp add: check_path_permission_def example_sys_def)
  moreover have "length (error_messages ?sys ?c2) = 1"
    by (simp add: error_messages_def non_root_messages_def Let_def check_path_permission_def
        follow_binds_def upd_arg_def init_default_config_def example_sys_def)
  ultimately have m2: "error_messages ?sys ?c2 = [msg_permission R_OK ''/secret/x'']"
    by (cases "error_messages ?sys ?c2") auto
  note t2 = config_errors_collected [where sys = ?sys and cfg = ?c2, THEN conjunct2, THEN conjunct2,
      THEN conjunct2, THEN conjunct2, THEN conjunct2, THEN conjunct2, THEN conjunct2,
      THEN conjunct2, THEN conjunct2, rule_format,
      of ?argv2 example_world]
  from t2 p2 have second: "main ?sys example_world ?argv2 =
     Some ([Stderr (msg_permission R_OK ''/secret/x'' @ [CHR 0x0A, CHR 0x0A]),
            Stderr (''Please fix these errors and try again.'' @ [CHR 0x0A])], 1)"
    unfolding m2 by simp
  from first f second show ?thesis by (intro conjI)
qed

end
